theory Spec2Isabelle
  imports Main
begin

section \<open>Exceptions\<close>

text \<open>
  The exception classes of \<^verbatim>\<open>app/core/shared/exceptions.py\<close> that the managers raise,
  each carrying its message (\<^verbatim>\<open>str(e)\<close>).  \<open>OtherError\<close> stands for every other
  subclass of \<^verbatim>\<open>Exception\<close> (a failure of the remote client, \<^verbatim>\<open>KeyError\<close>,
  \<^verbatim>\<open>TypeError\<close>, ...).
\<close>

datatype exn =
    ValidationError string
  | DomainError string
  | HostingError string
  | DNSError string
  | OtherError string

fun str_exn :: "exn \<Rightarrow> string" where
  "str_exn (ValidationError m) = m"
| "str_exn (DomainError m) = m"
| "str_exn (HostingError m) = m"
| "str_exn (DNSError m) = m"
| "str_exn (OtherError m) = m"

fun is_ValidationError :: "exn \<Rightarrow> bool" where
  "is_ValidationError (ValidationError m) = True"
| "is_ValidationError e = False"

fun is_DomainError :: "exn \<Rightarrow> bool" where
  "is_DomainError (DomainError m) = True"
| "is_DomainError e = False"

fun is_HostingError :: "exn \<Rightarrow> bool" where
  "is_HostingError (HostingError m) = True"
| "is_HostingError e = False"

fun is_DNSError :: "exn \<Rightarrow> bool" where
  "is_DNSError (DNSError m) = True"
| "is_DNSError e = False"

section \<open>Regular expressions of the \<^verbatim>\<open>re\<close> module\<close>

text \<open>
  The patterns of the source use character classes given by ranges, concatenation,
  \<^verbatim>\<open>?\<close>, \<^verbatim>\<open>*\<close>, \<^verbatim>\<open>+\<close> and counted repetition \<^verbatim>\<open>{m,n}\<close> / \<^verbatim>\<open>{m,}\<close>.
  \<open>Cls\<close> is a class as the list of its inclusive ranges (a single character \<open>c\<close> is
  the range \<open>(c, c)\<close>); \<open>Rep r m None\<close> is \<^verbatim>\<open>r{m,}\<close> and \<open>Rep r m (Some n)\<close> is
  \<^verbatim>\<open>r{m,n}\<close>.
\<close>

datatype rexp =
    Zero
  | Eps
  | Cls "(char \<times> char) list"
  | Seq rexp rexp
  | Alt rexp rexp
  | Star rexp
  | Rep rexp nat "nat option"

definition in_range :: "char \<Rightarrow> char \<times> char \<Rightarrow> bool" where
  "in_range c rg = ((of_char (fst rg) :: nat) \<le> of_char c \<and> (of_char c :: nat) \<le> of_char (snd rg))"

definition in_class :: "(char \<times> char) list \<Rightarrow> char \<Rightarrow> bool" where
  "in_class rs c = list_ex (in_range c) rs"

abbreviation Lit :: "char \<Rightarrow> rexp" where
  "Lit c \<equiv> Cls [(c, c)]"

definition Opt :: "rexp \<Rightarrow> rexp" where
  "Opt r = Alt r Eps"

definition Plus :: "rexp \<Rightarrow> rexp" where
  "Plus r = Seq r (Star r)"

text \<open>The upper bound of a counted repetition after one more iteration.\<close>

fun dec_bound :: "nat option \<Rightarrow> nat option" where
  "dec_bound None = None"
| "dec_bound (Some n) = Some (n - 1)"

fun bound_reached :: "nat option \<Rightarrow> bool" where
  "bound_reached None = False"
| "bound_reached (Some n) = (n = 0)"

fun bound_ok :: "nat \<Rightarrow> nat option \<Rightarrow> bool" where
  "bound_ok m None = True"
| "bound_ok m (Some n) = (m \<le> n)"

fun nullable :: "rexp \<Rightarrow> bool" where
  "nullable Zero = False"
| "nullable Eps = True"
| "nullable (Cls rs) = False"
| "nullable (Seq r s) = (nullable r \<and> nullable s)"
| "nullable (Alt r s) = (nullable r \<or> nullable s)"
| "nullable (Star r) = True"
| "nullable (Rep r m hi) = (bound_ok m hi \<and> (m = 0 \<or> nullable r))"

text \<open>Concatenation and alternative that drop the dead branches of a derivative.\<close>

fun seq :: "rexp \<Rightarrow> rexp \<Rightarrow> rexp" where
  "seq Zero s = Zero"
| "seq Eps s = s"
| "seq r s = Seq r s"

fun alt :: "rexp \<Rightarrow> rexp \<Rightarrow> rexp" where
  "alt Zero s = s"
| "alt r Zero = r"
| "alt r s = Alt r s"

fun deriv :: "char \<Rightarrow> rexp \<Rightarrow> rexp" where
  "deriv c Zero = Zero"
| "deriv c Eps = Zero"
| "deriv c (Cls rs) = (if in_class rs c then Eps else Zero)"
| "deriv c (Seq r s) =
     (if nullable r then alt (seq (deriv c r) s) (deriv c s) else seq (deriv c r) s)"
| "deriv c (Alt r s) = alt (deriv c r) (deriv c s)"
| "deriv c (Star r) = seq (deriv c r) (Star r)"
| "deriv c (Rep r m hi) =
     (if bound_reached hi \<or> \<not> bound_ok m hi then Zero
      else seq (deriv c r) (Rep r (m - 1) (dec_bound hi)))"

fun full_match :: "rexp \<Rightarrow> string \<Rightarrow> bool" where
  "full_match r [] = nullable r"
| "full_match r (c # cs) = full_match (deriv c r) cs"

text \<open>
  \<^verbatim>\<open>bool(re.match('^...$', s))\<close>: the pattern between the anchors has to match from the
  start of \<open>s\<close> up to its end, where \<^verbatim>\<open>$\<close> also matches just before a newline that
  ends the string.
\<close>

definition re_match :: "rexp \<Rightarrow> string \<Rightarrow> bool" where
  "re_match r s =
     (full_match r s \<or> (s \<noteq> [] \<and> last s = CHR 0x0A \<and> full_match r (butlast s)))"


section \<open>String operations of Python used by the validators\<close>

text \<open>\<^verbatim>\<open>s.split(sep)\<close> for a separator of one character: never an empty list.\<close>

fun split_on :: "char \<Rightarrow> string \<Rightarrow> string list" where
  "split_on sep [] = [[]]"
| "split_on sep (c # cs) =
     (if c = sep then [] # split_on sep cs
      else (case split_on sep cs of [] \<Rightarrow> [[c]] | p # ps \<Rightarrow> (c # p) # ps))"

definition startswith :: "string \<Rightarrow> string \<Rightarrow> bool" where
  "startswith s p = (take (length p) s = p)"

definition endswith :: "string \<Rightarrow> string \<Rightarrow> bool" where
  "endswith s p = (length p \<le> length s \<and> drop (length s - length p) s = p)"

text \<open>\<^verbatim>\<open>p in s\<close> for strings: \<open>p\<close> occurs as a contiguous part of \<open>s\<close>.\<close>

fun contains :: "string \<Rightarrow> string \<Rightarrow> bool" where
  "contains [] p = (p = [])"
| "contains (c # cs) p = (startswith (c # cs) p \<or> contains cs p)"

text \<open>\<^verbatim>\<open>str(n)\<close> for an integer.\<close>

definition digit_char :: "nat \<Rightarrow> char" where
  "digit_char d = ''0123456789'' ! d"

fun digits :: "nat \<Rightarrow> string" where
  "digits n = (if n < 10 then [digit_char n] else digits (n div 10) @ [digit_char (n mod 10)])"

definition str_int :: "int \<Rightarrow> string" where
  "str_int i = (if i < 0 then CHR ''-'' # digits (nat (- i)) else digits (nat i))"

section \<open>Domain-name syntax: the two validators\<close>

definition alnum :: "(char \<times> char) list" where
  "alnum = [(CHR ''a'', CHR ''z''), (CHR ''A'', CHR ''Z''), (CHR ''0'', CHR ''9'')]"

definition alnum_hyphen :: "(char \<times> char) list" where
  "alnum_hyphen = [(CHR ''a'', CHR ''z''), (CHR ''A'', CHR ''Z''), (CHR ''0'', CHR ''9''),
                   (CHR ''-'', CHR ''-'')]"

definition alpha :: "(char \<times> char) list" where
  "alpha = [(CHR ''a'', CHR ''z''), (CHR ''A'', CHR ''Z'')]"

text \<open>
  \<^verbatim>\<open>[a-zA-Z0-9]([a-zA-Z0-9\-]{0,61}[a-zA-Z0-9])?\<close>: one label of 1 to 63 characters
  (it occurs in the pattern of \<^verbatim>\<open>DomainManager\<close> and twice in the DNS-name pattern).
\<close>

definition label_pattern :: rexp where
  "label_pattern =
     Seq (Cls alnum) (Opt (Seq (Rep (Cls alnum_hyphen) 0 (Some 61)) (Cls alnum)))"

text \<open>
  \<^verbatim>\<open>DomainManager._validate_domain_name\<close>, pattern
  \<^verbatim>\<open>^[a-zA-Z0-9]([a-zA-Z0-9\-]{0,61}[a-zA-Z0-9])?(\.[a-zA-Z]{2,})+$\<close>.
\<close>

definition domain_name_pattern :: rexp where
  "domain_name_pattern =
     Seq label_pattern (Plus (Seq (Lit (CHR ''.'')) (Rep (Cls alpha) 2 None)))"

definition validate_domain_name :: "string \<Rightarrow> bool" where
  "validate_domain_name domain_name =
     (if domain_name = [] \<or> length domain_name > 253 then False
      else re_match domain_name_pattern domain_name)"

text \<open>
  \<^verbatim>\<open>DomainValidationService.validate_domain_syntax\<close>: the result dictionary with its
  \<^verbatim>\<open>valid\<close> flag and the error messages in the order they are appended.
\<close>

record validation_result =
  valid :: bool
  errors :: "string list"
  warnings :: "string list"

definition invalidate :: "string \<Rightarrow> validation_result \<Rightarrow> validation_result" where
  "invalidate msg result = result\<lparr>valid := False, errors := errors result @ [msg]\<rparr>"

definition domain_chars :: "(char \<times> char) list" where
  "domain_chars = [(CHR ''a'', CHR ''z''), (CHR ''A'', CHR ''Z''), (CHR ''0'', CHR ''9''),
                   (CHR ''.'', CHR ''.''), (CHR ''-'', CHR ''-'')]"

definition check_part :: "string \<Rightarrow> validation_result \<Rightarrow> validation_result" where
  "check_part part result =
     (if length part < 1 then invalidate ''Domain name parts cannot be empty'' result
      else if length part > 63 then
        invalidate ''Domain name part too long (maximum 63 characters)'' result
      else result)"

definition validate_domain_syntax :: "string \<Rightarrow> validation_result" where
  "validate_domain_syntax domain_name =
     (let result = \<lparr>valid = True, errors = [], warnings = []\<rparr>;
          result = (if length domain_name < 4 then
                      invalidate ''Domain name too short (minimum 4 characters)'' result
                    else if length domain_name > 253 then
                      invalidate ''Domain name too long (maximum 253 characters)'' result
                    else result);
          result = (if \<not> re_match (Plus (Cls domain_chars)) domain_name then
                      invalidate ''Domain name contains invalid characters'' result
                    else result);
          result = (if startswith domain_name ''-'' \<or> endswith domain_name ''-'' then
                      invalidate ''Domain name cannot start or end with hyphen'' result
                    else result);
          result = (if contains domain_name ''..'' then
                      invalidate ''Domain name cannot contain consecutive dots'' result
                    else result);
          parts = split_on (CHR ''.'') domain_name;
          result = (if length parts < 2 then
                      invalidate ''Domain name must have at least one dot'' result
                    else result)
      in fold check_part parts result)"

text \<open>
  The grammar of domain names in the words of the specification (section 4.1), for the
  comparison with the two validators: "each label 1-63 chars, alphanumeric with internal
  hyphens only (no leading/trailing hyphen, no consecutive dots), overall length <= 253,
  at least one dot, underscores disallowed".  The labels are the parts between the dots.
\<close>

definition spec_label :: "string \<Rightarrow> bool" where
  "spec_label p =
     (1 \<le> length p \<and> length p \<le> 63 \<and> list_all (in_class alnum_hyphen) p \<and>
      hd p \<noteq> CHR ''-'' \<and> last p \<noteq> CHR ''-'')"

definition spec_domain_name :: "string \<Rightarrow> bool" where
  "spec_domain_name s =
     (length s \<le> 253 \<and> 2 \<le> length (split_on (CHR ''.'') s) \<and>
      list_all spec_label (split_on (CHR ''.'') s))"


section \<open>Dates\<close>

text \<open>
  A \<^verbatim>\<open>datetime\<close> is its number of microseconds since 0001-01-01T00:00:00, naive
  (\<^verbatim>\<open>datetime.now()\<close>) or timezone-aware (what \<^verbatim>\<open>fromisoformat\<close> returns for a string
  with an offset).  The type holds the instants up to 9999-12-31T23:59:59.999999, and a
  \<^verbatim>\<open>timedelta\<close> at most 999999999 days: arithmetic that leaves these ranges raises
  \<^verbatim>\<open>OverflowError\<close>, with the message of the check that fails first (the number of days
  is first converted to a C \<^verbatim>\<open>int\<close>).
\<close>

datatype datetime = Naive int | Aware int

definition day_us :: int where
  "day_us = 86400000000"

definition datetime_max :: int where
  "datetime_max = 315537897599999999"

text \<open>\<^verbatim>\<open>dt + timedelta(days=n)\<close> for a naive \<open>dt\<close>.\<close>

definition add_days :: "int \<Rightarrow> int \<Rightarrow> exn + datetime" where
  "add_days t n =
     (if n < - 2147483648 \<or> 2147483647 < n then
        Inl (OtherError ''Python int too large to convert to C int'')
      else if n < - 999999999 \<or> 999999999 < n then
        Inl (OtherError (''days='' @ str_int n @ ''; must have magnitude <= 999999999''))
      else if t + n * day_us < 0 \<or> datetime_max < t + n * day_us then
        Inl (OtherError ''date value out of range'')
      else Inr (Naive (t + n * day_us)))"

text \<open>
  \<^verbatim>\<open>(a - b).days\<close>: the difference of two datetimes of the same kind, in whole days
  rounded down; a naive and an aware datetime cannot be subtracted (\<^verbatim>\<open>TypeError\<close>).
\<close>

fun days_between :: "datetime \<Rightarrow> datetime \<Rightarrow> exn + int" where
  "days_between (Naive a) (Naive b) = Inr ((a - b) div day_us)"
| "days_between (Aware a) (Aware b) = Inr ((a - b) div day_us)"
| "days_between a b = Inl (OtherError ''can't subtract offset-naive and offset-aware datetimes'')"

section \<open>Domain Manager\<close>

subsection \<open>Data\<close>

datatype DomainStatus = ACTIVE | EXPIRED | PENDING | SUSPENDED | PENDING_TRANSFER

record ContactInfo =
  first_name :: string
  last_name :: string
  email :: string
  phone :: string
  address :: string
  city :: string
  country :: string
  zip_code :: string
  organization :: string

text \<open>The attributes of \<^verbatim>\<open>Domain\<close> that the manager sets.\<close>

record Domain =
  name :: string
  status :: DomainStatus
  expiry_date :: datetime
  registration_date :: datetime
  nameservers :: "string list"
  locked :: bool
  privacy_protection :: bool
  auto_renew :: bool

text \<open>The dictionary that \<^verbatim>\<open>register_domain\<close> sends to the registrar.\<close>

record registration_data =
  reg_domain :: string
  reg_years :: int
  reg_contacts :: ContactInfo
  reg_privacy :: bool
  reg_auto_renew :: bool

text \<open>
  A date field of the \<^verbatim>\<open>get_domain_info\<close> response as
  \<^verbatim>\<open>datetime.fromisoformat(response.get(key).replace('Z', '+00:00'))\<close> sees it: the key is
  missing (\<^verbatim>\<open>None\<close> has no \<^verbatim>\<open>replace\<close>), the string does not parse (with the message
  of the \<^verbatim>\<open>ValueError\<close>), or it parses to a datetime.
\<close>

datatype date_field = Missing | Unparsable string | Parsed datetime

record domain_info =
  info_status :: "string option"
  info_expiry_date :: date_field
  info_registration_date :: date_field
  info_nameservers :: "string list option"
  info_locked :: "bool option"
  info_privacy :: "bool option"
  info_auto_renew :: "bool option"

subsection \<open>The registrar client\<close>

text \<open>
  \<^verbatim>\<open>self.api_client\<close>: every call takes the state of the remote side, may change it,
  and returns a response or raises.  A response that is read with
  \<^verbatim>\<open>response.get(key, default)\<close> is the value under that key, if any.
\<close>

record 'r registrar =
  api_check_availability :: "string \<Rightarrow> 'r \<Rightarrow> (exn + bool option) \<times> 'r"
  api_register_domain :: "registration_data \<Rightarrow> 'r \<Rightarrow> (exn + unit) \<times> 'r"
  api_get_domain_status :: "string \<Rightarrow> 'r \<Rightarrow> (exn + bool option) \<times> 'r"
  api_get_domain_info :: "string \<Rightarrow> 'r \<Rightarrow> (exn + domain_info) \<times> 'r"
  api_enable_whois_privacy :: "string \<Rightarrow> 'r \<Rightarrow> (exn + bool option) \<times> 'r"

text \<open>\<^verbatim>\<open>response.get(key, False)\<close> for a boolean entry.\<close>

fun get_flag :: "bool option \<Rightarrow> bool" where
  "get_flag None = False"
| "get_flag (Some b) = b"

subsection \<open>Availability\<close>

definition check_domain_availability_try ::
  "'r registrar \<Rightarrow> string \<Rightarrow> 'r \<Rightarrow> (exn + bool) \<times> 'r" where
  "check_domain_availability_try api domain_name r =
     (if \<not> validate_domain_name domain_name then
        (Inl (ValidationError (''Invalid domain name: '' @ domain_name)), r)
      else (case api_check_availability api domain_name r of
              (Inl e, r') \<Rightarrow> (Inl e, r')
            | (Inr response, r') \<Rightarrow> (Inr (get_flag response), r')))"

definition check_domain_availability ::
  "'r registrar \<Rightarrow> string \<Rightarrow> 'r \<Rightarrow> (exn + bool) \<times> 'r" where
  "check_domain_availability api domain_name r =
     (case check_domain_availability_try api domain_name r of
        (Inl (ValidationError m), r') \<Rightarrow> (Inl (DomainError (''Invalid domain name: '' @ m)), r')
      | (Inl e, r') \<Rightarrow>
          (Inl (DomainError (''Failed to check domain availability: '' @ str_exn e)), r')
      | (Inr is_available, r') \<Rightarrow> (Inr is_available, r'))"

text \<open>
  The loop of \<^verbatim>\<open>check_bulk_domains_availability\<close> over the rest of the list, with the
  dictionary built so far.
\<close>

fun check_bulk_loop ::
  "'r registrar \<Rightarrow> string list \<Rightarrow> (string \<rightharpoonup> bool) \<Rightarrow> 'r \<Rightarrow> (string \<rightharpoonup> bool) \<times> 'r" where
  "check_bulk_loop api [] results r = (results, r)"
| "check_bulk_loop api (domain # rest) results r =
     (case check_domain_availability api domain r of
        (Inr b, r') \<Rightarrow> check_bulk_loop api rest (results(domain \<mapsto> b)) r'
      | (Inl e, r') \<Rightarrow> check_bulk_loop api rest (results(domain \<mapsto> False)) r')"

definition check_bulk_domains_availability ::
  "'r registrar \<Rightarrow> string list \<Rightarrow> 'r \<Rightarrow> (exn + (string \<rightharpoonup> bool)) \<times> 'r" where
  "check_bulk_domains_availability api domain_list r =
     (case check_bulk_loop api domain_list Map.empty r of
        (results, r') \<Rightarrow> (Inr results, r'))"

subsection \<open>Registration\<close>

text \<open>
  \<^verbatim>\<open>_validate_registration_input\<close>; \<open>years\<close> is an \<^verbatim>\<open>int\<close> as the signature says, and
  the contact may be \<^verbatim>\<open>None\<close>.
\<close>

definition validate_registration_input ::
  "string \<Rightarrow> int \<Rightarrow> ContactInfo option \<Rightarrow> exn + unit" where
  "validate_registration_input domain_name years contact_info =
     (if \<not> validate_domain_name domain_name then
        Inl (ValidationError ''Invalid domain name format'')
      else if years \<le> 0 then Inl (ValidationError ''Years must be a positive integer'')
      else (case contact_info of
              None \<Rightarrow> Inl (ValidationError ''Valid contact information with email is required'')
            | Some c \<Rightarrow>
                if email c = [] then
                  Inl (ValidationError ''Valid contact information with email is required'')
                else if first_name c = [] \<or> last_name c = [] then
                  Inl (ValidationError ''First name and last name are required'')
                else Inr ()))"

text \<open>\<^verbatim>\<open>contact_info.to_dict()\<close>; on \<^verbatim>\<open>None\<close> the attribute lookup raises.\<close>

definition to_dict :: "ContactInfo option \<Rightarrow> exn + ContactInfo" where
  "to_dict contact_info =
     (case contact_info of
        None \<Rightarrow> Inl (OtherError (CHR 0x27 # ''NoneType'' @ CHR 0x27 # '' object has no attribute '' @
                              CHR 0x27 # ''to_dict'' @ [CHR 0x27]))
      | Some c \<Rightarrow> Inr c)"

text \<open>
  The object that \<^verbatim>\<open>register_domain\<close> returns.  Every \<^verbatim>\<open>datetime.now()\<close> is a reading
  of its own of the system clock: \<open>clock k\<close> is the value of reading number \<open>k\<close> of the
  call, counted from 0.  The source first evaluates the keyword arguments of the ORM
  constructor, \<^verbatim>\<open>expiry_date=datetime.now() + timedelta(days=365 * years)\<close> (reading 0) and
  \<^verbatim>\<open>registration_date=datetime.now()\<close> (reading 1), and calls the constructor;
  \<open>orm_accepts\<close> tells whether \<^verbatim>\<open>Domain(...)\<close> returns an object for these arguments.
  If an argument or the constructor raises, the handler sets the same attributes on a
  \<^verbatim>\<open>Mock\<close> and reads the clock again for each of the two dates: readings 1 and 2 if the
  first sum raised, readings 2 and 3 if the constructor raised.  An overflow of the sum
  in the handler is not caught there.
\<close>

definition domain_object :: "string \<Rightarrow> datetime \<Rightarrow> int \<Rightarrow> Domain" where
  "domain_object domain_name expiry registered =
     \<lparr>name = domain_name, status = ACTIVE, expiry_date = expiry,
      registration_date = Naive registered,
      nameservers = [''ns1.default.com'', ''ns2.default.com''],
      locked = False, privacy_protection = False, auto_renew = True\<rparr>"

definition mock_domain :: "(nat \<Rightarrow> int) \<Rightarrow> nat \<Rightarrow> string \<Rightarrow> int \<Rightarrow> exn + Domain" where
  "mock_domain clock k domain_name years =
     (case add_days (clock k) (365 * years) of
        Inl e \<Rightarrow> Inl e
      | Inr expiry \<Rightarrow> Inr (domain_object domain_name expiry (clock (k + 1))))"

definition new_domain :: "(nat \<Rightarrow> int) \<Rightarrow> bool \<Rightarrow> string \<Rightarrow> int \<Rightarrow> exn + Domain" where
  "new_domain clock orm_accepts domain_name years =
     (case add_days (clock 0) (365 * years) of
        Inl model_error \<Rightarrow> mock_domain clock 1 domain_name years
      | Inr expiry \<Rightarrow>
          if orm_accepts then Inr (domain_object domain_name expiry (clock 1))
          else mock_domain clock 2 domain_name years)"

definition register_domain_try ::
  "'r registrar \<Rightarrow> (nat \<Rightarrow> int) \<Rightarrow> bool \<Rightarrow> string \<Rightarrow> int \<Rightarrow> ContactInfo option \<Rightarrow> 'r \<Rightarrow>
   (exn + Domain) \<times> 'r" where
  "register_domain_try api clock orm_accepts domain_name years contact_info r =
     (case validate_registration_input domain_name years contact_info of
        Inl e \<Rightarrow> (Inl e, r)
      | Inr u \<Rightarrow>
         (case check_domain_availability api domain_name r of
            (Inl e, r1) \<Rightarrow> (Inl e, r1)
          | (Inr available, r1) \<Rightarrow>
              if \<not> available then
                (Inl (DomainError (''Domain '' @ domain_name @ '' is not available'')), r1)
              else
               (case to_dict contact_info of
                  Inl e \<Rightarrow> (Inl e, r1)
                | Inr contacts \<Rightarrow>
                   (case api_register_domain api
                           \<lparr>reg_domain = domain_name, reg_years = years,
                            reg_contacts = contacts, reg_privacy = False,
                            reg_auto_renew = True\<rparr> r1 of
                      (Inl e, r2) \<Rightarrow> (Inl e, r2)
                    | (Inr response, r2) \<Rightarrow>
                       (case new_domain clock orm_accepts domain_name years of
                          Inl e \<Rightarrow> (Inl e, r2)
                        | Inr domain \<Rightarrow> (Inr domain, r2))))))"

definition register_domain ::
  "'r registrar \<Rightarrow> (nat \<Rightarrow> int) \<Rightarrow> bool \<Rightarrow> string \<Rightarrow> int \<Rightarrow> ContactInfo option \<Rightarrow> 'r \<Rightarrow>
   (exn + Domain) \<times> 'r" where
  "register_domain api clock orm_accepts domain_name years contact_info r =
     (case register_domain_try api clock orm_accepts domain_name years contact_info r of
        (Inl e, r') \<Rightarrow>
          (if is_DomainError e then (Inl e, r')
           else (Inl (DomainError (''Domain registration failed: '' @ str_exn e)), r'))
      | (Inr domain, r') \<Rightarrow> (Inr domain, r'))"

definition enable_privacy_protection ::
  "'r registrar \<Rightarrow> string \<Rightarrow> 'r \<Rightarrow> (exn + bool) \<times> 'r" where
  "enable_privacy_protection api domain_name r =
     (case api_enable_whois_privacy api domain_name r of
        (Inl e, r') \<Rightarrow>
          (Inl (DomainError (''Failed to enable privacy protection: '' @ str_exn e)), r')
      | (Inr response, r') \<Rightarrow> (Inr (get_flag response), r'))"

text \<open>
  \<^verbatim>\<open>register_domain_with_privacy\<close>: its handler logs and re-raises, so an exception of
  either step leaves the function unchanged.
\<close>

definition register_domain_with_privacy ::
  "'r registrar \<Rightarrow> (nat \<Rightarrow> int) \<Rightarrow> bool \<Rightarrow> string \<Rightarrow> int \<Rightarrow> ContactInfo option \<Rightarrow> 'r \<Rightarrow>
   (exn + Domain) \<times> 'r" where
  "register_domain_with_privacy api clock orm_accepts domain_name years contact_info r =
     (case register_domain api clock orm_accepts domain_name years contact_info r of
        (Inl e, r1) \<Rightarrow> (Inl e, r1)
      | (Inr domain, r1) \<Rightarrow>
         (case enable_privacy_protection api domain_name r1 of
            (Inl e, r2) \<Rightarrow> (Inl e, r2)
          | (Inr privacy_success, r2) \<Rightarrow>
              if privacy_success then (Inr (domain\<lparr>privacy_protection := True\<rparr>), r2)
              else (Inr domain, r2)))"

subsection \<open>Transfer eligibility\<close>

definition get_domain_locking_status ::
  "'r registrar \<Rightarrow> string \<Rightarrow> 'r \<Rightarrow> (exn + bool) \<times> 'r" where
  "get_domain_locking_status api domain_name r =
     (case api_get_domain_status api domain_name r of
        (Inl e, r') \<Rightarrow> (Inl (DomainError (''Failed to get domain lock status: '' @ str_exn e)), r')
      | (Inr response, r') \<Rightarrow> (Inr (get_flag response), r'))"

text \<open>\<^verbatim>\<open>DomainStatus(response.get('status', 'active'))\<close>.\<close>

definition parse_status :: "string option \<Rightarrow> exn + DomainStatus" where
  "parse_status v =
     (case v of
        None \<Rightarrow> Inr ACTIVE
      | Some s \<Rightarrow>
          if s = ''active'' then Inr ACTIVE
          else if s = ''expired'' then Inr EXPIRED
          else if s = ''pending'' then Inr PENDING
          else if s = ''suspended'' then Inr SUSPENDED
          else if s = ''pending_transfer'' then Inr PENDING_TRANSFER
          else Inl (OtherError (CHR 0x27 # s @ CHR 0x27 # '' is not a valid DomainStatus'')))"

definition parse_date :: "date_field \<Rightarrow> exn + datetime" where
  "parse_date f =
     (case f of
        Missing \<Rightarrow>
          Inl (OtherError (CHR 0x27 # ''NoneType'' @ CHR 0x27 # '' object has no attribute '' @
                           CHR 0x27 # ''replace'' @ [CHR 0x27]))
      | Unparsable m \<Rightarrow> Inl (OtherError m)
      | Parsed d \<Rightarrow> Inr d)"

text \<open>
  The keyword arguments of \<^verbatim>\<open>Domain(...)\<close> in \<^verbatim>\<open>get_domain_details\<close>, evaluated in
  their order.  If the ORM constructor raises, the fallback evaluates the same expressions
  again for a \<^verbatim>\<open>Mock\<close>, so an expression that raises does so in the fallback too and
  the exception leaves the inner handler.
\<close>

definition domain_from_info :: "string \<Rightarrow> domain_info \<Rightarrow> exn + Domain" where
  "domain_from_info domain_name response =
     (case parse_status (info_status response) of
        Inl e \<Rightarrow> Inl e
      | Inr st \<Rightarrow>
         (case parse_date (info_expiry_date response) of
            Inl e \<Rightarrow> Inl e
          | Inr expiry \<Rightarrow>
             (case parse_date (info_registration_date response) of
                Inl e \<Rightarrow> Inl e
              | Inr registration \<Rightarrow>
                  Inr \<lparr>name = domain_name, status = st, expiry_date = expiry,
                       registration_date = registration,
                       nameservers = (case info_nameservers response of None \<Rightarrow> [] | Some ns \<Rightarrow> ns),
                       locked = get_flag (info_locked response),
                       privacy_protection = get_flag (info_privacy response),
                       auto_renew = (case info_auto_renew response of None \<Rightarrow> True | Some b \<Rightarrow> b)\<rparr>)))"

definition get_domain_details ::
  "'r registrar \<Rightarrow> string \<Rightarrow> 'r \<Rightarrow> (exn + Domain) \<times> 'r" where
  "get_domain_details api domain_name r =
     (case api_get_domain_info api domain_name r of
        (Inl e, r') \<Rightarrow> (Inl (DomainError (''Failed to get domain details: '' @ str_exn e)), r')
      | (Inr response, r') \<Rightarrow>
         (case domain_from_info domain_name response of
            Inl e \<Rightarrow> (Inl (DomainError (''Failed to get domain details: '' @ str_exn e)), r')
          | Inr domain \<Rightarrow> (Inr domain, r')))"

definition check_transfer_eligibility_try ::
  "'r registrar \<Rightarrow> int \<Rightarrow> string \<Rightarrow> 'r \<Rightarrow> (exn + bool) \<times> 'r" where
  "check_transfer_eligibility_try api now domain_name r =
     (case get_domain_locking_status api domain_name r of
        (Inl e, r1) \<Rightarrow> (Inl e, r1)
      | (Inr is_locked, r1) \<Rightarrow>
          if is_locked then (Inr False, r1)
          else
           (case get_domain_details api domain_name r1 of
              (Inl e, r2) \<Rightarrow> (Inl e, r2)
            | (Inr domain_details, r2) \<Rightarrow>
               (case days_between (expiry_date domain_details) (Naive now) of
                  Inl e \<Rightarrow> (Inl e, r2)
                | Inr days_until_expiry \<Rightarrow>
                    if days_until_expiry < 60 then (Inr False, r2) else (Inr True, r2))))"

definition check_transfer_eligibility ::
  "'r registrar \<Rightarrow> int \<Rightarrow> string \<Rightarrow> 'r \<Rightarrow> (exn + bool) \<times> 'r" where
  "check_transfer_eligibility api now domain_name r =
     (case check_transfer_eligibility_try api now domain_name r of
        (Inl e, r') \<Rightarrow> (Inr False, r')
      | (Inr b, r') \<Rightarrow> (Inr b, r'))"

subsection \<open>A registrar for concrete runs\<close>

text \<open>
  A deterministic in-memory registrar: its state is the list of the calls it has received,
  and each operation answers as configured.
\<close>

datatype call =
    CheckAvailability string
  | RegisterDomain registration_data
  | GetDomainStatus string
  | GetDomainInfo string
  | EnableWhoisPrivacy string

definition fake_registrar ::
  "(string \<Rightarrow> exn + bool option) \<Rightarrow> (exn + unit) \<Rightarrow> (exn + bool option) \<Rightarrow>
   (exn + domain_info) \<Rightarrow> (exn + bool option) \<Rightarrow> call list registrar" where
  "fake_registrar availability registration lock_status info privacy =
     \<lparr>api_check_availability = (\<lambda>n log. (availability n, log @ [CheckAvailability n])),
      api_register_domain = (\<lambda>d log. (registration, log @ [RegisterDomain d])),
      api_get_domain_status = (\<lambda>n log. (lock_status, log @ [GetDomainStatus n])),
      api_get_domain_info = (\<lambda>n log. (info, log @ [GetDomainInfo n])),
      api_enable_whois_privacy = (\<lambda>n log. (privacy, log @ [EnableWhoisPrivacy n]))\<rparr>"

definition sample_contact :: ContactInfo where
  "sample_contact =
     \<lparr>first_name = ''John'', last_name = ''Doe'', email = ''john.doe@example.com'',
      phone = ''+1.5551234567'', address = ''123 Main St'', city = ''New York'',
      country = ''US'', zip_code = ''10001'', organization = []\<rparr>"

text \<open>2026-01-01T00:00:00 (day 739616 after 0001-01-01).\<close>

definition sample_now :: int where
  "sample_now = 739616 * 86400000000"

text \<open>A clock that starts at that instant and advances by one second from a reading to the
  next.\<close>

definition sample_clock :: "nat \<Rightarrow> int" where
  "sample_clock k = sample_now + 1000000 * int k"

definition sample_info :: "datetime \<Rightarrow> domain_info" where
  "sample_info expiry =
     \<lparr>info_status = Some ''active'', info_expiry_date = Parsed expiry,
      info_registration_date = Parsed (Naive 0),
      info_nameservers = Some [''ns1.example.com'', ''ns2.example.com''],
      info_locked = Some False, info_privacy = Some False, info_auto_renew = Some True\<rparr>"

text \<open>What the handler of the bulk loop records for one name: \<^verbatim>\<open>False\<close> for a check that raised.\<close>

fun recorded :: "exn + bool \<Rightarrow> bool" where
  "recorded (Inl e) = False"
| "recorded (Inr b) = b"

text \<open>The availability answers of the bulk run of the specification's example.\<close>

definition abc_availability :: "string \<Rightarrow> exn + bool option" where
  "abc_availability n =
     (if n = ''b.com'' then Inl (OtherError ''API Error'')
      else if n = ''a.com'' then Inr (Some True)
      else Inr (Some False))"

definition abc_registrar :: "call list registrar" where
  "abc_registrar =
     fake_registrar abc_availability (Inr ()) (Inr (Some False)) (Inl (OtherError ''unused''))
       (Inr (Some True))"

text \<open>Registrars for the runs of registration: every name is available and the remote
  registration succeeds; the privacy call answers as given.\<close>

definition open_registrar :: "(exn + bool option) \<Rightarrow> call list registrar" where
  "open_registrar privacy =
     fake_registrar (\<lambda>n. Inr (Some True)) (Inr ()) (Inr (Some False))
       (Inl (OtherError ''unused'')) privacy"

definition taken_registrar :: "call list registrar" where
  "taken_registrar =
     fake_registrar (\<lambda>n. Inr (Some False)) (Inr ()) (Inr (Some False))
       (Inl (OtherError ''unused'')) (Inr (Some True))"

definition sample_registration :: "int \<Rightarrow> registration_data" where
  "sample_registration years =
     \<lparr>reg_domain = ''example.com'', reg_years = years, reg_contacts = sample_contact,
      reg_privacy = False, reg_auto_renew = True\<rparr>"

text \<open>Registrars for the runs of the eligibility check: the lock flag and the expiry date
  that the remote side reports.\<close>

definition status_registrar :: "bool \<Rightarrow> datetime \<Rightarrow> call list registrar" where
  "status_registrar is_locked expiry =
     fake_registrar (\<lambda>n. Inr (Some True)) (Inr ()) (Inr (Some is_locked))
       (Inr (sample_info expiry)) (Inr (Some True))"

section \<open>DNS Manager\<close>

subsection \<open>Data\<close>

text \<open>\<^verbatim>\<open>DNSRecordType\<close> of \<^verbatim>\<open>app/core/domain/dns.py\<close> and the lookup by value
  \<^verbatim>\<open>DNSRecordType(record.type)\<close>, which raises \<^verbatim>\<open>ValueError\<close> for any other string.\<close>

datatype DNSRecordType = A | AAAA | CNAME | MX | TXT | NS | SRV | CAA | PTR | SOA

fun type_value :: "DNSRecordType \<Rightarrow> string" where
  "type_value A = ''A''"
| "type_value AAAA = ''AAAA''"
| "type_value CNAME = ''CNAME''"
| "type_value MX = ''MX''"
| "type_value TXT = ''TXT''"
| "type_value NS = ''NS''"
| "type_value SRV = ''SRV''"
| "type_value CAA = ''CAA''"
| "type_value PTR = ''PTR''"
| "type_value SOA = ''SOA''"

definition record_type_of :: "string \<Rightarrow> exn + DNSRecordType" where
  "record_type_of s =
     (case find (\<lambda>t. type_value t = s) [A, AAAA, CNAME, MX, TXT, NS, SRV, CAA, PTR, SOA] of
        Some t \<Rightarrow> Inr t
      | None \<Rightarrow> Inl (OtherError (CHR 0x27 # s @ CHR 0x27 # '' is not a valid DNSRecordType'')))"

text \<open>The attributes of \<^verbatim>\<open>DNSRecord\<close> that the manager reads and writes.\<close>

record DNSRecord =
  dns_id :: "string option"
  dns_type :: string
  dns_name :: string
  dns_value :: string
  dns_ttl :: int
  dns_priority :: "int option"

text \<open>One entry of the \<^verbatim>\<open>records\<close> list of a \<^verbatim>\<open>get_dns_records\<close> response; the remote
  side may omit the \<^verbatim>\<open>ttl\<close> and the \<^verbatim>\<open>priority\<close>.\<close>

record record_data =
  rd_id :: "string option"
  rd_type :: string
  rd_name :: string
  rd_value :: string
  rd_ttl :: "int option"
  rd_priority :: "int option"

subsection \<open>Validation of one record\<close>

text \<open>
  \<^verbatim>\<open>_validate_dns_name\<close>, pattern
  \<^verbatim>\<open>^(\*\.)?(LABEL\.)*LABEL\.?$\<close> with \<^verbatim>\<open>LABEL\<close> the label pattern above.
\<close>

definition dns_name_pattern :: rexp where
  "dns_name_pattern =
     Seq (Opt (Seq (Lit (CHR ''*'')) (Lit (CHR ''.''))))
       (Seq (Star (Seq label_pattern (Lit (CHR ''.''))))
         (Seq label_pattern (Opt (Lit (CHR ''.'')))))"

definition validate_dns_name :: "string \<Rightarrow> bool" where
  "validate_dns_name n = re_match dns_name_pattern n"

definition hex_digit :: "(char \<times> char) list" where
  "hex_digit = [(CHR ''0'', CHR ''9''), (CHR ''a'', CHR ''f''), (CHR ''A'', CHR ''F'')]"

text \<open>\<^verbatim>\<open>([0-9a-fA-F]{1,4}:){m,n}\<close> and \<^verbatim>\<open>[0-9a-fA-F]{1,4}\<close>.\<close>

definition hex_group :: rexp where
  "hex_group = Rep (Cls hex_digit) 1 (Some 4)"

definition hex_groups :: "nat \<Rightarrow> nat \<Rightarrow> rexp" where
  "hex_groups m n = Rep (Seq hex_group (Lit (CHR '':''))) m (Some n)"

definition ipv6_patterns :: "rexp list" where
  "ipv6_patterns =
     [Seq (hex_groups 7 7) hex_group,
      Seq (Lit (CHR '':'')) (Seq (Lit (CHR '':'')) (Seq (hex_groups 0 6) hex_group)),
      Seq (hex_groups 1 7) (Lit (CHR '':'')),
      Seq (hex_groups 1 6) (Seq (Lit (CHR '':'')) hex_group)]"

text \<open>
  Two address parsers are outside the file: \<^verbatim>\<open>self._validate_ipv4_address\<close>, which the
  class does not define in \<^verbatim>\<open>dns.py\<close> (the file ends where its remaining methods are
  left out), and \<^verbatim>\<open>ipaddress.IPv6Address\<close> of the standard library.  Both are
  parameters: what the call of the first does (return or raise), and whether the second
  accepts the string.
\<close>

record ip_parsers =
  validate_ipv4_address :: "string \<Rightarrow> exn + unit"
  ipv6_address_ok :: "string \<Rightarrow> bool"

definition validate_ipv6_address :: "ip_parsers \<Rightarrow> string \<Rightarrow> exn + unit" where
  "validate_ipv6_address ip ip_address =
     (if ipv6_address_ok ip ip_address then Inr ()
      else if \<not> list_ex (\<lambda>pattern. re_match pattern ip_address) ipv6_patterns then
        Inl (ValidationError (''Invalid IPv6 address: '' @ ip_address))
      else Inr ())"

text \<open>What a validation method returns: \<^verbatim>\<open>None\<close> or a boolean.\<close>

datatype returned = NoneValue | BoolValue bool

text \<open>The dictionary \<^verbatim>\<open>validation_methods\<close>: the lambda for a record type, if it has one.\<close>

fun validation_methods :: "ip_parsers \<Rightarrow> DNSRecordType \<Rightarrow> (string \<Rightarrow> exn + returned) option" where
  "validation_methods ip A =
     Some (\<lambda>v. case validate_ipv4_address ip v of Inl e \<Rightarrow> Inl e | Inr u \<Rightarrow> Inr NoneValue)"
| "validation_methods ip AAAA =
     Some (\<lambda>v. case validate_ipv6_address ip v of Inl e \<Rightarrow> Inl e | Inr u \<Rightarrow> Inr NoneValue)"
| "validation_methods ip CNAME =
     Some (\<lambda>v. Inr (BoolValue (validate_dns_name v \<or> endswith v ''.'')))"
| "validation_methods ip MX = Some (\<lambda>v. Inr (BoolValue (validate_dns_name v)))"
| "validation_methods ip NS = Some (\<lambda>v. Inr (BoolValue (validate_dns_name v)))"
| "validation_methods ip TXT = Some (\<lambda>v. Inr (BoolValue (length v \<le> 255)))"
| "validation_methods ip t = None"

text \<open>
  \<^verbatim>\<open>_validate_dns_record_input\<close>.  The value that a validation method returns is not
  used: only an exception of the method rejects the record.
\<close>

definition validate_dns_record_input ::
  "ip_parsers \<Rightarrow> DNSRecordType \<Rightarrow> string \<Rightarrow> string \<Rightarrow> int \<Rightarrow> int option \<Rightarrow> exn + unit" where
  "validate_dns_record_input ip record_type nm val ttl priority =
     (if nm = [] \<or> val = [] then
        Inl (ValidationError ''Name and value are required for DNS record'')
      else if ttl < 60 \<or> ttl > 86400 then
        Inl (ValidationError ''TTL must be between 60 and 86400 seconds'')
      else if \<not> validate_dns_name nm then Inl (ValidationError (''Invalid DNS name: '' @ nm))
      else if record_type = MX \<and> priority = None then
        Inl (ValidationError ''Priority is required for MX records'')
      else if record_type = MX \<and> (case priority of None \<Rightarrow> False | Some p \<Rightarrow> p < 0 \<or> p > 65535) then
        Inl (ValidationError ''Priority must be between 0 and 65535'')
      else
        (case validation_methods ip record_type of
           None \<Rightarrow> Inr ()
         | Some method \<Rightarrow>
            (case method val of
               Inl (ValidationError m) \<Rightarrow> Inl (ValidationError m)
             | Inl e \<Rightarrow>
                 Inl (ValidationError (''Invalid value for '' @ type_value record_type @
                                       '' record: '' @ str_exn e))
             | Inr res \<Rightarrow> Inr ())))"

subsection \<open>Bulk update\<close>

text \<open>
  The manager works on a datastore \<open>'d\<close> (the injected \<^verbatim>\<open>db_session\<close>) and on the
  remote provider \<open>'r\<close> (\<^verbatim>\<open>api_client\<close>).  \<^verbatim>\<open>dns.py\<close> calls
  \<^verbatim>\<open>self.delete_dns_record\<close> and \<^verbatim>\<open>self.add_dns_record\<close> and defines neither: the two
  attributes of the manager are optional here.  \<open>None\<close> is the class as it is: the lookup
  of the attribute raises \<^verbatim>\<open>AttributeError\<close>, before the arguments of the call are
  evaluated.  \<open>Some f\<close> is a manager that has been given the method, free to change both
  states and to raise.  \<open>with_session\<close> tells whether a \<^verbatim>\<open>db_session\<close> has been
  injected.
\<close>

record ('d, 'r) dns_manager =
  api_get_dns_records :: "string \<Rightarrow> 'r \<Rightarrow> (exn + record_data list) \<times> 'r"
  delete_dns_record ::
    "(string \<Rightarrow> string option \<Rightarrow> 'd \<times> 'r \<Rightarrow> (exn + unit) \<times> ('d \<times> 'r)) option"
  add_dns_record ::
    "(string \<Rightarrow> DNSRecordType \<Rightarrow> string \<Rightarrow> string \<Rightarrow> int \<Rightarrow> int option \<Rightarrow> 'd \<times> 'r \<Rightarrow>
      (exn + unit) \<times> ('d \<times> 'r)) option"
  with_session :: bool

text \<open>The \<^verbatim>\<open>AttributeError\<close> of \<^verbatim>\<open>self.attr\<close> for an attribute that \<^verbatim>\<open>DNSManager\<close>
  does not have.\<close>

definition missing_attribute :: "string \<Rightarrow> exn" where
  "missing_attribute attr =
     OtherError (CHR 0x27 # ''DNSManager'' @ CHR 0x27 # '' object has no attribute '' @
                 CHR 0x27 # attr @ [CHR 0x27])"

definition to_record :: "record_data \<Rightarrow> DNSRecord" where
  "to_record record_data =
     \<lparr>dns_id = rd_id record_data, dns_type = rd_type record_data,
      dns_name = rd_name record_data, dns_value = rd_value record_data,
      dns_ttl = (case rd_ttl record_data of None \<Rightarrow> 3600 | Some t \<Rightarrow> t),
      dns_priority = rd_priority record_data\<rparr>"

definition get_dns_records ::
  "('d, 'r) dns_manager \<Rightarrow> string \<Rightarrow> 'd \<times> 'r \<Rightarrow> (exn + DNSRecord list) \<times> ('d \<times> 'r)" where
  "get_dns_records m domain_name w =
     (case api_get_dns_records m domain_name (snd w) of
        (Inl e, r') \<Rightarrow> (Inl (DNSError (''Failed to get DNS records: '' @ str_exn e)), (fst w, r'))
      | (Inr response, r') \<Rightarrow> (Inr (map to_record response), (fst w, r')))"

text \<open>The two loops: delete every record of a list, add every record of a list.\<close>

fun delete_all ::
  "('d, 'r) dns_manager \<Rightarrow> string \<Rightarrow> DNSRecord list \<Rightarrow> 'd \<times> 'r \<Rightarrow> (exn + unit) \<times> ('d \<times> 'r)" where
  "delete_all m domain_name [] w = (Inr (), w)"
| "delete_all m domain_name (record # rest) w =
     (case delete_dns_record m of
        None \<Rightarrow> (Inl (missing_attribute ''delete_dns_record''), w)
      | Some delete_record \<Rightarrow>
         (case delete_record domain_name (dns_id record) w of
            (Inl e, w') \<Rightarrow> (Inl e, w')
          | (Inr u, w') \<Rightarrow> delete_all m domain_name rest w'))"

fun add_all ::
  "('d, 'r) dns_manager \<Rightarrow> string \<Rightarrow> DNSRecord list \<Rightarrow> 'd \<times> 'r \<Rightarrow> (exn + unit) \<times> ('d \<times> 'r)" where
  "add_all m domain_name [] w = (Inr (), w)"
| "add_all m domain_name (record # rest) w =
     (case add_dns_record m of
        None \<Rightarrow> (Inl (missing_attribute ''add_dns_record''), w)
      | Some add_record \<Rightarrow>
         (case record_type_of (dns_type record) of
            Inl e \<Rightarrow> (Inl e, w)
          | Inr record_type \<Rightarrow>
             (case add_record domain_name record_type (dns_name record) (dns_value record)
                     (dns_ttl record) (dns_priority record) w of
                (Inl e, w') \<Rightarrow> (Inl e, w')
              | (Inr u, w') \<Rightarrow> add_all m domain_name rest w')))"

text \<open>Fetch the current records, delete them, add the given ones: the sequence that the
  three methods below each contain.\<close>

definition replace_records ::
  "('d, 'r) dns_manager \<Rightarrow> string \<Rightarrow> DNSRecord list \<Rightarrow> 'd \<times> 'r \<Rightarrow> (exn + unit) \<times> ('d \<times> 'r)" where
  "replace_records m domain_name records w =
     (case get_dns_records m domain_name w of
        (Inl e, w1) \<Rightarrow> (Inl e, w1)
      | (Inr current_records, w1) \<Rightarrow>
         (case delete_all m domain_name current_records w1 of
            (Inl e, w2) \<Rightarrow> (Inl e, w2)
          | (Inr u, w2) \<Rightarrow> add_all m domain_name records w2))"

text \<open>
  \<^verbatim>\<open>with self.db_session.begin():\<close> commits the datastore when the block ends and rolls
  it back to its state at entry when the block raises; the exception then goes on.  The
  remote provider is not part of the transaction.
\<close>

definition session_begin ::
  "('d \<times> 'r \<Rightarrow> (exn + 'a) \<times> ('d \<times> 'r)) \<Rightarrow> 'd \<times> 'r \<Rightarrow> (exn + 'a) \<times> ('d \<times> 'r)" where
  "session_begin block w =
     (case block w of
        (Inl e, w') \<Rightarrow> (Inl e, (fst w, snd w'))
      | (Inr v, w') \<Rightarrow> (Inr v, w'))"

definition update_records_with_transaction ::
  "('d, 'r) dns_manager \<Rightarrow> string \<Rightarrow> DNSRecord list \<Rightarrow> 'd \<times> 'r \<Rightarrow> (exn + bool) \<times> ('d \<times> 'r)" where
  "update_records_with_transaction m domain_name records w =
     (case session_begin (replace_records m domain_name records) w of
        (Inl e, w') \<Rightarrow> (Inl e, w')
      | (Inr u, w') \<Rightarrow> (Inr True, w'))"

definition restore_from_backup ::
  "('d, 'r) dns_manager \<Rightarrow> string \<Rightarrow> DNSRecord list \<Rightarrow> 'd \<times> 'r \<Rightarrow> (exn + unit) \<times> ('d \<times> 'r)" where
  "restore_from_backup m domain_name backup_records w =
     (case replace_records m domain_name backup_records w of
        (Inl restore_error, w') \<Rightarrow>
          (Inl (DNSError (''Critical: DNS restoration failed for '' @ domain_name)), w')
      | (Inr u, w') \<Rightarrow> (Inr (), w'))"

text \<open>The inner \<^verbatim>\<open>try\<close> of \<^verbatim>\<open>_update_records_without_transaction\<close> with its handler,
  which restores the backup and raises: the restoration's error if it fails, the error of
  the update otherwise.\<close>

definition update_or_restore ::
  "('d, 'r) dns_manager \<Rightarrow> string \<Rightarrow> DNSRecord list \<Rightarrow> DNSRecord list \<Rightarrow> 'd \<times> 'r \<Rightarrow>
   (exn + bool) \<times> ('d \<times> 'r)" where
  "update_or_restore m domain_name records backup_records w =
     (case replace_records m domain_name records w of
        (Inr u, w1) \<Rightarrow> (Inr True, w1)
      | (Inl e, w1) \<Rightarrow>
         (case restore_from_backup m domain_name backup_records w1 of
            (Inl critical, w2) \<Rightarrow> (Inl critical, w2)
          | (Inr u, w2) \<Rightarrow> (Inl e, w2)))"

text \<open>The outer \<^verbatim>\<open>try\<close>: its handler logs the exception and returns \<^verbatim>\<open>False\<close>.\<close>

definition update_records_without_transaction ::
  "('d, 'r) dns_manager \<Rightarrow> string \<Rightarrow> DNSRecord list \<Rightarrow> 'd \<times> 'r \<Rightarrow> (exn + bool) \<times> ('d \<times> 'r)" where
  "update_records_without_transaction m domain_name records w =
     (case get_dns_records m domain_name w of
        (Inl e, w0) \<Rightarrow> (Inr False, w0)
      | (Inr backup_records, w0) \<Rightarrow>
         (case update_or_restore m domain_name records backup_records w0 of
            (Inl e, w') \<Rightarrow> (Inr False, w')
          | (Inr b, w') \<Rightarrow> (Inr b, w')))"

definition update_dns_records ::
  "('d, 'r) dns_manager \<Rightarrow> string \<Rightarrow> DNSRecord list \<Rightarrow> 'd \<times> 'r \<Rightarrow> (exn + bool) \<times> ('d \<times> 'r)" where
  "update_dns_records m domain_name records w =
     (case (if with_session m then update_records_with_transaction m domain_name records w
            else update_records_without_transaction m domain_name records w) of
        (Inl e, w') \<Rightarrow> (Inl (DNSError (''Failed to update DNS records: '' @ str_exn e)), w')
      | (Inr b, w') \<Rightarrow> (Inr b, w'))"

text \<open>
  The manager as \<^verbatim>\<open>dns.py\<close> defines it, over a client whose \<^verbatim>\<open>get_dns_records\<close> is
  \<open>get\<close>: it has neither of the two methods.
\<close>

definition shipped_dns_manager ::
  "(string \<Rightarrow> 'r \<Rightarrow> (exn + record_data list) \<times> 'r) \<Rightarrow> bool \<Rightarrow> ('d, 'r) dns_manager" where
  "shipped_dns_manager get session =
     \<lparr>api_get_dns_records = get, delete_dns_record = None, add_dns_record = None,
      with_session = session\<rparr>"

subsection \<open>A DNS provider for concrete runs\<close>

text \<open>
  An in-memory provider: the record set of the one domain it serves, the number of the
  next record, and the number of write calls it will still serve before every further
  write fails (an outage).
\<close>

record dns_remote =
  remote_records :: "record_data list"
  next_id :: nat
  writes_left :: nat

definition remote_get :: "string \<Rightarrow> dns_remote \<Rightarrow> (exn + record_data list) \<times> dns_remote" where
  "remote_get domain_name r = (Inr (remote_records r), r)"

text \<open>
  Modelled from the spec: a \<^verbatim>\<open>delete_dns_record\<close>, which \<^verbatim>\<open>dns.py\<close> leaves out.  Section 6
  gives the remote gateway "DNS record get/add/delete per domain": deleting removes the
  record with the given id at the provider.  The datastore is not touched.
\<close>

definition spec_delete_dns_record ::
  "string \<Rightarrow> string option \<Rightarrow> unit \<times> dns_remote \<Rightarrow> (exn + unit) \<times> (unit \<times> dns_remote)" where
  "spec_delete_dns_record domain_name record_id w =
     (if writes_left (snd w) = 0 then (Inl (OtherError ''API Error''), w)
      else (Inr (), (fst w,
              (snd w)\<lparr>remote_records := filter (\<lambda>d. rd_id d \<noteq> record_id) (remote_records (snd w)),
                      writes_left := writes_left (snd w) - 1\<rparr>)))"

text \<open>
  Modelled from the spec: an \<^verbatim>\<open>add_dns_record\<close>, which \<^verbatim>\<open>dns.py\<close> leaves out.  The
  record is validated with \<^verbatim>\<open>_validate_dns_record_input\<close> ("per-record validation before
  any write", section 4.2) and then added at the provider (section 6), which gives it the
  next id.
\<close>

definition spec_add_dns_record ::
  "ip_parsers \<Rightarrow> string \<Rightarrow> DNSRecordType \<Rightarrow> string \<Rightarrow> string \<Rightarrow> int \<Rightarrow> int option \<Rightarrow>
   unit \<times> dns_remote \<Rightarrow> (exn + unit) \<times> (unit \<times> dns_remote)" where
  "spec_add_dns_record ip domain_name record_type nm val ttl priority w =
     (case validate_dns_record_input ip record_type nm val ttl priority of
        Inl e \<Rightarrow> (Inl e, w)
      | Inr u \<Rightarrow>
          if writes_left (snd w) = 0 then (Inl (OtherError ''API Error''), w)
          else (Inr (), (fst w,
                  (snd w)\<lparr>remote_records := remote_records (snd w) @
                            [\<lparr>rd_id = Some (str_int (int (next_id (snd w)))),
                              rd_type = type_value record_type, rd_name = nm, rd_value = val,
                              rd_ttl = Some ttl, rd_priority = priority\<rparr>],
                          next_id := next_id (snd w) + 1,
                          writes_left := writes_left (snd w) - 1\<rparr>)))"

text \<open>
  The parsers of the concrete runs.  \<^verbatim>\<open>dns.py\<close> does not define
  \<^verbatim>\<open>_validate_ipv4_address\<close> either, so that the method for \<^verbatim>\<open>A\<close> records raises
  \<^verbatim>\<open>AttributeError\<close>; no run below has an \<^verbatim>\<open>AAAA\<close> record, and the parser of the
  library is not consulted.
\<close>

definition no_ip_parsers :: ip_parsers where
  "no_ip_parsers =
     \<lparr>validate_ipv4_address = (\<lambda>v. Inl (missing_attribute ''_validate_ipv4_address'')),
      ipv6_address_ok = (\<lambda>v. False)\<rparr>"

definition memory_dns_manager :: "bool \<Rightarrow> (unit, dns_remote) dns_manager" where
  "memory_dns_manager session =
     \<lparr>api_get_dns_records = remote_get,
      delete_dns_record = Some spec_delete_dns_record,
      add_dns_record = Some (spec_add_dns_record no_ip_parsers),
      with_session = session\<rparr>"

definition www_data :: record_data where
  "www_data = \<lparr>rd_id = Some ''1'', rd_type = ''CNAME'', rd_name = ''www.example.com'',
               rd_value = ''example.com'', rd_ttl = Some 3600, rd_priority = None\<rparr>"

definition mail_record :: DNSRecord where
  "mail_record = \<lparr>dns_id = None, dns_type = ''MX'', dns_name = ''example.com'',
                  dns_value = ''mail.example.com'', dns_ttl = 3600, dns_priority = Some 10\<rparr>"

text \<open>The provider holds one record and will serve one more write.\<close>

definition outage_remote :: dns_remote where
  "outage_remote = \<lparr>remote_records = [www_data], next_id = 2, writes_left = 1\<rparr>"

definition healthy_remote :: dns_remote where
  "healthy_remote = \<lparr>remote_records = [www_data], next_id = 2, writes_left = 100\<rparr>"


section \<open>Hosting Manager\<close>

subsection \<open>Data\<close>

type_synonym uuid = nat

record HostingPackage =
  pkg_name :: string
  pkg_disk_space :: int
  pkg_bandwidth :: int
  pkg_active :: bool

record Customer =
  cust_email :: string

text \<open>A \<^verbatim>\<open>HostingAccount\<close> object as the manager reads it, with its \<^verbatim>\<open>package\<close>
  relationship loaded.\<close>

record HostingAccount =
  acct_id :: uuid
  acct_domain :: string
  acct_username :: string
  acct_status :: string
  acct_ip_address :: string
  acct_disk_usage :: int
  acct_bandwidth_usage :: int
  acct_suspended_reason :: "string option"
  acct_expires_date :: "datetime option"
  acct_customer_id :: "uuid option"
  acct_package_id :: "uuid option"
  acct_package :: "HostingPackage option"

text \<open>The dictionary \<^verbatim>\<open>account_data\<close> of \<^verbatim>\<open>create_hosting_account\<close>.\<close>

record account_data =
  data_domain_name :: string
  data_username :: string
  data_package_id :: uuid
  data_customer_id :: uuid
  data_ip_address :: string
  data_disk_usage :: int
  data_bandwidth_usage :: int
  data_expires_date :: datetime

text \<open>One entry of an \<^verbatim>\<open>update_data\<close> dictionary.\<close>

datatype account_field =
    Status string
  | SuspendedReason "string option"
  | PackageId uuid
  | DiskUsage int
  | BandwidthUsage int
  | ExpiresDate datetime

text \<open>
  The repositories that \<^verbatim>\<open>get_repository_factory(db)\<close> hands to the manager, over a
  datastore \<open>'d\<close>: queries read the datastore and may raise; \<^verbatim>\<open>create\<close>,
  \<^verbatim>\<open>update\<close> and \<^verbatim>\<open>delete\<close> may change it.
\<close>

record 'd repositories =
  hosting_packages_get :: "uuid \<Rightarrow> 'd \<Rightarrow> exn + HostingPackage option"
  customers_get :: "uuid \<Rightarrow> 'd \<Rightarrow> exn + Customer option"
  hosting_accounts_get :: "uuid \<Rightarrow> 'd \<Rightarrow> exn + HostingAccount option"
  hosting_accounts_get_by_domain :: "string \<Rightarrow> 'd \<Rightarrow> exn + HostingAccount option"
  hosting_accounts_create :: "account_data \<Rightarrow> 'd \<Rightarrow> (exn + HostingAccount) \<times> 'd"
  hosting_accounts_update ::
    "uuid \<Rightarrow> account_field list \<Rightarrow> 'd \<Rightarrow> (exn + HostingAccount option) \<times> 'd"
  hosting_accounts_delete :: "uuid \<Rightarrow> 'd \<Rightarrow> (exn + bool) \<times> 'd"

text \<open>The keyword arguments of \<^verbatim>\<open>api_client.create_account\<close>.\<close>

record create_request =
  req_domain :: string
  req_username :: string
  req_password :: string
  req_plan :: string
  req_email :: string

text \<open>The dictionary that \<^verbatim>\<open>api_client.get_account_usage\<close> returns; any key may be
  missing.\<close>

record usage_data =
  usage_disk_usage :: "int option"
  usage_bandwidth_usage :: "int option"
  usage_disk_limit :: "int option"
  usage_bandwidth_limit :: "int option"

text \<open>\<^verbatim>\<open>self.api_client\<close> of the hosting manager, over the state \<open>'r\<close> of the hosting
  provider.\<close>

record 'r hosting_api =
  api_create_account :: "create_request \<Rightarrow> 'r \<Rightarrow> (exn + string option) \<times> 'r"
  api_suspend_account :: "string \<Rightarrow> string \<Rightarrow> 'r \<Rightarrow> (exn + unit) \<times> 'r"
  api_unsuspend_account :: "string \<Rightarrow> 'r \<Rightarrow> (exn + unit) \<times> 'r"
  api_change_plan :: "string \<Rightarrow> string \<Rightarrow> 'r \<Rightarrow> (exn + unit) \<times> 'r"
  api_get_account_usage :: "string \<Rightarrow> 'r \<Rightarrow> (exn + usage_data) \<times> 'r"
  api_delete_account :: "string \<Rightarrow> 'r \<Rightarrow> (exn + unit) \<times> 'r"

subsection \<open>Input validation\<close>

text \<open>\<^verbatim>\<open>str.lower()\<close> on the characters of Latin-1.\<close>

definition lower_char :: "char \<Rightarrow> char" where
  "lower_char c =
     (let n = (of_char c :: nat)
      in if (65 \<le> n \<and> n \<le> 90) \<or> (192 \<le> n \<and> n \<le> 222 \<and> n \<noteq> 215) then char_of (n + 32)
         else c)"

definition lower :: "string \<Rightarrow> string" where
  "lower s = map lower_char s"

text \<open>\<^verbatim>\<open>^[a-z][a-z0-9_]{2,}$\<close>\<close>

definition username_pattern :: rexp where
  "username_pattern =
     Seq (Cls [(CHR ''a'', CHR ''z'')])
       (Rep (Cls [(CHR ''a'', CHR ''z''), (CHR ''0'', CHR ''9''), (CHR ''_'', CHR ''_'')]) 2 None)"

definition validate_hosting_input :: "string \<Rightarrow> string \<Rightarrow> string \<Rightarrow> exn + unit" where
  "validate_hosting_input domain username password =
     (if domain = [] \<or> CHR ''.'' \<notin> set domain then Inl (ValidationError ''Invalid domain name'')
      else if username = [] \<or> length username < 3 then
        Inl (ValidationError ''Username must be at least 3 characters'')
      else if password = [] \<or> length password < 8 then
        Inl (ValidationError ''Password must be at least 8 characters'')
      else if \<not> re_match username_pattern (lower username) then
        Inl (ValidationError
              ''Username can only contain lowercase letters, numbers, and underscores'')
      else Inr ())"

subsection \<open>Operations\<close>

text \<open>The handler that ends every public method: any exception becomes a
  \<^verbatim>\<open>HostingError\<close> whose message is the given prefix and \<^verbatim>\<open>str(e)\<close>.\<close>

definition as_hosting_error :: "string \<Rightarrow> (exn + 'a) \<times> 's \<Rightarrow> (exn + 'a) \<times> 's" where
  "as_hosting_error prefix res =
     (case res of
        (Inl e, s) \<Rightarrow> (Inl (HostingError (prefix @ str_exn e)), s)
      | (Inr v, s) \<Rightarrow> (Inr v, s))"

text \<open>\<^verbatim>\<open>dt + timedelta(days=n)\<close> for any datetime.\<close>

fun plus_days :: "datetime \<Rightarrow> int \<Rightarrow> exn + datetime" where
  "plus_days (Naive t) n = add_days t n"
| "plus_days (Aware t) n =
     (case add_days t n of Inl e \<Rightarrow> Inl e | Inr (Naive t') \<Rightarrow> Inr (Aware t') | Inr d \<Rightarrow> Inr d)"

text \<open>The account with the given id, or the \<^verbatim>\<open>ValidationError\<close> of a missing account.\<close>

definition find_account :: "'d repositories \<Rightarrow> uuid \<Rightarrow> 'd \<Rightarrow> exn + HostingAccount" where
  "find_account repo account_id d =
     (case hosting_accounts_get repo account_id d of
        Inl e \<Rightarrow> Inl e
      | Inr None \<Rightarrow> Inl (ValidationError ''Hosting account not found'')
      | Inr (Some account) \<Rightarrow> Inr account)"

definition create_hosting_account_try ::
  "'d repositories \<Rightarrow> 'r hosting_api option \<Rightarrow> int \<Rightarrow> string \<Rightarrow> uuid \<Rightarrow> uuid \<Rightarrow> string \<Rightarrow> string \<Rightarrow>
   'd \<times> 'r \<Rightarrow> (exn + HostingAccount) \<times> ('d \<times> 'r)" where
  "create_hosting_account_try repo api_client now domain package_id customer_id username
       password w =
     (case validate_hosting_input domain username password of
        Inl e \<Rightarrow> (Inl e, w)
      | Inr u \<Rightarrow>
     (case hosting_packages_get repo package_id (fst w) of
        Inl e \<Rightarrow> (Inl e, w)
      | Inr None \<Rightarrow> (Inl (ValidationError ''Hosting package not found or inactive''), w)
      | Inr (Some package) \<Rightarrow>
     if \<not> pkg_active package then
       (Inl (ValidationError ''Hosting package not found or inactive''), w)
     else
     (case customers_get repo customer_id (fst w) of
        Inl e \<Rightarrow> (Inl e, w)
      | Inr None \<Rightarrow> (Inl (ValidationError ''Customer not found''), w)
      | Inr (Some customer) \<Rightarrow>
     (case hosting_accounts_get_by_domain repo domain (fst w) of
        Inl e \<Rightarrow> (Inl e, w)
      | Inr (Some existing_account) \<Rightarrow>
          (Inl (ValidationError (''Hosting account already exists for domain: '' @ domain)), w)
      | Inr None \<Rightarrow>
     (case (case api_client of
              Some api \<Rightarrow>
                (case api_create_account api
                        \<lparr>req_domain = domain, req_username = username,
                         req_password = password, req_plan = pkg_name package,
                         req_email = cust_email customer\<rparr> (snd w) of
                   (Inl e, r') \<Rightarrow> (Inl e, r')
                 | (Inr hosting_response, r') \<Rightarrow>
                     (Inr (case hosting_response of None \<Rightarrow> ''0.0.0.0'' | Some ip \<Rightarrow> ip), r'))
            | None \<Rightarrow> (Inr ''192.168.1.100'', snd w)) of
        (Inl e, r') \<Rightarrow> (Inl e, (fst w, r'))
      | (Inr ip_address, r') \<Rightarrow>
     (case add_days now 365 of
        Inl e \<Rightarrow> (Inl e, (fst w, r'))
      | Inr expires \<Rightarrow>
     (case hosting_accounts_create repo
             \<lparr>data_domain_name = domain, data_username = username, data_package_id = package_id,
              data_customer_id = customer_id, data_ip_address = ip_address, data_disk_usage = 0,
              data_bandwidth_usage = 0, data_expires_date = expires\<rparr> (fst w) of
        (Inl e, d') \<Rightarrow> (Inl e, (d', r'))
      | (Inr hosting_account, d') \<Rightarrow> (Inr hosting_account, (d', r')))))))))"

definition create_hosting_account ::
  "'d repositories \<Rightarrow> 'r hosting_api option \<Rightarrow> int \<Rightarrow> string \<Rightarrow> uuid \<Rightarrow> uuid \<Rightarrow> string \<Rightarrow> string \<Rightarrow>
   'd \<times> 'r \<Rightarrow> (exn + HostingAccount) \<times> ('d \<times> 'r)" where
  "create_hosting_account repo api_client now domain package_id customer_id username password w =
     as_hosting_error ''Failed to create hosting account: ''
       (create_hosting_account_try repo api_client now domain package_id customer_id username
          password w)"

text \<open>A remote call that is made only if a client is configured, keyed by the user name.\<close>

definition if_client ::
  "'r hosting_api option \<Rightarrow> ('r hosting_api \<Rightarrow> 'r \<Rightarrow> (exn + unit) \<times> 'r) \<Rightarrow> 'r \<Rightarrow> (exn + unit) \<times> 'r" where
  "if_client api_client call r = (case api_client of None \<Rightarrow> (Inr (), r) | Some api \<Rightarrow> call api r)"

text \<open>The common shape of \<^verbatim>\<open>suspend_account\<close>, \<^verbatim>\<open>unsuspend_account\<close>: the account
  must exist, then the remote call, then the update of the repository.\<close>

definition suspend_account_try ::
  "'d repositories \<Rightarrow> 'r hosting_api option \<Rightarrow> uuid \<Rightarrow> string \<Rightarrow> 'd \<times> 'r \<Rightarrow>
   (exn + bool) \<times> ('d \<times> 'r)" where
  "suspend_account_try repo api_client account_id reason w =
     (case find_account repo account_id (fst w) of
        Inl e \<Rightarrow> (Inl e, w)
      | Inr account \<Rightarrow>
     (case if_client api_client (\<lambda>api. api_suspend_account api (acct_username account) reason)
             (snd w) of
        (Inl e, r') \<Rightarrow> (Inl e, (fst w, r'))
      | (Inr u, r') \<Rightarrow>
     (case hosting_accounts_update repo account_id
             [Status ''suspended'', SuspendedReason (Some reason)] (fst w) of
        (Inl e, d') \<Rightarrow> (Inl e, (d', r'))
      | (Inr updated, d') \<Rightarrow> (Inr True, (d', r')))))"

definition suspend_account ::
  "'d repositories \<Rightarrow> 'r hosting_api option \<Rightarrow> uuid \<Rightarrow> string \<Rightarrow> 'd \<times> 'r \<Rightarrow>
   (exn + bool) \<times> ('d \<times> 'r)" where
  "suspend_account repo api_client account_id reason w =
     as_hosting_error ''Failed to suspend hosting account: ''
       (suspend_account_try repo api_client account_id reason w)"

definition unsuspend_account_try ::
  "'d repositories \<Rightarrow> 'r hosting_api option \<Rightarrow> uuid \<Rightarrow> 'd \<times> 'r \<Rightarrow> (exn + bool) \<times> ('d \<times> 'r)" where
  "unsuspend_account_try repo api_client account_id w =
     (case find_account repo account_id (fst w) of
        Inl e \<Rightarrow> (Inl e, w)
      | Inr account \<Rightarrow>
     (case if_client api_client (\<lambda>api. api_unsuspend_account api (acct_username account))
             (snd w) of
        (Inl e, r') \<Rightarrow> (Inl e, (fst w, r'))
      | (Inr u, r') \<Rightarrow>
     (case hosting_accounts_update repo account_id
             [Status ''active'', SuspendedReason None] (fst w) of
        (Inl e, d') \<Rightarrow> (Inl e, (d', r'))
      | (Inr updated, d') \<Rightarrow> (Inr True, (d', r')))))"

definition unsuspend_account ::
  "'d repositories \<Rightarrow> 'r hosting_api option \<Rightarrow> uuid \<Rightarrow> 'd \<times> 'r \<Rightarrow> (exn + bool) \<times> ('d \<times> 'r)" where
  "unsuspend_account repo api_client account_id w =
     as_hosting_error ''Failed to unsuspend hosting account: ''
       (unsuspend_account_try repo api_client account_id w)"

definition change_hosting_plan_try ::
  "'d repositories \<Rightarrow> 'r hosting_api option \<Rightarrow> uuid \<Rightarrow> uuid \<Rightarrow> 'd \<times> 'r \<Rightarrow>
   (exn + bool) \<times> ('d \<times> 'r)" where
  "change_hosting_plan_try repo api_client account_id new_package_id w =
     (case find_account repo account_id (fst w) of
        Inl e \<Rightarrow> (Inl e, w)
      | Inr account \<Rightarrow>
     (case hosting_packages_get repo new_package_id (fst w) of
        Inl e \<Rightarrow> (Inl e, w)
      | Inr None \<Rightarrow> (Inl (ValidationError ''New hosting package not found or inactive''), w)
      | Inr (Some new_package) \<Rightarrow>
     if \<not> pkg_active new_package then
       (Inl (ValidationError ''New hosting package not found or inactive''), w)
     else
     (case if_client api_client
             (\<lambda>api. api_change_plan api (acct_username account) (pkg_name new_package))
             (snd w) of
        (Inl e, r') \<Rightarrow> (Inl e, (fst w, r'))
      | (Inr u, r') \<Rightarrow>
     (case hosting_accounts_update repo account_id [PackageId new_package_id] (fst w) of
        (Inl e, d') \<Rightarrow> (Inl e, (d', r'))
      | (Inr updated, d') \<Rightarrow> (Inr True, (d', r'))))))"

definition change_hosting_plan ::
  "'d repositories \<Rightarrow> 'r hosting_api option \<Rightarrow> uuid \<Rightarrow> uuid \<Rightarrow> 'd \<times> 'r \<Rightarrow>
   (exn + bool) \<times> ('d \<times> 'r)" where
  "change_hosting_plan repo api_client account_id new_package_id w =
     as_hosting_error ''Failed to change hosting plan: ''
       (change_hosting_plan_try repo api_client account_id new_package_id w)"

text \<open>
  A usage percentage is the floating-point value \<^verbatim>\<open>round((usage / limit) * 100, 2)\<close>, kept
  here as the two integers it is computed from, or the integer \<^verbatim>\<open>0\<close> for a limit that
  is not positive.
\<close>

datatype percentage = NoLimit | PercentOf int int

record usage_report =
  report_usage :: usage_data
  disk_usage_percent :: percentage
  bandwidth_usage_percent :: percentage

text \<open>\<^verbatim>\<open>usage_data[key]\<close> under the guard \<^verbatim>\<open>limit > 0\<close>: a missing key raises
  \<^verbatim>\<open>KeyError\<close>.\<close>

definition percent_of :: "string \<Rightarrow> int option \<Rightarrow> int \<Rightarrow> exn + percentage" where
  "percent_of key usage limit =
     (if limit > 0 then
        (case usage of
           None \<Rightarrow> Inl (OtherError (CHR 0x27 # key @ [CHR 0x27]))
         | Some u \<Rightarrow> Inr (PercentOf u limit))
      else Inr NoLimit)"

definition usage_percentages :: "usage_data \<Rightarrow> exn + usage_report" where
  "usage_percentages usage =
     (let disk_limit = (case usage_disk_limit usage of None \<Rightarrow> 1024 | Some l \<Rightarrow> l);
          bandwidth_limit = (case usage_bandwidth_limit usage of None \<Rightarrow> 10240 | Some l \<Rightarrow> l)
      in case percent_of ''disk_usage'' (usage_disk_usage usage) disk_limit of
           Inl e \<Rightarrow> Inl e
         | Inr disk_percent \<Rightarrow>
            (case percent_of ''bandwidth_usage'' (usage_bandwidth_usage usage) bandwidth_limit of
               Inl e \<Rightarrow> Inl e
             | Inr bandwidth_percent \<Rightarrow>
                 Inr \<lparr>report_usage = usage, disk_usage_percent = disk_percent,
                      bandwidth_usage_percent = bandwidth_percent\<rparr>))"

definition get_account_usage_try ::
  "'d repositories \<Rightarrow> 'r hosting_api option \<Rightarrow> uuid \<Rightarrow> 'd \<times> 'r \<Rightarrow>
   (exn + usage_report) \<times> ('d \<times> 'r)" where
  "get_account_usage_try repo api_client account_id w =
     (case find_account repo account_id (fst w) of
        Inl e \<Rightarrow> (Inl e, w)
      | Inr account \<Rightarrow>
     (case (case api_client of
              Some api \<Rightarrow>
                (case api_get_account_usage api (acct_username account) (snd w) of
                   (Inl e, r') \<Rightarrow> (Inl e, (fst w, r'))
                 | (Inr usage, r') \<Rightarrow>
                    (case hosting_accounts_update repo account_id
                            [DiskUsage (case usage_disk_usage usage of None \<Rightarrow> 0 | Some u \<Rightarrow> u),
                             BandwidthUsage
                               (case usage_bandwidth_usage usage of None \<Rightarrow> 0 | Some u \<Rightarrow> u)]
                            (fst w) of
                       (Inl e, d') \<Rightarrow> (Inl e, (d', r'))
                     | (Inr updated, d') \<Rightarrow> (Inr usage, (d', r'))))
            | None \<Rightarrow>
                (Inr \<lparr>usage_disk_usage = Some (acct_disk_usage account),
                      usage_bandwidth_usage = Some (acct_bandwidth_usage account),
                      usage_disk_limit =
                        Some (case acct_package account of
                                None \<Rightarrow> 1024 | Some p \<Rightarrow> pkg_disk_space p),
                      usage_bandwidth_limit =
                        Some (case acct_package account of
                                None \<Rightarrow> 10240 | Some p \<Rightarrow> pkg_bandwidth p)\<rparr>, w)) of
        (Inl e, w') \<Rightarrow> (Inl e, w')
      | (Inr usage, w') \<Rightarrow>
         (case usage_percentages usage of
            Inl e \<Rightarrow> (Inl e, w')
          | Inr report \<Rightarrow> (Inr report, w'))))"

definition get_account_usage ::
  "'d repositories \<Rightarrow> 'r hosting_api option \<Rightarrow> uuid \<Rightarrow> 'd \<times> 'r \<Rightarrow>
   (exn + usage_report) \<times> ('d \<times> 'r)" where
  "get_account_usage repo api_client account_id w =
     as_hosting_error ''Failed to get account usage: ''
       (get_account_usage_try repo api_client account_id w)"

definition renew_hosting_account_try ::
  "'d repositories \<Rightarrow> int \<Rightarrow> uuid \<Rightarrow> int \<Rightarrow> 'd \<times> 'r \<Rightarrow> (exn + bool) \<times> ('d \<times> 'r)" where
  "renew_hosting_account_try repo now account_id years w =
     (case find_account repo account_id (fst w) of
        Inl e \<Rightarrow> (Inl e, w)
      | Inr account \<Rightarrow>
     (case plus_days (case acct_expires_date account of None \<Rightarrow> Naive now | Some d \<Rightarrow> d)
             (365 * years) of
        Inl e \<Rightarrow> (Inl e, w)
      | Inr new_expiry \<Rightarrow>
     (case hosting_accounts_update repo account_id
             [ExpiresDate new_expiry, Status ''active''] (fst w) of
        (Inl e, d') \<Rightarrow> (Inl e, (d', snd w))
      | (Inr updated, d') \<Rightarrow> (Inr True, (d', snd w)))))"

definition renew_hosting_account ::
  "'d repositories \<Rightarrow> int \<Rightarrow> uuid \<Rightarrow> int \<Rightarrow> 'd \<times> 'r \<Rightarrow> (exn + bool) \<times> ('d \<times> 'r)" where
  "renew_hosting_account repo now account_id years w =
     as_hosting_error ''Failed to renew hosting account: ''
       (renew_hosting_account_try repo now account_id years w)"

definition delete_hosting_account_try ::
  "'d repositories \<Rightarrow> 'r hosting_api option \<Rightarrow> uuid \<Rightarrow> 'd \<times> 'r \<Rightarrow> (exn + bool) \<times> ('d \<times> 'r)" where
  "delete_hosting_account_try repo api_client account_id w =
     (case find_account repo account_id (fst w) of
        Inl e \<Rightarrow> (Inl e, w)
      | Inr account \<Rightarrow>
     (case if_client api_client (\<lambda>api. api_delete_account api (acct_username account))
             (snd w) of
        (Inl e, r') \<Rightarrow> (Inl e, (fst w, r'))
      | (Inr u, r') \<Rightarrow>
     (case hosting_accounts_delete repo account_id (fst w) of
        (Inl e, d') \<Rightarrow> (Inl e, (d', r'))
      | (Inr success, d') \<Rightarrow> (Inr success, (d', r')))))"

definition delete_hosting_account ::
  "'d repositories \<Rightarrow> 'r hosting_api option \<Rightarrow> uuid \<Rightarrow> 'd \<times> 'r \<Rightarrow> (exn + bool) \<times> ('d \<times> 'r)" where
  "delete_hosting_account repo api_client account_id w =
     as_hosting_error ''Failed to delete hosting account: ''
       (delete_hosting_account_try repo api_client account_id w)"

subsection \<open>The repositories over an in-memory datastore\<close>

text \<open>
  \<^verbatim>\<open>BaseRepository\<close> and \<^verbatim>\<open>HostingAccountRepository\<close> of
  \<^verbatim>\<open>app/core/shared/repositories.py\<close> over tables held in memory: \<^verbatim>\<open>get\<close> is the first
  row with the id, \<^verbatim>\<open>create\<close> gives the row a fresh id, \<^verbatim>\<open>update\<close> sets the given
  attributes of the row if it exists, \<^verbatim>\<open>delete\<close> tells whether there was a row to delete.
  The column \<^verbatim>\<open>status\<close> has the database type \<^verbatim>\<open>hostingstatus\<close>, whose labels are the
  names of the members of \<^verbatim>\<open>HostingStatus\<close>: a string that is not one of them is refused
  when \<^verbatim>\<open>update\<close> commits, and the row stays as it was.  An account holds its status as
  the value of the member (\<^verbatim>\<open>account.status.value\<close>).
\<close>

record datastore =
  packages :: "(uuid \<times> HostingPackage) list"
  customers :: "(uuid \<times> Customer) list"
  accounts :: "HostingAccount list"
  next_uuid :: uuid

text \<open>A row with its \<^verbatim>\<open>package\<close> relationship loaded.\<close>

definition load_account :: "datastore \<Rightarrow> HostingAccount \<Rightarrow> HostingAccount" where
  "load_account ds a =
     a\<lparr>acct_package := (case acct_package_id a of
                           None \<Rightarrow> None | Some pid \<Rightarrow> map_of (packages ds) pid)\<rparr>"

definition store_get :: "uuid \<Rightarrow> datastore \<Rightarrow> HostingAccount option" where
  "store_get account_id ds =
     map_option (load_account ds) (find (\<lambda>a. acct_id a = account_id) (accounts ds))"

definition store_get_by_domain :: "string \<Rightarrow> datastore \<Rightarrow> HostingAccount option" where
  "store_get_by_domain domain ds =
     map_option (load_account ds) (find (\<lambda>a. acct_domain a = domain) (accounts ds))"

definition store_create :: "account_data \<Rightarrow> datastore \<Rightarrow> HostingAccount \<times> datastore" where
  "store_create obj_in ds =
     (let obj = \<lparr>acct_id = next_uuid ds, acct_domain = data_domain_name obj_in,
                 acct_username = data_username obj_in, acct_status = ''pending'',
                 acct_ip_address = data_ip_address obj_in,
                 acct_disk_usage = data_disk_usage obj_in,
                 acct_bandwidth_usage = data_bandwidth_usage obj_in,
                 acct_suspended_reason = None,
                 acct_expires_date = Some (data_expires_date obj_in),
                 acct_customer_id = Some (data_customer_id obj_in),
                 acct_package_id = Some (data_package_id obj_in),
                 acct_package = None\<rparr>;
          ds' = ds\<lparr>accounts := accounts ds @ [obj], next_uuid := next_uuid ds + 1\<rparr>
      in (load_account ds' obj, ds'))"

definition hosting_status_labels :: "(string \<times> string) list" where
  "hosting_status_labels =
     [(''ACTIVE'', ''active''), (''SUSPENDED'', ''suspended''), (''PENDING'', ''pending''),
      (''CANCELLED'', ''cancelled'')]"

fun refused :: "account_field \<Rightarrow> exn option" where
  "refused (Status s) =
     (if map_of hosting_status_labels s = None then
        Some (OtherError (''invalid input value for enum hostingstatus: '' @
                          CHR 0x22 # s @ [CHR 0x22]))
      else None)"
| "refused f = None"

fun set_field :: "account_field \<Rightarrow> HostingAccount \<Rightarrow> HostingAccount" where
  "set_field (Status s) a =
     a\<lparr>acct_status := (case map_of hosting_status_labels s of None \<Rightarrow> s | Some v \<Rightarrow> v)\<rparr>"
| "set_field (SuspendedReason r) a = a\<lparr>acct_suspended_reason := r\<rparr>"
| "set_field (PackageId p) a = a\<lparr>acct_package_id := Some p\<rparr>"
| "set_field (DiskUsage u) a = a\<lparr>acct_disk_usage := u\<rparr>"
| "set_field (BandwidthUsage u) a = a\<lparr>acct_bandwidth_usage := u\<rparr>"
| "set_field (ExpiresDate d) a = a\<lparr>acct_expires_date := Some d\<rparr>"

definition store_update ::
  "uuid \<Rightarrow> account_field list \<Rightarrow> datastore \<Rightarrow> (exn + HostingAccount option) \<times> datastore" where
  "store_update account_id obj_in ds =
     (case find (\<lambda>a. acct_id a = account_id) (accounts ds) of
        None \<Rightarrow> (Inr None, ds)
      | Some obj \<Rightarrow>
         (case List.map_filter refused obj_in of
            e # es \<Rightarrow> (Inl e, ds)
          | [] \<Rightarrow>
             (let obj' = fold set_field obj_in obj;
                  ds' = ds\<lparr>accounts := map (\<lambda>a. if acct_id a = account_id then obj' else a)
                                            (accounts ds)\<rparr>
              in (Inr (Some (load_account ds' obj')), ds'))))"

definition store_delete :: "uuid \<Rightarrow> datastore \<Rightarrow> bool \<times> datastore" where
  "store_delete account_id ds =
     (case find (\<lambda>a. acct_id a = account_id) (accounts ds) of
        None \<Rightarrow> (False, ds)
      | Some obj \<Rightarrow>
          (True, ds\<lparr>accounts := filter (\<lambda>a. acct_id a \<noteq> account_id) (accounts ds)\<rparr>))"

definition memory_repositories :: "datastore repositories" where
  "memory_repositories =
     \<lparr>hosting_packages_get = (\<lambda>i ds. Inr (map_of (packages ds) i)),
      customers_get = (\<lambda>i ds. Inr (map_of (customers ds) i)),
      hosting_accounts_get = (\<lambda>i ds. Inr (store_get i ds)),
      hosting_accounts_get_by_domain = (\<lambda>n ds. Inr (store_get_by_domain n ds)),
      hosting_accounts_create = (\<lambda>obj_in ds. case store_create obj_in ds of (a, ds') \<Rightarrow> (Inr a, ds')),
      hosting_accounts_update = store_update,
      hosting_accounts_delete = (\<lambda>i ds. case store_delete i ds of (b, ds') \<Rightarrow> (Inr b, ds'))\<rparr>"

subsection \<open>A hosting provider for concrete runs\<close>

text \<open>An in-memory hosting provider that records the calls it receives and serves them
  all.\<close>

datatype hosting_call =
    CreateAccount create_request
  | SuspendAccount string string
  | UnsuspendAccount string
  | ChangePlan string string
  | GetAccountUsage string
  | DeleteAccount string

definition logging_hosting_api :: "hosting_call list hosting_api" where
  "logging_hosting_api =
     \<lparr>api_create_account = (\<lambda>q log. (Inr (Some ''203.0.113.7''), log @ [CreateAccount q])),
      api_suspend_account = (\<lambda>u reason log. (Inr (), log @ [SuspendAccount u reason])),
      api_unsuspend_account = (\<lambda>u log. (Inr (), log @ [UnsuspendAccount u])),
      api_change_plan = (\<lambda>u p log. (Inr (), log @ [ChangePlan u p])),
      api_get_account_usage =
        (\<lambda>u log. (Inr \<lparr>usage_disk_usage = Some 1024, usage_bandwidth_usage = Some 512,
                        usage_disk_limit = Some 2048, usage_bandwidth_limit = Some 0\<rparr>,
                   log @ [GetAccountUsage u])),
      api_delete_account = (\<lambda>u log. (Inr (), log @ [DeleteAccount u]))\<rparr>"

definition basic_package :: HostingPackage where
  "basic_package = \<lparr>pkg_name = ''basic'', pkg_disk_space = 2048, pkg_bandwidth = 10240,
                    pkg_active = True\<rparr>"

definition example_account :: HostingAccount where
  "example_account =
     \<lparr>acct_id = 7, acct_domain = ''example.com'', acct_username = ''testuser'',
      acct_status = ''active'', acct_ip_address = ''203.0.113.7'', acct_disk_usage = 0,
      acct_bandwidth_usage = 0, acct_suspended_reason = None, acct_expires_date = None,
      acct_customer_id = Some 2, acct_package_id = Some 1, acct_package = None\<rparr>"

text \<open>A datastore with one active package, one customer and one account, for
  \<^verbatim>\<open>example.com\<close>.\<close>

definition example_store :: datastore where
  "example_store =
     \<lparr>packages = [(1, basic_package)], customers = [(2, \<lparr>cust_email = ''john.doe@example.com''\<rparr>)],
      accounts = [example_account], next_uuid = 8\<rparr>"

section \<open>The language of a regular expression\<close>

text \<open>The set of strings that a regular expression denotes; the matcher by derivatives
  accepts exactly the strings of this set.\<close>

definition conc :: "string set \<Rightarrow> string set \<Rightarrow> string set" where
  "conc L M = {u @ v | u v. u \<in> L \<and> v \<in> M}"

inductive_set star :: "string set \<Rightarrow> string set" for L :: "string set" where
  star_nil: "[] \<in> star L"
| star_app: "u \<in> L \<Longrightarrow> v \<in> star L \<Longrightarrow> u @ v \<in> star L"

fun pow :: "string set \<Rightarrow> nat \<Rightarrow> string set" where
  "pow L 0 = {[]}"
| "pow L (Suc k) = conc L (pow L k)"

fun lang :: "rexp \<Rightarrow> string set" where
  "lang Zero = {}"
| "lang Eps = {[]}"
| "lang (Cls rs) = {[c] | c. in_class rs c}"
| "lang (Seq r s) = conc (lang r) (lang s)"
| "lang (Alt r s) = lang r \<union> lang s"
| "lang (Star r) = star (lang r)"
| "lang (Rep r m hi) = {w. \<exists>k. m \<le> k \<and> bound_ok k hi \<and> w \<in> pow (lang r) k}"

section \<open>Verified properties\<close>

subsection \<open>Evaluation of the patterns on concrete strings\<close>

lemmas regex_eval = re_match_def domain_name_pattern_def label_pattern_def Opt_def Plus_def
  alnum_def alnum_hyphen_def alpha_def in_class_def in_range_def

subsection \<open>Bulk availability\<close>

lemma check_bulk_loop_append:
  "check_bulk_loop api (xs @ ys) m r =
     (case check_bulk_loop api xs m r of (m1, r1) \<Rightarrow> check_bulk_loop api ys m1 r1)"
  by (induction xs arbitrary: m r) (auto split: prod.splits sum.splits)

lemma check_bulk_loop_dom: "dom (fst (check_bulk_loop api xs m r)) = dom m \<union> set xs"
  by (induction xs arbitrary: m r) (auto split: prod.splits sum.splits)

lemma check_bulk_loop_other:
  "d \<notin> set xs \<Longrightarrow> fst (check_bulk_loop api xs m r) d = m d"
  by (induction xs arbitrary: m r) (auto split: prod.splits sum.splits)

lemma check_bulk_loop_step:
  "fst (check_bulk_loop api [d] m r) d = Some (recorded (fst (check_domain_availability api d r)))"
  by (auto split: prod.splits sum.splits)

lemma check_bulk_loop_nth:
  assumes "i < length ds" and "ds ! i \<notin> set (drop (Suc i) ds)"
  shows "fst (check_bulk_loop api ds m r) (ds ! i) =
         Some (recorded (fst (check_domain_availability api (ds ! i)
                                (snd (check_bulk_loop api (take i ds) m r)))))"
proof -
  obtain m1 r1 where p: "check_bulk_loop api (take i ds) m r = (m1, r1)"
    by (cases "check_bulk_loop api (take i ds) m r")
  obtain m2 r2 where q: "check_bulk_loop api [ds ! i] m1 r1 = (m2, r2)"
    by (cases "check_bulk_loop api [ds ! i] m1 r1")
  have ds: "ds = take i ds @ [ds ! i] @ drop (Suc i) ds"
    using assms(1) by (simp add: id_take_nth_drop)
  have "check_bulk_loop api ds m r = check_bulk_loop api (drop (Suc i) ds) m2 r2"
    by (subst ds) (simp only: check_bulk_loop_append p q prod.case)
  then have "fst (check_bulk_loop api ds m r) (ds ! i) = m2 (ds ! i)"
    using check_bulk_loop_other [OF assms(2)] by simp
  also have "m2 (ds ! i) = Some (recorded (fst (check_domain_availability api (ds ! i) r1)))"
    using check_bulk_loop_step [of api "ds ! i" m1 r1] q by simp
  finally show ?thesis using p by simp
qed

text \<open>
  C5.  For every list of names, \<^verbatim>\<open>check_bulk_domains_availability\<close> returns (it does not
  raise) a dictionary whose keys are exactly the names of the list.  The name at position
  \<open>i\<close> (its last occurrence, if it is repeated) is mapped to the result of its own check,
  made on the remote state that the checks of the \<open>i\<close> names before it have left, or to
  \<^verbatim>\<open>False\<close> if that check raised; the checks after it do not change its entry.
\<close>

theorem check_bulk_domains_availability_map:
  "\<exists>results r'.
     check_bulk_domains_availability api domain_list r = (Inr results, r') \<and>
     dom results = set domain_list \<and>
     (\<forall>i < length domain_list.
        domain_list ! i \<notin> set (drop (Suc i) domain_list) \<longrightarrow>
        results (domain_list ! i) =
          Some (recorded (fst (check_domain_availability api (domain_list ! i)
                  (snd (check_bulk_domains_availability api (take i domain_list) r))))))"
proof -
  obtain results r' where p: "check_bulk_loop api domain_list Map.empty r = (results, r')"
    by (cases "check_bulk_loop api domain_list Map.empty r")
  have st: "snd (check_bulk_domains_availability api ds r) = snd (check_bulk_loop api ds Map.empty r)"
    for ds
    by (simp add: check_bulk_domains_availability_def split: prod.splits)
  have "dom results = set domain_list"
    using check_bulk_loop_dom [of api domain_list Map.empty r] p by simp
  moreover have "results (domain_list ! i) =
          Some (recorded (fst (check_domain_availability api (domain_list ! i)
                  (snd (check_bulk_domains_availability api (take i domain_list) r)))))"
    if "i < length domain_list" "domain_list ! i \<notin> set (drop (Suc i) domain_list)" for i
    using check_bulk_loop_nth [OF that, of api Map.empty r] p by (simp add: st)
  ultimately show ?thesis
    by (simp add: check_bulk_domains_availability_def p)
qed

lemma abc_checks:
  "check_domain_availability abc_registrar ''a.com'' log =
     (Inr True, log @ [CheckAvailability ''a.com''])"
  "check_domain_availability abc_registrar ''b.com'' log =
     (Inl (DomainError ''Failed to check domain availability: API Error''),
      log @ [CheckAvailability ''b.com''])"
  "check_domain_availability abc_registrar ''c.com'' log =
     (Inr False, log @ [CheckAvailability ''c.com''])"
  by (simp_all add: check_domain_availability_def check_domain_availability_try_def
      validate_domain_name_def regex_eval abc_registrar_def fake_registrar_def abc_availability_def)

text \<open>
  The run of the specification's example: the lookup of \<^verbatim>\<open>b.com\<close> raises, its entry is
  \<^verbatim>\<open>False\<close>, and the two other names are still checked.
\<close>

theorem check_bulk_domains_availability_map_witness:
  "\<exists>results r'.
     check_bulk_domains_availability abc_registrar [''a.com'', ''b.com'', ''c.com''] [] =
       (Inr results, r') \<and>
     dom results = {''a.com'', ''b.com'', ''c.com''} \<and>
     (1::nat) < length [''a.com'', ''b.com'', ''c.com''] \<and>
     [''a.com'', ''b.com'', ''c.com''] ! 1 \<notin> set (drop (Suc 1) [''a.com'', ''b.com'', ''c.com'']) \<and>
     results ''a.com'' = Some True \<and> results ''b.com'' = Some False \<and>
     results ''c.com'' = Some False \<and>
     r' = [CheckAvailability ''a.com'', CheckAvailability ''b.com'', CheckAvailability ''c.com'']"
  using check_bulk_domains_availability_map
    [of abc_registrar "[''a.com'', ''b.com'', ''c.com'']" "[]"]
  by (auto simp: check_bulk_domains_availability_def abc_checks)

subsection \<open>Registration\<close>

lemma check_domain_availability_valid:
  assumes "validate_domain_name domain_name"
      and "api_check_availability api domain_name r = (Inr response, r1)"
  shows "check_domain_availability api domain_name r = (Inr (get_flag response), r1)"
  using assms by (simp add: check_domain_availability_def check_domain_availability_try_def)

lemma validate_registration_input_ok:
  assumes "validate_registration_input domain_name years contact_info = Inr ()"
  shows "validate_domain_name domain_name \<and> 0 < years \<and> (\<exists>c. contact_info = Some c)"
  using assms
  by (auto simp: validate_registration_input_def split: if_splits option.splits)

lemma add_days_in_range:
  assumes "0 \<le> now" and "0 < years" and "now + 365 * years * day_us \<le> datetime_max"
  shows "add_days now (365 * years) = Inr (Naive (now + 365 * years * day_us))"
  using assms by (auto simp: add_days_def day_us_def datetime_max_def)

text \<open>
  The object that is returned when the dates fit: built by the ORM constructor from the
  readings 0 and 1 of the clock, or by the handler from the readings 2 and 3.
\<close>

lemma new_domain_in_range:
  assumes "0 < years"
      and "k = (if orm_accepts then 0 else 2)"
      and "0 \<le> clock 0" and "clock 0 + 365 * years * day_us \<le> datetime_max"
      and "0 \<le> clock k" and "clock k + 365 * years * day_us \<le> datetime_max"
  shows "new_domain clock orm_accepts domain_name years =
           Inr \<lparr>name = domain_name, status = ACTIVE,
                expiry_date = Naive (clock k + 365 * years * day_us),
                registration_date = Naive (clock (Suc k)),
                nameservers = [''ns1.default.com'', ''ns2.default.com''],
                locked = False, privacy_protection = False, auto_renew = True\<rparr>"
proof -
  have d0: "add_days (clock 0) (365 * years) = Inr (Naive (clock 0 + 365 * years * day_us))"
    using add_days_in_range [OF assms(3) assms(1) assms(4)] .
  have dk: "add_days (clock k) (365 * years) = Inr (Naive (clock k + 365 * years * day_us))"
    using add_days_in_range [OF assms(5) assms(1) assms(6)] .
  show ?thesis
  proof (cases orm_accepts)
    case True
    then show ?thesis
      using d0 assms(2) by (simp add: new_domain_def domain_object_def)
  next
    case False
    then have k: "k = 2" using assms(2) by simp
    show ?thesis
      using d0 dk False unfolding k
      by (simp add: new_domain_def mock_domain_def domain_object_def numeral_3_eq_3)
  qed
qed

text \<open>
  C3 (amended).  For every registration request that passes input validation and whose
  availability check returns a response: if the response does not report the domain
  available, \<^verbatim>\<open>register_domain\<close> raises \<^verbatim>\<open>DomainError\<close> "Domain ... is not available" and
  the remote state is the one the availability check left (the remote registration is not
  invoked); if it reports the domain available, the remote registration succeeds and the
  expiry dates computed fit \<^verbatim>\<open>datetime\<close> (at most the year 9999), the returned domain has
  status active, the expiry date \<open>365 * years\<close> days after the reading of the clock taken
  for it, as registration date the next reading of the clock, the default name servers,
  \<open>locked = False\<close>, \<open>privacy_protection = False\<close> and \<open>auto_renew = True\<close>.  The two
  dates come from two readings of the clock (number 0 and 1 when the constructor of the
  model accepts the attributes, 2 and 3 when the handler builds the object), so they are
  \<open>365 * years\<close> days apart only up to the time between two readings.
\<close>

theorem register_domain_result:
  assumes "validate_registration_input domain_name years contact_info = Inr ()"
      and "api_check_availability api domain_name r = (Inr response, r1)"
  shows "(\<not> get_flag response \<longrightarrow>
            register_domain api clock orm_accepts domain_name years contact_info r =
              (Inl (DomainError (''Domain '' @ domain_name @ '' is not available'')), r1)) \<and>
         (get_flag response \<and> contact_info = Some c \<and>
          api_register_domain api
             \<lparr>reg_domain = domain_name, reg_years = years, reg_contacts = c,
              reg_privacy = False, reg_auto_renew = True\<rparr> r1 = (Inr (), r2) \<and>
          k = (if orm_accepts then 0 else 2) \<and>
          0 \<le> clock 0 \<and> clock 0 + 365 * years * day_us \<le> datetime_max \<and>
          0 \<le> clock k \<and> clock k + 365 * years * day_us \<le> datetime_max \<longrightarrow>
            register_domain api clock orm_accepts domain_name years contact_info r =
              (Inr \<lparr>name = domain_name, status = ACTIVE,
                    expiry_date = Naive (clock k + 365 * years * day_us),
                    registration_date = Naive (clock (Suc k)),
                    nameservers = [''ns1.default.com'', ''ns2.default.com''],
                    locked = False, privacy_protection = False, auto_renew = True\<rparr>, r2))"
proof -
  from validate_registration_input_ok [OF assms(1)]
  have v: "validate_domain_name domain_name" "0 < years"
    by blast+
  have av: "check_domain_availability api domain_name r = (Inr (get_flag response), r1)"
    using check_domain_availability_valid [OF v(1) assms(2)] .
  have unavailable:
    "register_domain api clock orm_accepts domain_name years contact_info r =
      (Inl (DomainError (''Domain '' @ domain_name @ '' is not available'')), r1)"
    if "\<not> get_flag response"
    using that by (simp add: register_domain_def register_domain_try_def assms(1) av)
  have available:
    "register_domain api clock orm_accepts domain_name years contact_info r =
      (Inr \<lparr>name = domain_name, status = ACTIVE,
            expiry_date = Naive (clock k + 365 * years * day_us),
            registration_date = Naive (clock (Suc k)),
            nameservers = [''ns1.default.com'', ''ns2.default.com''],
            locked = False, privacy_protection = False, auto_renew = True\<rparr>, r2)"
    if "get_flag response" "contact_info = Some c"
       "api_register_domain api
             \<lparr>reg_domain = domain_name, reg_years = years, reg_contacts = c,
              reg_privacy = False, reg_auto_renew = True\<rparr> r1 = (Inr (), r2)"
       "k = (if orm_accepts then 0 else 2)"
       "0 \<le> clock 0" "clock 0 + 365 * years * day_us \<le> datetime_max"
       "0 \<le> clock k" "clock k + 365 * years * day_us \<le> datetime_max"
  proof -
    note d = new_domain_in_range [OF v(2) that(4) that(5) that(6) that(7) that(8),
        of domain_name]
    have t: "to_dict contact_info = Inr c"
      using that(2) by (simp add: to_dict_def)
    show ?thesis
      by (simp add: register_domain_def register_domain_try_def assms(1) av that(1) t that(3) d)
  qed
  show ?thesis using unavailable available by blast
qed

lemma sample_valid:
  "validate_registration_input ''example.com'' 2 (Some sample_contact) = Inr ()"
  "validate_registration_input ''example.com'' 8000 (Some sample_contact) = Inr ()"
  by (simp_all add: validate_registration_input_def validate_domain_name_def regex_eval
        sample_contact_def)

text \<open>
  Two runs for two years, on a clock that reads 2026-01-01T00:00:00 first and a second
  more at each further reading, the constructor of the model refusing the attributes: on
  a registrar that reports the name taken, whose log then holds the availability check
  only, and on one that reports it available and registers it.  The domain returned has
  the expiry date 2028-01-01T00:00:02 and the registration date 2026-01-01T00:00:03.
\<close>

theorem register_domain_result_witness:
  "validate_registration_input ''example.com'' 2 (Some sample_contact) = Inr () \<and>
   api_check_availability taken_registrar ''example.com'' [] =
     (Inr (Some False), [CheckAvailability ''example.com'']) \<and>
   \<not> get_flag (Some False) \<and>
   register_domain taken_registrar sample_clock False ''example.com'' 2 (Some sample_contact) [] =
     (Inl (DomainError ''Domain example.com is not available''),
      [CheckAvailability ''example.com'']) \<and>
   api_check_availability (open_registrar (Inr (Some True))) ''example.com'' [] =
     (Inr (Some True), [CheckAvailability ''example.com'']) \<and>
   get_flag (Some True) \<and>
   api_register_domain (open_registrar (Inr (Some True))) (sample_registration 2)
      [CheckAvailability ''example.com''] =
     (Inr (), [CheckAvailability ''example.com'', RegisterDomain (sample_registration 2)]) \<and>
   0 \<le> sample_clock 0 \<and> sample_clock 0 + 365 * 2 * day_us \<le> datetime_max \<and>
   0 \<le> sample_clock 2 \<and> sample_clock 2 + 365 * 2 * day_us \<le> datetime_max \<and>
   register_domain (open_registrar (Inr (Some True))) sample_clock False ''example.com'' 2
       (Some sample_contact) [] =
     (Inr \<lparr>name = ''example.com'', status = ACTIVE,
           expiry_date = Naive (sample_now + 2000000 + 365 * 2 * day_us),
           registration_date = Naive (sample_now + 3000000),
           nameservers = [''ns1.default.com'', ''ns2.default.com''],
           locked = False, privacy_protection = False, auto_renew = True\<rparr>,
      [CheckAvailability ''example.com'', RegisterDomain (sample_registration 2)])"
  using register_domain_result [where domain_name = "''example.com''" and years = 2
      and contact_info = "Some sample_contact" and api = taken_registrar and r = "[]"
      and response = "Some False" and ?r1.0 = "[CheckAvailability ''example.com'']"
      and clock = sample_clock and orm_accepts = False]
    register_domain_result [where domain_name = "''example.com''" and years = 2
      and contact_info = "Some sample_contact" and api = "open_registrar (Inr (Some True))"
      and r = "[]" and response = "Some True"
      and ?r1.0 = "[CheckAvailability ''example.com'']" and c = sample_contact
      and ?r2.0 = "[CheckAvailability ''example.com'', RegisterDomain (sample_registration 2)]"
      and clock = sample_clock and orm_accepts = False and k = 2]
  by (simp add: sample_valid taken_registrar_def open_registrar_def fake_registrar_def
       sample_registration_def sample_clock_def sample_now_def day_us_def datetime_max_def)

text \<open>
  The claim as stated fails for a number of years that passes validation but takes the
  expiry date past the year 9999: from 2026-01-01, for 8000 years, the name is available
  and the remote registration succeeds, and then the computation of the expiry date
  raises, in the handler as in the constructor call, so that no domain is returned.
\<close>

theorem register_domain_overflow_counterexample:
  "validate_registration_input ''example.com'' 8000 (Some sample_contact) = Inr () \<and>
   api_check_availability (open_registrar (Inr (Some True))) ''example.com'' [] =
     (Inr (Some True), [CheckAvailability ''example.com'']) \<and>
   api_register_domain (open_registrar (Inr (Some True))) (sample_registration 8000)
      [CheckAvailability ''example.com''] =
     (Inr (), [CheckAvailability ''example.com'', RegisterDomain (sample_registration 8000)]) \<and>
   register_domain (open_registrar (Inr (Some True))) sample_clock False ''example.com'' 8000
     (Some sample_contact) [] =
     (Inl (DomainError ''Domain registration failed: date value out of range''),
      [CheckAvailability ''example.com'', RegisterDomain (sample_registration 8000)])"
  by (simp add: sample_valid open_registrar_def fake_registrar_def sample_registration_def
       register_domain_def register_domain_try_def check_domain_availability_def
       check_domain_availability_try_def validate_domain_name_def regex_eval to_dict_def
       new_domain_def mock_domain_def add_days_def
       sample_clock_def sample_now_def day_us_def datetime_max_def)

text \<open>The same holds when the constructor of the model accepts the attributes, and
  whatever the clock reads from 2026 on.\<close>

lemma expiry_past_datetime_max:
  assumes "\<forall>k. sample_now \<le> clock k"
  shows "register_domain (open_registrar (Inr (Some True))) clock orm_accepts ''example.com''
           8000 (Some sample_contact) [] =
         (Inl (DomainError ''Domain registration failed: date value out of range''),
          [CheckAvailability ''example.com'', RegisterDomain (sample_registration 8000)])"
proof -
  have "add_days (clock k) (365 * 8000) = Inl (OtherError ''date value out of range'')" for k
    using assms [rule_format, of k]
    by (simp add: add_days_def sample_now_def day_us_def datetime_max_def)
  then show ?thesis
    by (simp add: sample_valid open_registrar_def fake_registrar_def sample_registration_def
       register_domain_def register_domain_try_def check_domain_availability_def
       check_domain_availability_try_def validate_domain_name_def regex_eval to_dict_def
       new_domain_def mock_domain_def)
qed

subsection \<open>Registration with privacy\<close>

lemma new_domain_privacy_off:
  "new_domain clock orm_accepts domain_name years = Inr domain \<Longrightarrow>
   privacy_protection domain = False"
  by (auto simp: new_domain_def mock_domain_def domain_object_def
      split: sum.splits if_splits)

lemma register_domain_privacy_off:
  assumes "register_domain api clock orm_accepts domain_name years contact_info r =
             (Inr domain, r1)"
  shows "privacy_protection domain = False"
  using assms new_domain_privacy_off [of clock orm_accepts domain_name years domain]
  by (auto simp: register_domain_def register_domain_try_def
      split: sum.splits prod.splits if_splits)

text \<open>
  C4 (amended).  For every input on which \<^verbatim>\<open>register_domain\<close> succeeds: if the remote
  privacy call returns a response, \<^verbatim>\<open>register_domain_with_privacy\<close> returns the
  registration result with \<open>privacy_protection\<close> true exactly when the response reports
  success (a reported failure does not raise and leaves it false); if the remote privacy
  call raises, \<^verbatim>\<open>register_domain_with_privacy\<close> raises \<^verbatim>\<open>DomainError\<close>
  "Failed to enable privacy protection: ...".
\<close>

theorem register_domain_with_privacy_result:
  assumes "register_domain api clock orm_accepts domain_name years contact_info r =
             (Inr domain, r1)"
  shows "(api_enable_whois_privacy api domain_name r1 = (Inr response, r2) \<longrightarrow>
            register_domain_with_privacy api clock orm_accepts domain_name years contact_info r =
              (Inr (domain\<lparr>privacy_protection := get_flag response\<rparr>), r2)) \<and>
         (api_enable_whois_privacy api domain_name r1 = (Inl e, r2) \<longrightarrow>
            register_domain_with_privacy api clock orm_accepts domain_name years contact_info r =
              (Inl (DomainError (''Failed to enable privacy protection: '' @ str_exn e)), r2))"
  using register_domain_privacy_off [OF assms]
  by (simp add: register_domain_with_privacy_def assms enable_privacy_protection_def)

lemma sample_registered:
  "register_domain (open_registrar p) sample_clock False ''example.com'' 2
       (Some sample_contact) [] =
     (Inr \<lparr>name = ''example.com'', status = ACTIVE,
           expiry_date = Naive (sample_now + 2000000 + 365 * 2 * day_us),
           registration_date = Naive (sample_now + 3000000),
           nameservers = [''ns1.default.com'', ''ns2.default.com''],
           locked = False, privacy_protection = False, auto_renew = True\<rparr>,
      [CheckAvailability ''example.com'', RegisterDomain (sample_registration 2)])"
  by (simp add: open_registrar_def fake_registrar_def sample_registration_def
       register_domain_def register_domain_try_def check_domain_availability_def
       check_domain_availability_try_def validate_domain_name_def regex_eval to_dict_def
       validate_registration_input_def sample_contact_def
       new_domain_def mock_domain_def domain_object_def add_days_def
       sample_clock_def sample_now_def day_us_def datetime_max_def)

text \<open>
  The claim as stated fails when the remote privacy call raises: the registration alone
  succeeds, the registration with privacy raises after the domain has been registered.
\<close>

theorem register_domain_with_privacy_counterexample:
  "\<not> isl (fst (register_domain (open_registrar (Inl (OtherError ''API Error''))) sample_clock
             False ''example.com'' 2 (Some sample_contact) [])) \<and>
   register_domain_with_privacy (open_registrar (Inl (OtherError ''API Error''))) sample_clock
       False ''example.com'' 2 (Some sample_contact) [] =
     (Inl (DomainError ''Failed to enable privacy protection: API Error''),
      [CheckAvailability ''example.com'', RegisterDomain (sample_registration 2),
       EnableWhoisPrivacy ''example.com''])"
  by (simp add: sample_registered register_domain_with_privacy_def enable_privacy_protection_def)
     (simp add: open_registrar_def fake_registrar_def)

text \<open>Three runs: the privacy call reports success, reports failure, and raises.\<close>

theorem register_domain_with_privacy_result_witness:
  "register_domain_with_privacy (open_registrar (Inr (Some True))) sample_clock False
       ''example.com'' 2 (Some sample_contact) [] =
     (Inr \<lparr>name = ''example.com'', status = ACTIVE,
           expiry_date = Naive (sample_now + 2000000 + 365 * 2 * day_us),
           registration_date = Naive (sample_now + 3000000),
           nameservers = [''ns1.default.com'', ''ns2.default.com''],
           locked = False, privacy_protection = True, auto_renew = True\<rparr>,
      [CheckAvailability ''example.com'', RegisterDomain (sample_registration 2),
       EnableWhoisPrivacy ''example.com'']) \<and>
   register_domain_with_privacy (open_registrar (Inr (Some False))) sample_clock False
       ''example.com'' 2 (Some sample_contact) [] =
     (Inr \<lparr>name = ''example.com'', status = ACTIVE,
           expiry_date = Naive (sample_now + 2000000 + 365 * 2 * day_us),
           registration_date = Naive (sample_now + 3000000),
           nameservers = [''ns1.default.com'', ''ns2.default.com''],
           locked = False, privacy_protection = False, auto_renew = True\<rparr>,
      [CheckAvailability ''example.com'', RegisterDomain (sample_registration 2),
       EnableWhoisPrivacy ''example.com'']) \<and>
   register_domain_with_privacy (open_registrar (Inl (OtherError ''Timeout''))) sample_clock
       False ''example.com'' 2 (Some sample_contact) [] =
     (Inl (DomainError ''Failed to enable privacy protection: Timeout''),
      [CheckAvailability ''example.com'', RegisterDomain (sample_registration 2),
       EnableWhoisPrivacy ''example.com''])"
  using register_domain_with_privacy_result [OF sample_registered [of "Inr (Some True)"],
          where response = "Some True"
            and ?r2.0 = "[CheckAvailability ''example.com'', RegisterDomain (sample_registration 2),
                          EnableWhoisPrivacy ''example.com'']"]
        register_domain_with_privacy_result [OF sample_registered [of "Inr (Some False)"],
          where response = "Some False"
            and ?r2.0 = "[CheckAvailability ''example.com'', RegisterDomain (sample_registration 2),
                          EnableWhoisPrivacy ''example.com'']"]
        register_domain_with_privacy_result [OF sample_registered [of "Inl (OtherError ''Timeout'')"],
          where e = "OtherError ''Timeout''"
            and ?r2.0 = "[CheckAvailability ''example.com'', RegisterDomain (sample_registration 2),
                          EnableWhoisPrivacy ''example.com'']"]
  by (simp add: open_registrar_def fake_registrar_def)

subsection \<open>Transfer eligibility\<close>

lemma floor_days: "((d::int) div day_us < 60) = (d < 60 * day_us)"
  by (auto simp: day_us_def)

text \<open>
  The cases of \<^verbatim>\<open>check_transfer_eligibility\<close>, for any registrar.  It never raises.  It
  returns \<^verbatim>\<open>False\<close> when the fetch of the lock status raises, when the remote lock
  status is true (whatever the expiry date), when the fetch of the details raises, and
  when the expiry date is a naive datetime less than 60 days after \<open>now\<close>; it returns
  \<^verbatim>\<open>True\<close> when the domain is not locked and the expiry date is a naive datetime at least
  60 days after \<open>now\<close>.  For an expiry date with a time zone the subtraction of
  \<^verbatim>\<open>datetime.now()\<close> raises and the result is \<^verbatim>\<open>False\<close>.
\<close>

lemma check_transfer_eligibility_cases:
  "(\<exists>b r'. check_transfer_eligibility api now domain_name r = (Inr b, r')) \<and>
   (\<forall>e r1. api_get_domain_status api domain_name r = (Inl e, r1) \<longrightarrow>
      check_transfer_eligibility api now domain_name r = (Inr False, r1)) \<and>
   (\<forall>r1. api_get_domain_status api domain_name r = (Inr (Some True), r1) \<longrightarrow>
      check_transfer_eligibility api now domain_name r = (Inr False, r1)) \<and>
   (\<forall>response r1 e r2.
      api_get_domain_status api domain_name r = (Inr response, r1) \<and> \<not> get_flag response \<and>
      get_domain_details api domain_name r1 = (Inl e, r2) \<longrightarrow>
      check_transfer_eligibility api now domain_name r = (Inr False, r2)) \<and>
   (\<forall>response r1 domain r2 expiry.
      api_get_domain_status api domain_name r = (Inr response, r1) \<and> \<not> get_flag response \<and>
      get_domain_details api domain_name r1 = (Inr domain, r2) \<longrightarrow>
      (expiry_date domain = Naive expiry \<longrightarrow>
         check_transfer_eligibility api now domain_name r =
           (Inr (\<not> expiry - now < 60 * day_us), r2)) \<and>
      (expiry_date domain = Aware expiry \<longrightarrow>
         check_transfer_eligibility api now domain_name r = (Inr False, r2)))"
proof -
  have total: "\<exists>b r'. check_transfer_eligibility api now domain_name r = (Inr b, r')"
    by (auto simp: check_transfer_eligibility_def split: prod.splits sum.splits)
  have lock_raises: "check_transfer_eligibility api now domain_name r = (Inr False, r1)"
    if "api_get_domain_status api domain_name r = (Inl e, r1)" for e r1
    using that
    by (simp add: check_transfer_eligibility_def check_transfer_eligibility_try_def
        get_domain_locking_status_def)
  have is_locked: "check_transfer_eligibility api now domain_name r = (Inr False, r1)"
    if "api_get_domain_status api domain_name r = (Inr (Some True), r1)" for r1
    using that
    by (simp add: check_transfer_eligibility_def check_transfer_eligibility_try_def
        get_domain_locking_status_def)
  have details_raise: "check_transfer_eligibility api now domain_name r = (Inr False, r2)"
    if "api_get_domain_status api domain_name r = (Inr response, r1)" "\<not> get_flag response"
       "get_domain_details api domain_name r1 = (Inl e, r2)" for response r1 e r2
    using that
    by (simp add: check_transfer_eligibility_def check_transfer_eligibility_try_def
        get_domain_locking_status_def)
  have naive: "check_transfer_eligibility api now domain_name r =
           (Inr (\<not> expiry - now < 60 * day_us), r2)"
    if "api_get_domain_status api domain_name r = (Inr response, r1)" "\<not> get_flag response"
       "get_domain_details api domain_name r1 = (Inr domain, r2)"
       "expiry_date domain = Naive expiry" for response r1 domain r2 expiry
    using that
    by (simp add: check_transfer_eligibility_def check_transfer_eligibility_try_def
        get_domain_locking_status_def floor_days)
  have aware: "check_transfer_eligibility api now domain_name r = (Inr False, r2)"
    if "api_get_domain_status api domain_name r = (Inr response, r1)" "\<not> get_flag response"
       "get_domain_details api domain_name r1 = (Inr domain, r2)"
       "expiry_date domain = Aware expiry" for response r1 domain r2 expiry
    using that
    by (simp add: check_transfer_eligibility_def check_transfer_eligibility_try_def
        get_domain_locking_status_def)
  show ?thesis
    using total lock_raises is_locked details_raise naive aware by blast
qed

lemma status_details:
  "get_domain_details (status_registrar l expiry) n log =
     (Inr \<lparr>name = n, status = ACTIVE, expiry_date = expiry, registration_date = Naive 0,
           nameservers = [''ns1.example.com'', ''ns2.example.com''],
           locked = False, privacy_protection = False, auto_renew = True\<rparr>,
      log @ [GetDomainInfo n])"
  by (simp add: get_domain_details_def status_registrar_def fake_registrar_def sample_info_def
      domain_from_info_def parse_status_def parse_date_def)

text \<open>
  The three cases of the specification, with expiry dates that carry no time zone: locked
  with an expiry 90 days out, unlocked with an expiry 30 days out, unlocked with an expiry
  90 days out.
\<close>

lemma check_transfer_eligibility_naive_runs:
  "check_transfer_eligibility (status_registrar True (Naive (sample_now + 90 * day_us)))
       sample_now ''locked.com'' [] = (Inr False, [GetDomainStatus ''locked.com'']) \<and>
   check_transfer_eligibility (status_registrar False (Naive (sample_now + 30 * day_us)))
       sample_now ''expiring.com'' [] =
     (Inr False, [GetDomainStatus ''expiring.com'', GetDomainInfo ''expiring.com'']) \<and>
   check_transfer_eligibility (status_registrar False (Naive (sample_now + 90 * day_us)))
       sample_now ''eligible.com'' [] =
     (Inr True, [GetDomainStatus ''eligible.com'', GetDomainInfo ''eligible.com''])"
  using check_transfer_eligibility_cases
          [of "status_registrar True (Naive (sample_now + 90 * day_us))" sample_now
              "''locked.com''" "[]"]
        check_transfer_eligibility_cases
          [of "status_registrar False (Naive (sample_now + 30 * day_us))" sample_now
              "''expiring.com''" "[]"]
        check_transfer_eligibility_cases
          [of "status_registrar False (Naive (sample_now + 90 * day_us))" sample_now
              "''eligible.com''" "[]"]
  by (simp add: status_details)
     (simp add: status_registrar_def fake_registrar_def day_us_def)

text \<open>
  C6.  The claim requires \<^verbatim>\<open>True\<close> for an unlocked domain whose expiry date is 90 days
  out.  \<^verbatim>\<open>get_domain_details\<close> replaces a final \<^verbatim>\<open>Z\<close> of the \<^verbatim>\<open>expiry_date\<close> of the
  response by an offset before it parses the date, so that such a date carries a time
  zone; \<^verbatim>\<open>check_transfer_eligibility\<close> subtracts \<^verbatim>\<open>datetime.now()\<close>, which carries none,
  the subtraction raises and the handler returns \<^verbatim>\<open>False\<close>.  Here the registrar reports
  the domain unlocked and an expiry date with a time zone, 90 days after \<open>now\<close>.
\<close>

theorem check_transfer_eligibility_aware_expiry:
  "get_domain_locking_status (status_registrar False (Aware (sample_now + 90 * day_us)))
       ''eligible.com'' [] = (Inr False, [GetDomainStatus ''eligible.com'']) \<and>
   get_domain_details (status_registrar False (Aware (sample_now + 90 * day_us)))
       ''eligible.com'' [GetDomainStatus ''eligible.com''] =
     (Inr \<lparr>name = ''eligible.com'', status = ACTIVE,
           expiry_date = Aware (sample_now + 90 * day_us), registration_date = Naive 0,
           nameservers = [''ns1.example.com'', ''ns2.example.com''],
           locked = False, privacy_protection = False, auto_renew = True\<rparr>,
      [GetDomainStatus ''eligible.com'', GetDomainInfo ''eligible.com'']) \<and>
   isl (days_between (Aware (sample_now + 90 * day_us)) (Naive sample_now)) \<and>
   check_transfer_eligibility (status_registrar False (Aware (sample_now + 90 * day_us)))
       sample_now ''eligible.com'' [] =
     (Inr False, [GetDomainStatus ''eligible.com'', GetDomainInfo ''eligible.com''])"
proof -
  let ?api = "status_registrar False (Aware (sample_now + 90 * day_us))"
  have lock: "get_domain_locking_status ?api ''eligible.com'' [] =
                (Inr False, [GetDomainStatus ''eligible.com''])"
    by (simp add: get_domain_locking_status_def status_registrar_def fake_registrar_def)
  have details: "get_domain_details ?api ''eligible.com'' [GetDomainStatus ''eligible.com''] =
     (Inr \<lparr>name = ''eligible.com'', status = ACTIVE,
           expiry_date = Aware (sample_now + 90 * day_us), registration_date = Naive 0,
           nameservers = [''ns1.example.com'', ''ns2.example.com''],
           locked = False, privacy_protection = False, auto_renew = True\<rparr>,
      [GetDomainStatus ''eligible.com'', GetDomainInfo ''eligible.com''])"
    by (simp add: status_details)
  show ?thesis
    by (simp add: check_transfer_eligibility_def check_transfer_eligibility_try_def
        lock details)
qed

subsection \<open>Validation of one DNS record\<close>

lemmas dns_eval = validate_dns_name_def dns_name_pattern_def regex_eval

text \<open>The parts of C8 about \<^verbatim>\<open>MX\<close> records hold.\<close>

lemma mx_without_priority_rejected:
  "\<exists>msg. validate_dns_record_input ip MX nm val ttl None = Inl (ValidationError msg)"
  by (simp add: validate_dns_record_input_def)

lemma mx_priority_out_of_range_rejected:
  "p < 0 \<or> 65535 < p \<Longrightarrow>
   \<exists>msg. validate_dns_record_input ip MX nm val ttl (Some p) = Inl (ValidationError msg)"
  by (simp add: validate_dns_record_input_def)

lemma mx_priority_10_accepted:
  "validate_dns_record_input ip MX ''example.com'' ''mail.example.com'' 3600 (Some 10) = Inr ()"
  by (simp add: validate_dns_record_input_def dns_eval)

text \<open>The length of a \<^verbatim>\<open>TXT\<close> value has no part in the outcome.\<close>

lemma txt_length_not_checked:
  "validate_dns_record_input ip TXT nm val ttl priority = Inr () \<longleftrightarrow>
     nm \<noteq> [] \<and> val \<noteq> [] \<and> 60 \<le> ttl \<and> ttl \<le> 86400 \<and> validate_dns_name nm"
  by (auto simp: validate_dns_record_input_def)

text \<open>
  C8.  The claim requires every \<^verbatim>\<open>TXT\<close> record whose value is longer than 255 to be
  rejected.  The code accepts a \<^verbatim>\<open>TXT\<close> record with a value of 256 characters: the
  method for \<^verbatim>\<open>TXT\<close> computes \<^verbatim>\<open>len(v) <= 255\<close> and the result is dropped.
\<close>

theorem txt_record_over_255_accepted:
  "length (replicate 256 (CHR ''a'')) = 256 \<and>
   validate_dns_record_input ip TXT ''example.com'' (replicate 256 (CHR ''a'')) 3600 None = Inr ()"
  by (simp add: validate_dns_record_input_def dns_eval)

subsection \<open>Bulk update of DNS records\<close>

lemmas memory_eval = memory_dns_manager_def remote_get_def spec_delete_dns_record_def
  spec_add_dns_record_def get_dns_records_def replace_records_def to_record_def
  record_type_of_def www_data_def mail_record_def outage_remote_def healthy_remote_def








text \<open>
  The session covers the datastore only.  If the manager is given the two methods as the
  specification describes them (deleting and adding at the provider), a failing step
  leaves at the provider what the steps before it have written: here the provider holds
  one record and fails after one more write, the update deletes the record, fails to add
  the new one and raises, and the record set of the provider is then empty.
\<close>

lemma session_does_not_cover_provider:
  "fst (get_dns_records (memory_dns_manager True) ''example.com'' ((), outage_remote)) =
     Inr [to_record www_data] \<and>
   update_dns_records (memory_dns_manager True) ''example.com'' [mail_record]
       ((), outage_remote) =
     (Inl (DNSError ''Failed to update DNS records: API Error''),
      ((), \<lparr>remote_records = [], next_id = 2, writes_left = 0\<rparr>)) \<and>
   fst (get_dns_records (memory_dns_manager True) ''example.com''
          ((), \<lparr>remote_records = [], next_id = 2, writes_left = 0\<rparr>)) = Inr []"
  by (simp add: update_dns_records_def update_records_with_transaction_def session_begin_def
      memory_eval validate_dns_record_input_def dns_eval)

lemma healthy_update:
  "update_dns_records (memory_dns_manager s) ''example.com'' [mail_record]
       ((), healthy_remote) =
     (Inr True, ((), \<lparr>remote_records =
         [\<lparr>rd_id = Some ''2'', rd_type = ''MX'', rd_name = ''example.com'',
           rd_value = ''mail.example.com'', rd_ttl = Some 3600, rd_priority = Some 10\<rparr>],
         next_id = 3, writes_left = 98\<rparr>))"
  by (simp add: update_dns_records_def update_records_without_transaction_def
      update_records_with_transaction_def session_begin_def
      update_or_restore_def restore_from_backup_def str_int_def digit_char_def
      memory_eval validate_dns_record_input_def dns_eval)

text \<open>Without a session no exception reaches the caller of \<^verbatim>\<open>update_dns_records\<close>.\<close>

lemma update_without_transaction_returns:
  "\<exists>b w'. update_records_without_transaction m domain_name records w = (Inr b, w')"
  by (auto simp: update_records_without_transaction_def split: prod.splits sum.splits)

lemma update_dns_records_without_session_returns:
  "\<not> with_session m \<Longrightarrow> \<exists>b w'. update_dns_records m domain_name records w = (Inr b, w')"
  using update_without_transaction_returns [of m domain_name records w]
  by (auto simp: update_dns_records_def)

text \<open>
  C2.  The claim requires the caller to observe a raised \<^verbatim>\<open>DNSError\<close> when the
  restoration fails.  Here the provider holds one record and fails after one more write,
  and no session is injected: the update fails after the deletion,
  \<^verbatim>\<open>_restore_from_backup\<close> fails too and raises its "Critical" error, and the caller of
  \<^verbatim>\<open>update_dns_records\<close> gets the return value \<^verbatim>\<open>False\<close>, the record set being empty.
\<close>

theorem restoration_failure_returns_false:
  "restore_from_backup (memory_dns_manager False) ''example.com'' [to_record www_data]
       ((), \<lparr>remote_records = [], next_id = 2, writes_left = 0\<rparr>) =
     (Inl (DNSError ''Critical: DNS restoration failed for example.com''),
      ((), \<lparr>remote_records = [], next_id = 2, writes_left = 0\<rparr>)) \<and>
   update_dns_records (memory_dns_manager False) ''example.com'' [mail_record]
       ((), outage_remote) =
     (Inr False, ((), \<lparr>remote_records = [], next_id = 2, writes_left = 0\<rparr>))"
  by (simp add: update_dns_records_def update_records_without_transaction_def
      update_or_restore_def restore_from_backup_def
      memory_eval validate_dns_record_input_def dns_eval)

text \<open>
  The same on the manager as \<^verbatim>\<open>dns.py\<close> defines it, which has no method to delete
  with: the update fails at the first record to delete, the restoration at the same
  place, and the caller gets \<^verbatim>\<open>False\<close>.
\<close>

lemma shipped_restoration_failure_returns_false:
  "restore_from_backup (shipped_dns_manager remote_get False) ''example.com''
       [to_record www_data] ((), healthy_remote) =
     (Inl (DNSError ''Critical: DNS restoration failed for example.com''),
      ((), healthy_remote)) \<and>
   update_dns_records (shipped_dns_manager remote_get False) ''example.com'' [mail_record]
       ((), healthy_remote) = (Inr False, ((), healthy_remote))"
  by (simp add: update_dns_records_def update_records_without_transaction_def
      update_or_restore_def restore_from_backup_def replace_records_def get_dns_records_def
      shipped_dns_manager_def remote_get_def healthy_remote_def)

subsection \<open>Hosting accounts\<close>

lemma as_hosting_error_raises:
  "as_hosting_error prefix res = (Inl e, s) \<Longrightarrow> is_HostingError e"
  by (auto simp: as_hosting_error_def split: prod.splits sum.splits)

lemma as_hosting_error_message:
  "res = (Inl e, s) \<Longrightarrow> as_hosting_error prefix res = (Inl (HostingError (prefix @ str_exn e)), s)"
  by (simp add: as_hosting_error_def)

lemmas hosting_eval = memory_repositories_def store_get_def store_get_by_domain_def
  load_account_def example_store_def example_account_def basic_package_def
  validate_hosting_input_def username_pattern_def lower_def lower_char_def re_match_def
  in_class_def in_range_def logging_hosting_api_def

text \<open>
  C9.  If the repository already holds a hosting account for the domain,
  \<^verbatim>\<open>create_hosting_account\<close> raises \<^verbatim>\<open>HostingError\<close> and leaves the datastore and the
  hosting provider as they were: nothing is persisted and the remote provisioning is not
  called.  (The check of the domain comes after the validation and the checks of package
  and customer, which fail the same way, and before the remote call.)
\<close>

theorem create_hosting_account_existing_domain:
  assumes "hosting_accounts_get_by_domain repo domain (fst w) = Inr (Some existing_account)"
  shows "\<exists>msg. create_hosting_account repo api_client now domain package_id customer_id username
                  password w = (Inl (HostingError msg), w)"
  using assms
  by (auto simp: create_hosting_account_def create_hosting_account_try_def as_hosting_error_def
      split: sum.splits option.splits)

text \<open>A datastore that holds an account for \<^verbatim>\<open>example.com\<close>: the call fails after all
  other checks have passed, and the log of the provider stays empty.\<close>

theorem create_hosting_account_existing_domain_witness:
  "hosting_accounts_get_by_domain memory_repositories ''example.com'' (fst (example_store, [])) =
     Inr (Some (example_account\<lparr>acct_package := Some basic_package\<rparr>)) \<and>
   create_hosting_account memory_repositories (Some logging_hosting_api) sample_now
       ''example.com'' 1 2 ''testuser'' ''securepassword123'' (example_store, []) =
     (Inl (HostingError
        ''Failed to create hosting account: Hosting account already exists for domain: example.com''),
      (example_store, []))"
  using create_hosting_account_existing_domain
    [of memory_repositories "''example.com''" "(example_store, [])"
        "example_account\<lparr>acct_package := Some basic_package\<rparr>" "Some logging_hosting_api"
        sample_now 1 2 "''testuser''" "''securepassword123''"]
  by (simp add: create_hosting_account_def create_hosting_account_try_def as_hosting_error_def
      hosting_eval)

text \<open>
  C10.  Whatever the repositories and the hosting client do, an exception that leaves
  \<^verbatim>\<open>create_hosting_account\<close>, \<^verbatim>\<open>suspend_account\<close>, \<^verbatim>\<open>unsuspend_account\<close>,
  \<^verbatim>\<open>change_hosting_plan\<close>, \<^verbatim>\<open>get_account_usage\<close>, \<^verbatim>\<open>renew_hosting_account\<close> or
  \<^verbatim>\<open>delete_hosting_account\<close> is a \<^verbatim>\<open>HostingError\<close>, never a \<^verbatim>\<open>ValidationError\<close>; and
  every exception \<open>e\<close> raised inside the method, a \<^verbatim>\<open>ValidationError\<close> of malformed
  input or of a missing account, package or customer included, reaches the caller as the
  \<^verbatim>\<open>HostingError\<close> whose message is the method's prefix followed by the message of \<open>e\<close>.
\<close>

theorem hosting_manager_raises_only_HostingError:
  "(\<forall>e w'. create_hosting_account repo api_client now domain package_id customer_id username
              password w = (Inl e, w') \<longrightarrow> is_HostingError e) \<and>
   (\<forall>e w'. create_hosting_account_try repo api_client now domain package_id customer_id username
              password w = (Inl e, w') \<longrightarrow>
      create_hosting_account repo api_client now domain package_id customer_id username
              password w =
        (Inl (HostingError (''Failed to create hosting account: '' @ str_exn e)), w')) \<and>
   (\<forall>e w'. suspend_account repo api_client account_id reason w = (Inl e, w') \<longrightarrow>
      is_HostingError e) \<and>
   (\<forall>e w'. suspend_account_try repo api_client account_id reason w = (Inl e, w') \<longrightarrow>
      suspend_account repo api_client account_id reason w =
        (Inl (HostingError (''Failed to suspend hosting account: '' @ str_exn e)), w')) \<and>
   (\<forall>e w'. unsuspend_account repo api_client account_id w = (Inl e, w') \<longrightarrow>
      is_HostingError e) \<and>
   (\<forall>e w'. unsuspend_account_try repo api_client account_id w = (Inl e, w') \<longrightarrow>
      unsuspend_account repo api_client account_id w =
        (Inl (HostingError (''Failed to unsuspend hosting account: '' @ str_exn e)), w')) \<and>
   (\<forall>e w'. change_hosting_plan repo api_client account_id new_package_id w = (Inl e, w') \<longrightarrow>
      is_HostingError e) \<and>
   (\<forall>e w'. change_hosting_plan_try repo api_client account_id new_package_id w = (Inl e, w') \<longrightarrow>
      change_hosting_plan repo api_client account_id new_package_id w =
        (Inl (HostingError (''Failed to change hosting plan: '' @ str_exn e)), w')) \<and>
   (\<forall>e w'. get_account_usage repo api_client account_id w = (Inl e, w') \<longrightarrow>
      is_HostingError e) \<and>
   (\<forall>e w'. get_account_usage_try repo api_client account_id w = (Inl e, w') \<longrightarrow>
      get_account_usage repo api_client account_id w =
        (Inl (HostingError (''Failed to get account usage: '' @ str_exn e)), w')) \<and>
   (\<forall>e w'. renew_hosting_account repo now account_id years w = (Inl e, w') \<longrightarrow>
      is_HostingError e) \<and>
   (\<forall>e w'. renew_hosting_account_try repo now account_id years w = (Inl e, w') \<longrightarrow>
      renew_hosting_account repo now account_id years w =
        (Inl (HostingError (''Failed to renew hosting account: '' @ str_exn e)), w')) \<and>
   (\<forall>e w'. delete_hosting_account repo api_client account_id w = (Inl e, w') \<longrightarrow>
      is_HostingError e) \<and>
   (\<forall>e w'. delete_hosting_account_try repo api_client account_id w = (Inl e, w') \<longrightarrow>
      delete_hosting_account repo api_client account_id w =
        (Inl (HostingError (''Failed to delete hosting account: '' @ str_exn e)), w'))"
  unfolding create_hosting_account_def suspend_account_def unsuspend_account_def
    change_hosting_plan_def get_account_usage_def renew_hosting_account_def
    delete_hosting_account_def
  by (intro conjI allI impI as_hosting_error_message; (elim as_hosting_error_raises)?)

lemma missing_account: "find_account memory_repositories 99 example_store =
    Inl (ValidationError ''Hosting account not found'')"
  by (simp add: find_account_def hosting_eval)

text \<open>Malformed input for \<^verbatim>\<open>create_hosting_account\<close> and an account that does not exist
  for the six other methods: each raises the \<^verbatim>\<open>HostingError\<close> that carries the message
  of the \<^verbatim>\<open>ValidationError\<close>.\<close>

theorem hosting_manager_raises_only_HostingError_witness:
  "create_hosting_account_try memory_repositories (Some logging_hosting_api) sample_now
       ''invalid'' 1 2 ''testuser'' ''securepassword123'' (example_store, []) =
     (Inl (ValidationError ''Invalid domain name''), (example_store, [])) \<and>
   create_hosting_account memory_repositories (Some logging_hosting_api) sample_now
       ''invalid'' 1 2 ''testuser'' ''securepassword123'' (example_store, []) =
     (Inl (HostingError ''Failed to create hosting account: Invalid domain name''),
      (example_store, [])) \<and>
   suspend_account_try memory_repositories (Some logging_hosting_api) 99 ''Administrative''
       (example_store, []) =
     (Inl (ValidationError ''Hosting account not found''), (example_store, [])) \<and>
   suspend_account memory_repositories (Some logging_hosting_api) 99 ''Administrative''
       (example_store, []) =
     (Inl (HostingError ''Failed to suspend hosting account: Hosting account not found''),
      (example_store, [])) \<and>
   unsuspend_account memory_repositories (Some logging_hosting_api) 99 (example_store, []) =
     (Inl (HostingError ''Failed to unsuspend hosting account: Hosting account not found''),
      (example_store, [])) \<and>
   change_hosting_plan memory_repositories (Some logging_hosting_api) 99 1 (example_store, []) =
     (Inl (HostingError ''Failed to change hosting plan: Hosting account not found''),
      (example_store, [])) \<and>
   get_account_usage memory_repositories (Some logging_hosting_api) 99 (example_store, []) =
     (Inl (HostingError ''Failed to get account usage: Hosting account not found''),
      (example_store, [])) \<and>
   renew_hosting_account memory_repositories sample_now 99 1
       (example_store, [] :: hosting_call list) =
     (Inl (HostingError ''Failed to renew hosting account: Hosting account not found''),
      (example_store, [])) \<and>
   delete_hosting_account memory_repositories (Some logging_hosting_api) 99 (example_store, []) =
     (Inl (HostingError ''Failed to delete hosting account: Hosting account not found''),
      (example_store, []))"
  using hosting_manager_raises_only_HostingError
    [where repo = memory_repositories and api_client = "Some logging_hosting_api"
       and now = sample_now and domain = "''invalid''" and package_id = 1 and customer_id = 2
       and username = "''testuser''" and password = "''securepassword123''"
       and w = "(example_store, [])" and account_id = 99 and reason = "''Administrative''"
       and new_package_id = 1 and years = 1]
  by (simp add: create_hosting_account_try_def suspend_account_try_def
      unsuspend_account_try_def change_hosting_plan_try_def get_account_usage_try_def
      renew_hosting_account_try_def delete_hosting_account_try_def missing_account
      validate_hosting_input_def)

subsection \<open>Correctness of the matcher\<close>

lemma concI: "u \<in> L \<Longrightarrow> v \<in> M \<Longrightarrow> u @ v \<in> conc L M"
  by (auto simp: conc_def)

lemma concE: "w \<in> conc L M \<Longrightarrow> (\<And>u v. w = u @ v \<Longrightarrow> u \<in> L \<Longrightarrow> v \<in> M \<Longrightarrow> P) \<Longrightarrow> P"
  by (auto simp: conc_def)

lemma lang_seq: "lang (seq r s) = conc (lang r) (lang s)"
  by (induction r s rule: seq.induct) (auto simp: conc_def)

lemma lang_alt: "lang (alt r s) = lang r \<union> lang s"
  by (induction r s rule: alt.induct) auto

lemma pow_nil: "[] \<in> L \<Longrightarrow> [] \<in> pow L k"
  by (induction k) (auto simp: conc_def)

lemma nullable_sound: "nullable r \<Longrightarrow> [] \<in> lang r"
proof (induction r)
  case (Rep r m hi)
  show ?case
  proof (cases "m = 0")
    case True
    have "[] \<in> pow (lang r) 0" by simp
    moreover have "bound_ok 0 hi" by (cases hi) auto
    ultimately show ?thesis using True by auto
  next
    case False
    with Rep have "[] \<in> pow (lang r) m" "bound_ok m hi" by (auto intro: pow_nil)
    then show ?thesis by auto
  qed
qed (auto simp: conc_def intro: star.intros)

lemma bound_dec: "\<not> bound_reached hi \<Longrightarrow> bound_ok k (dec_bound hi) \<Longrightarrow> bound_ok (Suc k) hi"
  by (cases hi) auto

lemma deriv_sound: "w \<in> lang (deriv c r) \<Longrightarrow> c # w \<in> lang r"
proof (induction r arbitrary: w)
  case (Cls rs)
  then show ?case by (auto split: if_splits)
next
  case (Seq r s)
  show ?case
  proof (cases "w \<in> conc (lang (deriv c r)) (lang s)")
    case True
    then obtain u v where "w = u @ v" "u \<in> lang (deriv c r)" "v \<in> lang s"
      by (auto elim: concE)
    then have "(c # u) @ v \<in> conc (lang r) (lang s)"
      using Seq.IH(1) by (intro concI) auto
    then show ?thesis using \<open>w = u @ v\<close> by simp
  next
    case False
    with Seq.prems have n: "nullable r" and "w \<in> lang (deriv c s)"
      by (auto simp: lang_seq lang_alt split: if_splits)
    then have "[] @ (c # w) \<in> conc (lang r) (lang s)"
      using Seq.IH(2) nullable_sound by (intro concI) auto
    then show ?thesis by simp
  qed
next
  case (Alt r s)
  then show ?case by (auto simp: lang_alt)
next
  case (Star r)
  then obtain u v where "w = u @ v" "u \<in> lang (deriv c r)" "v \<in> star (lang r)"
    by (auto simp: lang_seq elim: concE)
  then have "(c # u) @ v \<in> star (lang r)"
    using Star.IH by (intro star.star_app) auto
  then show ?case using \<open>w = u @ v\<close> by simp
next
  case (Rep r m hi)
  then have b: "\<not> bound_reached hi"
    and "w \<in> conc (lang (deriv c r)) (lang (Rep r (m - 1) (dec_bound hi)))"
    by (auto simp: lang_seq split: if_splits)
  then obtain u v k where w: "w = u @ v" and u: "u \<in> lang (deriv c r)"
    and k: "m - 1 \<le> k" "bound_ok k (dec_bound hi)" and v: "v \<in> pow (lang r) k"
    by (auto elim!: concE)
  have "(c # u) @ v \<in> conc (lang r) (pow (lang r) k)"
    using Rep.IH [OF u] v by (intro concI)
  then have "(c # u) @ v \<in> pow (lang r) (Suc k)" by simp
  moreover have "m \<le> Suc k" using k(1) by simp
  moreover have "bound_ok (Suc k) hi" using bound_dec [OF b k(2)] .
  ultimately show ?case using w by auto
qed auto

lemma full_match_sound: "full_match r w \<Longrightarrow> w \<in> lang r"
  by (induction w arbitrary: r) (auto intro: nullable_sound deriv_sound)

lemma nullable_complete: "[] \<in> lang r \<Longrightarrow> nullable r"
proof (induction r)
  case (Rep r m hi)
  then obtain k where k: "m \<le> k" "bound_ok k hi" "[] \<in> pow (lang r) k"
    by auto
  have "bound_ok m hi" using k(1,2) by (cases hi) auto
  moreover have "nullable r" if "m \<noteq> 0"
  proof -
    from that k(1) obtain j where "k = Suc j" by (cases k) auto
    with k(3) have "[] \<in> lang r" by (auto simp: conc_def)
    then show ?thesis by (rule Rep.IH)
  qed
  ultimately show ?case by auto
qed (auto simp: conc_def)

lemma star_Cons:
  assumes "x \<in> star L" and "x = c # w"
  shows "\<exists>u v. w = u @ v \<and> c # u \<in> L \<and> v \<in> star L"
  using assms
proof (induction arbitrary: w rule: star.induct)
  case star_nil
  then show ?case by simp
next
  case (star_app u v)
  show ?case
  proof (cases u)
    case Nil
    with star_app show ?thesis by simp
  next
    case (Cons a u')
    with star_app.prems have "w = u' @ v" "c # u' \<in> L"
      using star_app.hyps(1) by auto
    then show ?thesis using star_app.hyps(2) by blast
  qed
qed

lemma pow_Cons:
  "c # w \<in> pow L k \<Longrightarrow> \<exists>u v. w = u @ v \<and> c # u \<in> L \<and> v \<in> pow L (k - 1)"
proof (induction k)
  case 0
  then show ?case by simp
next
  case (Suc k)
  then obtain u1 rest where s: "c # w = u1 @ rest" "u1 \<in> L" "rest \<in> pow L k"
    by (auto simp: conc_def)
  show ?case
  proof (cases u1)
    case Nil
    with s have cw: "c # w \<in> pow L k" and e: "[] \<in> L" by auto
    from Suc.IH [OF cw] obtain u v where uv: "w = u @ v" "c # u \<in> L" "v \<in> pow L (k - 1)"
      by blast
    from cw obtain j where j: "k = Suc j" by (cases k) auto
    have "[] @ v \<in> conc L (pow L j)" using e uv(3) j by (intro concI) auto
    then have "v \<in> pow L k" using j by simp
    then show ?thesis using uv(1,2) by auto
  next
    case (Cons a u')
    with s have "w = u' @ rest" "c # u' \<in> L" by auto
    then show ?thesis using s(3) by auto
  qed
qed

lemma deriv_complete: "c # w \<in> lang r \<Longrightarrow> w \<in> lang (deriv c r)"
proof (induction r arbitrary: w)
  case (Seq r s)
  then obtain u v where uv: "c # w = u @ v" "u \<in> lang r" "v \<in> lang s"
    by (auto simp: conc_def)
  show ?case
  proof (cases u)
    case Nil
    with uv have "nullable r" "w \<in> lang (deriv c s)"
      using nullable_complete Seq.IH(2) by auto
    then show ?thesis by (simp add: lang_alt)
  next
    case (Cons a u')
    with uv have "w = u' @ v" "u' \<in> lang (deriv c r)"
      using Seq.IH(1) by auto
    then have "w \<in> conc (lang (deriv c r)) (lang s)"
      using uv(3) by (auto intro: concI)
    then show ?thesis by (simp add: lang_alt lang_seq)
  qed
next
  case (Alt r s)
  then show ?case by (auto simp: lang_alt)
next
  case (Star r)
  then have "c # w \<in> star (lang r)" by simp
  from star_Cons [OF this refl] obtain u v where
    "w = u @ v" "c # u \<in> lang r" "v \<in> star (lang r)" by blast
  then have "w \<in> conc (lang (deriv c r)) (star (lang r))"
    using Star.IH by (auto intro: concI)
  then show ?case by (simp add: lang_seq)
next
  case (Rep r m hi)
  then obtain k where k: "m \<le> k" "bound_ok k hi" "c # w \<in> pow (lang r) k"
    by auto
  from k(3) obtain j where j: "k = Suc j" by (cases k) auto
  have b: "\<not> bound_reached hi" "bound_ok m hi" "bound_ok j (dec_bound hi)"
    using k(1,2) j by (cases hi; auto)+
  from pow_Cons [OF k(3)] obtain u v where
    uv: "w = u @ v" "c # u \<in> lang r" "v \<in> pow (lang r) j"
    using j by auto
  have "m - 1 \<le> j" using k(1) j by simp
  then have "v \<in> lang (Rep r (m - 1) (dec_bound hi))"
    using uv(3) b(3) by (simp del: One_nat_def) blast
  then have "w \<in> conc (lang (deriv c r)) (lang (Rep r (m - 1) (dec_bound hi)))"
    using uv(1) Rep.IH [OF uv(2)] by (auto intro: concI)
  then show ?case using b by (simp add: lang_seq)
qed auto

lemma full_match_complete: "w \<in> lang r \<Longrightarrow> full_match r w"
  by (induction w arbitrary: r) (auto intro: nullable_complete deriv_complete)

text \<open>The matcher decides the language of the regular expression.\<close>

lemma full_match_iff: "full_match r w \<longleftrightarrow> w \<in> lang r"
  using full_match_sound full_match_complete by blast

subsection \<open>Splitting and substrings\<close>

lemma split_on_not_Nil [simp]: "split_on sep s \<noteq> []"
proof (cases s)
  case (Cons c cs)
  then show ?thesis by (cases "split_on sep cs") auto
qed simp

lemma split_on_Cons:
  "split_on sep (c # cs) =
     (if c = sep then [] # split_on sep cs
      else (c # hd (split_on sep cs)) # tl (split_on sep cs))"
  by (cases "split_on sep cs") auto

lemma hd_split_on: "hd (split_on sep s) = [] \<longleftrightarrow> s = [] \<or> hd s = sep"
  by (cases s) (simp_all add: split_on_Cons del: split_on.simps(2))

lemma length_split_on: "length (split_on sep s) = Suc (count_list s sep)"
  by (induction s) (simp_all add: split_on_Cons del: split_on.simps(2))

lemma split_on_two: "sep \<in> set s \<Longrightarrow> 2 \<le> length (split_on sep s)"
  using count_list_0_iff [of s sep] by (simp add: length_split_on)

lemma split_on_one: "sep \<notin> set s \<Longrightarrow> length (split_on sep s) = 1"
  using count_list_0_iff [of s sep] by (simp add: length_split_on)

lemma contains_pair_Cons:
  "contains (c # cs) [sep, sep] \<longleftrightarrow>
     (c = sep \<and> cs \<noteq> [] \<and> hd cs = sep) \<or> contains cs [sep, sep]"
  by (cases cs) (auto simp: startswith_def)

lemma contains_pair_Nil: "\<not> contains [] [sep, sep]"
  by simp

lemma tl_split_on:
  "[] \<in> set (tl (split_on sep s)) \<longleftrightarrow>
     s \<noteq> [] \<and> (last s = sep \<or> contains s [sep, sep])"
proof (induction s)
  case Nil
  then show ?case by simp
next
  case (Cons c cs)
  have mem: "[] \<in> set (split_on sep cs) \<longleftrightarrow>
               hd (split_on sep cs) = [] \<or> [] \<in> set (tl (split_on sep cs))"
    by (cases "split_on sep cs") auto
  show ?case
    using Cons.IH
    by (cases "cs = []")
       (auto simp: split_on_Cons mem hd_split_on contains_pair_Cons contains_pair_Nil
             simp del: split_on.simps(2) contains.simps)
qed

lemma split_on_parts_nonempty:
  assumes "s \<noteq> []" "hd s \<noteq> sep" "last s \<noteq> sep" "\<not> contains s [sep, sep]"
  shows "[] \<notin> set (split_on sep s)"
proof -
  have "[] \<in> set (split_on sep s) \<longleftrightarrow>
          hd (split_on sep s) = [] \<or> [] \<in> set (tl (split_on sep s))"
    by (cases "split_on sep s") auto
  then show ?thesis using assms by (simp add: hd_split_on tl_split_on)
qed

lemma contains_append:
  "\<not> contains x [sep, sep] \<Longrightarrow> \<not> contains y [sep, sep] \<Longrightarrow>
   (x = [] \<or> last x \<noteq> sep \<or> y = [] \<or> hd y \<noteq> sep) \<Longrightarrow>
   \<not> contains (x @ y) [sep, sep]"
proof (induction x)
  case Nil
  then show ?case by simp
next
  case (Cons c cs)
  show ?case
  proof (cases cs)
    case Nil
    with Cons.prems show ?thesis
      by (auto simp: contains_pair_Cons simp del: contains.simps)
  next
    case (Cons c' cs')
    with Cons.prems Cons.IH show ?thesis
      by (auto simp: contains_pair_Cons simp del: contains.simps)
  qed
qed

lemma contains_has_sep: "contains s [sep, sep] \<Longrightarrow> sep \<in> set s"
  by (induction s) (auto simp: contains_pair_Cons contains_pair_Nil simp del: contains.simps)

subsection \<open>Character classes\<close>

lemma in_class_mono: "set rs \<subseteq> set rs' \<Longrightarrow> in_class rs c \<Longrightarrow> in_class rs' c"
  by (auto simp: in_class_def list_ex_iff)

lemma in_class_single: "in_class [(c, c)] x \<longleftrightarrow> x = c"
  by (auto simp: in_class_def in_range_def)

lemma alnum_domain_chars: "in_class alnum c \<Longrightarrow> in_class domain_chars c"
  by (rule in_class_mono) (auto simp: alnum_def domain_chars_def)

lemma alnum_hyphen_domain_chars: "in_class alnum_hyphen c \<Longrightarrow> in_class domain_chars c"
  by (rule in_class_mono) (auto simp: alnum_hyphen_def domain_chars_def)

lemma alpha_domain_chars: "in_class alpha c \<Longrightarrow> in_class domain_chars c"
  by (rule in_class_mono) (auto simp: alpha_def domain_chars_def)

lemma alnum_alnum_hyphen: "in_class alnum c \<Longrightarrow> in_class alnum_hyphen c"
  by (rule in_class_mono) (auto simp: alnum_def alnum_hyphen_def)

lemma dot_domain_chars: "in_class domain_chars (CHR ''.'')"
  by (simp add: in_class_def in_range_def domain_chars_def)

lemma not_in_classes:
  "\<not> in_class alnum_hyphen (CHR ''.'')"
  "\<not> in_class alnum (CHR ''-'')"
  "\<not> in_class alpha (CHR ''.'')"
  "\<not> in_class alpha (CHR ''-'')"
  "\<not> in_class domain_chars (CHR ''_'')"
  "\<not> in_class domain_chars (CHR 0x0A)"
  by (simp_all add: in_class_def in_range_def alnum_def alnum_hyphen_def alpha_def
       domain_chars_def)

subsection \<open>Strings of a class\<close>

lemma pow_Cls:
  "w \<in> pow (lang (Cls rs)) k \<Longrightarrow> length w = k \<and> (\<forall>c \<in> set w. in_class rs c)"
  by (induction k arbitrary: w) (auto simp: conc_def)

lemma star_Cls: "w \<in> star (lang (Cls rs)) \<Longrightarrow> \<forall>c \<in> set w. in_class rs c"
  by (induction rule: star.induct) auto

lemma full_match_star_Cls:
  "\<forall>c \<in> set w. in_class rs c \<Longrightarrow> full_match (Star (Cls rs)) w"
  by (induction w) auto

lemma full_match_plus_Cls:
  "w \<noteq> [] \<Longrightarrow> \<forall>c \<in> set w. in_class rs c \<Longrightarrow> full_match (Plus (Cls rs)) w"
  by (cases w) (auto simp: Plus_def full_match_star_Cls)

lemma lang_plus_Cls:
  "w \<in> lang (Plus (Cls rs)) \<Longrightarrow> w \<noteq> [] \<and> (\<forall>c \<in> set w. in_class rs c)"
  using star_Cls by (fastforce simp: Plus_def conc_def)

subsection \<open>The strings of the pattern of the domain manager\<close>

lemma lang_label:
  assumes "w \<in> lang label_pattern"
  shows "w \<noteq> [] \<and> in_class alnum (hd w) \<and> (\<forall>c \<in> set w. in_class alnum_hyphen c)"
proof -
  from assms obtain c m where w: "w = [c] @ m" and c: "in_class alnum c"
    and m: "m \<in> lang (Opt (Seq (Rep (Cls alnum_hyphen) 0 (Some 61)) (Cls alnum)))"
    by (auto simp: label_pattern_def conc_def)
  have "\<forall>x \<in> set m. in_class alnum_hyphen x"
  proof (cases "m = []")
    case False
    with m obtain u d k where "m = u @ [d]" "in_class alnum d"
      "u \<in> pow (lang (Cls alnum_hyphen)) k"
      by (auto simp: Opt_def conc_def)
    then show ?thesis
      using pow_Cls [of u alnum_hyphen k] alnum_alnum_hyphen by auto
  qed simp
  then show ?thesis using w c alnum_alnum_hyphen by auto
qed

lemma lang_dot_label:
  assumes "w \<in> lang (Seq (Lit (CHR ''.'')) (Rep (Cls alpha) 2 None))"
  shows "\<exists>a. w = CHR ''.'' # a \<and> 2 \<le> length a \<and> (\<forall>c \<in> set a. in_class alpha c)"
proof -
  from assms obtain x a k where "w = [x] @ a" "in_class [(CHR ''.'', CHR ''.'')] x"
    "2 \<le> k" "a \<in> pow (lang (Cls alpha)) k"
    by (auto simp: conc_def)
  then show ?thesis
    using pow_Cls [of a alpha k] by (auto simp: in_class_single)
qed

lemma dot_label_no_dots:
  assumes "2 \<le> length a" and "\<forall>c \<in> set a. in_class alpha c"
  shows "\<not> contains (CHR ''.'' # a) ''..'' \<and> last (CHR ''.'' # a) \<noteq> CHR ''.'' \<and>
         in_class alpha (last (CHR ''.'' # a))"
proof -
  have ne: "a \<noteq> []" using assms(1) by auto
  then have "hd a \<in> set a" "last a \<in> set a" by auto
  then have h: "hd a \<noteq> CHR ''.''" and l: "in_class alpha (last a)"
    using assms(2) not_in_classes(3) by auto
  have "CHR ''.'' \<notin> set a" using assms(2) not_in_classes(3) by auto
  then have "\<not> contains a ''..''" using contains_has_sep by blast
  then show ?thesis
    using ne h l not_in_classes(3)
    by (auto simp: contains_pair_Cons simp del: contains.simps)
qed

lemma star_dot_labels:
  assumes "v \<in> star (lang (Seq (Lit (CHR ''.'')) (Rep (Cls alpha) 2 None)))"
  shows "(\<forall>c \<in> set v. in_class alpha c \<or> c = CHR ''.'') \<and>
         (v \<noteq> [] \<longrightarrow> hd v = CHR ''.'' \<and> in_class alpha (last v) \<and> 3 \<le> length v) \<and>
         \<not> contains v ''..''"
  using assms
proof (induction rule: star.induct)
  case star_nil
  then show ?case by (simp add: contains_pair_Nil del: contains.simps)
next
  case (star_app u v)
  from lang_dot_label [OF star_app.hyps(1)]
  obtain a where u: "u = CHR ''.'' # a" and a: "2 \<le> length a" "\<forall>c \<in> set a. in_class alpha c"
    by blast
  from dot_label_no_dots [OF a]
  have d: "\<not> contains u ''..''" "last u \<noteq> CHR ''.''" "in_class alpha (last u)"
    using u by auto
  have "\<not> contains (u @ v) ''..''"
    using contains_append [of u "CHR ''.''" v] d star_app.IH by auto
  moreover have "\<forall>c \<in> set (u @ v). in_class alpha c \<or> c = CHR ''.''"
    using u a star_app.IH by auto
  moreover have "hd (u @ v) = CHR ''.''" "3 \<le> length (u @ v)"
    using u a by auto
  moreover have "in_class alpha (last (u @ v))"
    using d(3) star_app.IH u by (cases "v = []") auto
  ultimately show ?case by blast
qed

lemma lang_domain_name:
  assumes "t \<in> lang domain_name_pattern"
  shows "t \<noteq> [] \<and> in_class alnum (hd t) \<and> in_class alpha (last t) \<and>
         (\<forall>c \<in> set t. in_class domain_chars c) \<and> CHR ''.'' \<in> set t \<and>
         \<not> contains t ''..'' \<and> 4 \<le> length t"
proof -
  define D where "D = lang (Seq (Lit (CHR ''.'')) (Rep (Cls alpha) 2 None))"
  have "lang domain_name_pattern = conc (lang label_pattern) (conc D (star D))"
    by (simp only: domain_name_pattern_def Plus_def lang.simps(4,6) D_def)
  with assms have "t \<in> conc (lang label_pattern) (conc D (star D))" by simp
  then obtain l u where tl: "t = l @ u" and l: "l \<in> lang label_pattern"
    and u: "u \<in> conc D (star D)"
    by (rule concE)
  from u obtain d v where ud: "u = d @ v" and d: "d \<in> D" and v: "v \<in> star D"
    by (rule concE)
  have t: "t = l @ (d @ v)" using tl ud by simp
  have dv: "d @ v \<in> star D" using d v by (rule star.star_app)
  from lang_dot_label [OF d [unfolded D_def]] have ne: "d @ v \<noteq> []" by auto
  from lang_label [OF l] have L: "l \<noteq> []" "in_class alnum (hd l)"
    "\<forall>c \<in> set l. in_class alnum_hyphen c" by auto
  from star_dot_labels [OF dv [unfolded D_def]] ne have
    U: "\<forall>c \<in> set (d @ v). in_class alpha c \<or> c = CHR ''.''" "hd (d @ v) = CHR ''.''"
       "in_class alpha (last (d @ v))" "3 \<le> length (d @ v)" "\<not> contains (d @ v) ''..''"
    by blast+
  have "CHR ''.'' \<notin> set l" using L(3) not_in_classes(1) by auto
  then have nl: "\<not> contains l ''..''" and ll: "last l \<noteq> CHR ''.''"
    using contains_has_sep L(1) last_in_set by fastforce+
  have "\<not> contains t ''..''"
    unfolding t using contains_append [of l "CHR ''.''" "d @ v"] nl ll U(5) by blast
  moreover have "\<forall>c \<in> set t. in_class domain_chars c"
    unfolding t using L(3) U(1) alnum_hyphen_domain_chars alpha_domain_chars dot_domain_chars
    by auto
  moreover have "CHR ''.'' \<in> set t"
    unfolding t using U(2) ne by (metis Un_iff hd_in_set set_append)
  moreover have "hd t = hd l" "last t = last (d @ v)" "t \<noteq> []"
    unfolding t using L(1) ne by (auto simp del: append_assoc)
  moreover have "4 \<le> length t"
  proof -
    have a: "1 \<le> length l" using L(1) by (cases l) simp_all
    have b: "length t = length l + length (d @ v)" unfolding t by simp
    show ?thesis using a b U(4) by linarith
  qed
  ultimately show ?thesis using L(2) U(3) by simp
qed

subsection \<open>Labels\<close>

lemma split_on_no_sep: "sep \<notin> set x \<Longrightarrow> split_on sep x = [x]"
  by (induction x) (auto simp: split_on_Cons simp del: split_on.simps(2))

lemma split_on_append:
  "sep \<notin> set x \<Longrightarrow> split_on sep (x @ sep # y) = x # split_on sep y"
  by (induction x) (auto simp: split_on_Cons simp del: split_on.simps(2))

lemma split_on_join:
  "hd (split_on sep s) @ concat (map ((#) sep) (tl (split_on sep s))) = s"
proof (induction s)
  case Nil
  then show ?case by simp
next
  case (Cons c cs)
  obtain p ps where ps: "split_on sep cs = p # ps"
    by (cases "split_on sep cs") auto
  with Cons show ?case by simp
qed

lemma split_on_parts_no_sep: "p \<in> set (split_on sep s) \<Longrightarrow> sep \<notin> set p"
proof (induction s arbitrary: p)
  case Nil
  then show ?case by simp
next
  case (Cons c cs)
  obtain q qs where qs: "split_on sep cs = q # qs"
    by (cases "split_on sep cs") auto
  with Cons show ?case by (auto split: if_splits)
qed

lemma split_on_parts_subset: "p \<in> set (split_on sep s) \<Longrightarrow> set p \<subseteq> set s"
proof (induction s arbitrary: p)
  case Nil
  then show ?case by simp
next
  case (Cons c cs)
  obtain q qs where qs: "split_on sep cs = q # qs"
    by (cases "split_on sep cs") auto
  have q: "set q \<subseteq> set cs" using Cons.IH [of q] qs by simp
  have r: "set p' \<subseteq> set cs" if "p' \<in> set qs" for p'
    using Cons.IH [of p'] qs that by simp
  from Cons.prems qs q r show ?case by (auto split: if_splits)
qed

lemma set_split_on: "c \<in> set s \<Longrightarrow> c = sep \<or> (\<exists>p \<in> set (split_on sep s). c \<in> set p)"
proof (induction s)
  case Nil
  then show ?case by simp
next
  case (Cons x xs)
  obtain q qs where qs: "split_on sep xs = q # qs"
    by (cases "split_on sep xs") auto
  with Cons show ?case by (auto split: if_splits)
qed

lemma hd_hd_split_on: "hd (split_on sep s) \<noteq> [] \<Longrightarrow> hd (hd (split_on sep s)) = hd s"
  by (cases s) (auto simp: split_on_Cons simp del: split_on.simps(2))

lemma last_in_part:
  "s \<noteq> [] \<Longrightarrow> last s \<noteq> sep \<Longrightarrow> \<exists>p \<in> set (split_on sep s). p \<noteq> [] \<and> last p = last s"
proof (induction s)
  case Nil
  then show ?case by simp
next
  case (Cons c cs)
  obtain q qs where qs: "split_on sep cs = q # qs"
    by (cases "split_on sep cs") auto
  show ?case
  proof (cases "cs = []")
    case True
    with Cons.prems show ?thesis by simp
  next
    case False
    with Cons have "\<exists>p \<in> set (q # qs). p \<noteq> [] \<and> last p = last cs"
      using qs by simp
    then obtain p where p: "p \<in> set (q # qs)" "p \<noteq> []" "last p = last cs" by blast
    show ?thesis
    proof (cases "p = q")
      case True
      then show ?thesis using p False qs by (auto split: if_splits)
    next
      case False
      then have "p \<in> set qs" using p(1) by simp
      then show ?thesis using p \<open>cs \<noteq> []\<close> qs by (auto split: if_splits)
    qed
  qed
qed


lemma alnum_hyphen_cases: "in_class alnum_hyphen c \<longleftrightarrow> in_class alnum c \<or> c = CHR ''-''"
proof -
  have "in_class alnum_hyphen c \<longleftrightarrow> in_class alnum c \<or> in_class [(CHR ''-'', CHR ''-'')] c"
    by (auto simp: in_class_def alnum_def alnum_hyphen_def)
  then show ?thesis by (simp only: in_class_single)
qed

lemma alpha_not_hyphen: "in_class alpha c \<Longrightarrow> c \<noteq> CHR ''-'' \<and> c \<noteq> CHR ''.''"
  using not_in_classes(3,4) by auto

lemma pow_Cls_intro: "\<forall>c \<in> set w. in_class rs c \<Longrightarrow> w \<in> pow (lang (Cls rs)) (length w)"
proof (induction w)
  case Nil
  then show ?case by simp
next
  case (Cons c w)
  have "[c] @ w \<in> conc (lang (Cls rs)) (pow (lang (Cls rs)) (length w))"
    using Cons by (intro concI) auto
  then show ?case by simp
qed

lemma concat_star: "\<forall>p \<in> set ps. f p \<in> L \<Longrightarrow> concat (map f ps) \<in> star L"
  by (induction ps) (auto intro: star.intros)

lemma lang_label_last:
  assumes "w \<in> lang label_pattern"
  shows "in_class alnum (last w) \<and> length w \<le> 63"
proof -
  from assms obtain c m where w: "w = [c] @ m" and c: "in_class alnum c"
    and m: "m \<in> lang (Opt (Seq (Rep (Cls alnum_hyphen) 0 (Some 61)) (Cls alnum)))"
    by (auto simp: label_pattern_def conc_def)
  show ?thesis
  proof (cases "m = []")
    case True
    then show ?thesis using w c by simp
  next
    case False
    with m obtain u d k where "m = u @ [d]" "in_class alnum d"
      "u \<in> pow (lang (Cls alnum_hyphen)) k" "k \<le> 61"
      by (auto simp: Opt_def conc_def)
    then show ?thesis using pow_Cls [of u alnum_hyphen k] w by auto
  qed
qed

lemma spec_label_lang:
  assumes "spec_label p"
  shows "p \<in> lang label_pattern"
proof -
  from assms have len: "1 \<le> length p" "length p \<le> 63"
    and ch: "\<forall>c \<in> set p. in_class alnum_hyphen c"
    and h: "hd p \<noteq> CHR ''-''" and l: "last p \<noteq> CHR ''-''"
    by (auto simp: spec_label_def list_all_iff)
  from len obtain c m where p: "p = c # m" by (cases p) auto
  have c: "in_class alnum c" using ch h p alnum_hyphen_cases by auto
  have opt: "m \<in> lang (Opt (Seq (Rep (Cls alnum_hyphen) 0 (Some 61)) (Cls alnum)))"
  proof (cases "m = []")
    case True
    then show ?thesis by (simp add: Opt_def)
  next
    case False
    define u where "u = butlast m"
    define d where "d = last m"
    have m: "m = u @ [d]" using False by (simp add: u_def d_def)
    have "last p = d" using p m by simp
    moreover have "d \<in> set p" using p m by simp
    ultimately have d: "in_class alnum d" using ch l alnum_hyphen_cases by auto
    have "\<forall>x \<in> set u. in_class alnum_hyphen x" using ch p m by simp
    then have u: "u \<in> pow (lang (Cls alnum_hyphen)) (length u)" by (rule pow_Cls_intro)
    have "length u \<le> 61" using len p m by simp
    with u have ur: "u \<in> lang (Rep (Cls alnum_hyphen) 0 (Some 61))" by auto
    have dr: "[d] \<in> lang (Cls alnum)" using d by simp
    have "u @ [d] \<in> conc (lang (Rep (Cls alnum_hyphen) 0 (Some 61))) (lang (Cls alnum))"
      using ur dr by (rule concI)
    then show ?thesis using m by (simp add: Opt_def)
  qed
  have "[c] \<in> lang (Cls alnum)" using c by simp
  then have "[c] @ m \<in> conc (lang (Cls alnum))
      (lang (Opt (Seq (Rep (Cls alnum_hyphen) 0 (Some 61)) (Cls alnum))))"
    using opt by (rule concI)
  then show ?thesis using p by (simp add: label_pattern_def)
qed

lemma dot_label_lang:
  assumes "2 \<le> length a" and "\<forall>c \<in> set a. in_class alpha c"
  shows "CHR ''.'' # a \<in> lang (Seq (Lit (CHR ''.'')) (Rep (Cls alpha) 2 None))"
proof -
  have "a \<in> pow (lang (Cls alpha)) (length a)" using assms(2) by (rule pow_Cls_intro)
  then have a: "a \<in> lang (Rep (Cls alpha) 2 None)" using assms(1) by auto
  have "[CHR ''.''] \<in> lang (Lit (CHR ''.''))" by (simp add: in_class_single)
  then have "[CHR ''.''] @ a \<in> conc (lang (Lit (CHR ''.''))) (lang (Rep (Cls alpha) 2 None))"
    using a by (rule concI)
  then show ?thesis by simp
qed

lemma domain_name_decompose:
  assumes "t \<in> lang domain_name_pattern"
  shows "\<exists>l a v. t = l @ (CHR ''.'' # a) @ v \<and> l \<in> lang label_pattern \<and>
           2 \<le> length a \<and> (\<forall>c \<in> set a. in_class alpha c) \<and>
           v \<in> star (lang (Seq (Lit (CHR ''.'')) (Rep (Cls alpha) 2 None)))"
proof -
  define D where "D = lang (Seq (Lit (CHR ''.'')) (Rep (Cls alpha) 2 None))"
  have "lang domain_name_pattern = conc (lang label_pattern) (conc D (star D))"
    by (simp only: domain_name_pattern_def Plus_def lang.simps(4,6) D_def)
  with assms have "t \<in> conc (lang label_pattern) (conc D (star D))" by simp
  then obtain l u where tl: "t = l @ u" and l: "l \<in> lang label_pattern"
    and u: "u \<in> conc D (star D)"
    by (rule concE)
  from u obtain d v where ud: "u = d @ v" and d: "d \<in> D" and v: "v \<in> star D"
    by (rule concE)
  from lang_dot_label [OF d [unfolded D_def]] obtain a where
    a: "d = CHR ''.'' # a" "2 \<le> length a" "\<forall>c \<in> set a. in_class alpha c"
    by blast
  show ?thesis
    using tl ud l a v unfolding D_def by blast
qed

text \<open>The labels of a label followed by dotted groups of letters and, possibly, a final
  newline.\<close>

lemma star_dot_labels_parts:
  assumes "v \<in> star (lang (Seq (Lit (CHR ''.'')) (Rep (Cls alpha) 2 None)))"
      and e: "e = [] \<or> e = [CHR 0x0A]"
  shows "x \<noteq> [] \<Longrightarrow> CHR ''.'' \<notin> set x \<Longrightarrow> hd x \<noteq> CHR ''-'' \<Longrightarrow> last x \<noteq> CHR ''-'' \<Longrightarrow>
         \<forall>p \<in> set (split_on (CHR ''.'') (x @ v @ e)).
            p \<noteq> [] \<and> hd p \<noteq> CHR ''-'' \<and> last p \<noteq> CHR ''-''"
  using assms(1)
proof (induction arbitrary: x rule: star.induct)
  case star_nil
  have "CHR ''.'' \<notin> set (x @ e)" using e star_nil by auto
  then have "split_on (CHR ''.'') (x @ e) = [x @ e]" by (rule split_on_no_sep)
  then show ?case using star_nil e by auto
next
  case (star_app u v)
  from lang_dot_label [OF star_app.hyps(1)] obtain a where
    a: "u = CHR ''.'' # a" "2 \<le> length a" "\<forall>c \<in> set a. in_class alpha c"
    by blast
  have ne: "a \<noteq> []" using a(2) by auto
  then have "hd a \<in> set a" "last a \<in> set a" by auto
  then have ha: "hd a \<noteq> CHR ''-''" "last a \<noteq> CHR ''-''"
    using a(3) alpha_not_hyphen by blast+
  have nd: "CHR ''.'' \<notin> set a" using a(3) alpha_not_hyphen by blast
  have "split_on (CHR ''.'') (x @ (u @ v) @ e) = x # split_on (CHR ''.'') (a @ v @ e)"
    using split_on_append [of "CHR ''.''" x "a @ v @ e"] a(1) star_app.prems(2) by simp
  then show ?case
    using star_app.IH [OF ne nd ha] star_app.prems by simp
qed

subsection \<open>The two validators of domain names\<close>

lemma startswith_hyphen: "startswith s ''-'' \<longleftrightarrow> s \<noteq> [] \<and> hd s = CHR ''-''"
  by (cases s) (auto simp: startswith_def)

lemma drop_last: "s \<noteq> [] \<Longrightarrow> drop (length s - Suc 0) s = [last s]"
proof -
  assume ne: "s \<noteq> []"
  have "drop (length (butlast s)) (butlast s @ [last s]) = [last s]" by simp
  then show ?thesis using append_butlast_last_id [OF ne] by (simp add: length_butlast)
qed

lemma endswith_hyphen: "endswith s ''-'' \<longleftrightarrow> s \<noteq> [] \<and> last s = CHR ''-''"
proof (cases "s = []")
  case True
  then show ?thesis by (simp add: endswith_def)
next
  case False
  then have "Suc 0 \<le> length s" by (cases s) simp_all
  then show ?thesis using False drop_last [OF False] by (simp add: endswith_def)
qed

lemma valid_fold_check_part:
  "valid (fold check_part ps r) \<longleftrightarrow> valid r \<and> (\<forall>p \<in> set ps. p \<noteq> [] \<and> length p \<le> 63)"
  by (induction ps arbitrary: r) (auto simp: check_part_def invalidate_def)

lemma validate_domain_syntax_valid:
  "valid (validate_domain_syntax s) \<longleftrightarrow>
     4 \<le> length s \<and> length s \<le> 253 \<and> re_match (Plus (Cls domain_chars)) s \<and>
     \<not> startswith s ''-'' \<and> \<not> endswith s ''-'' \<and> \<not> contains s ''..'' \<and>
     2 \<le> length (split_on (CHR ''.'') s) \<and>
     (\<forall>p \<in> set (split_on (CHR ''.'') s). p \<noteq> [] \<and> length p \<le> 63)"
  unfolding validate_domain_syntax_def Let_def valid_fold_check_part
  by (auto simp: invalidate_def)

lemma validate_domain_name_shape:
  assumes "validate_domain_name s"
  shows "length s \<le> 253 \<and>
         (\<exists>t e. s = t @ e \<and> (e = [] \<or> e = [CHR 0x0A]) \<and> t \<in> lang domain_name_pattern)"
proof -
  from assms have len: "length s \<le> 253" and m: "re_match domain_name_pattern s"
    by (auto simp: validate_domain_name_def split: if_splits)
  from m consider "full_match domain_name_pattern s"
    | "s \<noteq> []" "last s = CHR 0x0A" "full_match domain_name_pattern (butlast s)"
    by (auto simp: re_match_def)
  then have "\<exists>t e. s = t @ e \<and> (e = [] \<or> e = [CHR 0x0A]) \<and> t \<in> lang domain_name_pattern"
  proof cases
    case 1
    then have "s = s @ [] \<and> s \<in> lang domain_name_pattern"
      by (simp add: full_match_sound)
    then show ?thesis by blast
  next
    case 2
    then have "s = butlast s @ [CHR 0x0A] \<and> butlast s \<in> lang domain_name_pattern"
      using append_butlast_last_id [of s] by (simp add: full_match_sound)
    then show ?thesis by blast
  qed
  with len show ?thesis by simp
qed

text \<open>What every name accepted by \<^verbatim>\<open>DomainManager._validate_domain_name\<close> satisfies.\<close>

lemma validate_domain_name_facts:
  assumes "validate_domain_name s"
  shows "4 \<le> length s" "length s \<le> 253" "re_match (Plus (Cls domain_chars)) s"
    "hd s \<noteq> CHR ''-''" "hd s \<noteq> CHR ''.''" "last s \<noteq> CHR ''-''" "last s \<noteq> CHR ''.''"
    "\<not> contains s ''..''" "CHR ''.'' \<in> set s" "CHR ''_'' \<notin> set s"
proof -
  from validate_domain_name_shape [OF assms] obtain t e where
    len: "length s \<le> 253" and s: "s = t @ e" and e: "e = [] \<or> e = [CHR 0x0A]"
    and t: "t \<in> lang domain_name_pattern"
    by blast
  from lang_domain_name [OF t] have
    T: "t \<noteq> []" "in_class alnum (hd t)" "in_class alpha (last t)"
       "\<forall>c \<in> set t. in_class domain_chars c" "CHR ''.'' \<in> set t"
       "\<not> contains t ''..''" "4 \<le> length t"
    by blast+
  show "length s \<le> 253" by (rule len)
  show "4 \<le> length s" using T(7) s by simp
  have fm: "full_match (Plus (Cls domain_chars)) t"
    using full_match_plus_Cls [OF T(1) T(4)] .
  show "re_match (Plus (Cls domain_chars)) s"
    using e fm s by (auto simp: re_match_def)
  have hd: "hd s = hd t" using T(1) s by simp
  show "hd s \<noteq> CHR ''-''" "hd s \<noteq> CHR ''.''"
    using T(2) hd not_in_classes(1,2) alnum_alnum_hyphen by auto
  have lt: "last t \<noteq> CHR ''-''" "last t \<noteq> CHR ''.''"
    using T(3) not_in_classes(3,4) by auto
  show "last s \<noteq> CHR ''-''" "last s \<noteq> CHR ''.''"
    using e lt s T(1) by auto
  have "\<not> contains e ''..''"
    using e by (auto simp: contains_pair_Cons contains_pair_Nil simp del: contains.simps)
  then show "\<not> contains s ''..''"
    unfolding s using contains_append [of t "CHR ''.''" e] T(6) lt(2) by blast
  show "CHR ''.'' \<in> set s" using T(5) s by simp
  have "CHR ''_'' \<notin> set t" using T(4) not_in_classes(5) by auto
  then show "CHR ''_'' \<notin> set s" using e s by auto
qed

lemma validate_domain_name_parts:
  assumes "validate_domain_name s"
  shows "[] \<notin> set (split_on (CHR ''.'') s)"
proof -
  note f = validate_domain_name_facts [OF assms]
  have "s \<noteq> []" using f(1) by auto
  then show ?thesis
    using split_on_parts_nonempty [of s "CHR ''.''"] f(5) f(7) f(8) by simp
qed

lemma validate_domain_syntax_underscore:
  assumes "re_match (Plus (Cls domain_chars)) s"
  shows "CHR ''_'' \<notin> set s"
proof -
  from assms consider "full_match (Plus (Cls domain_chars)) s"
    | "s \<noteq> []" "last s = CHR 0x0A" "full_match (Plus (Cls domain_chars)) (butlast s)"
    by (auto simp: re_match_def)
  then show ?thesis
  proof cases
    case 1
    from lang_plus_Cls [OF full_match_sound [OF 1]] show ?thesis
      using not_in_classes(5) by auto
  next
    case 2
    from lang_plus_Cls [OF full_match_sound [OF 2(3)]]
    have "CHR ''_'' \<notin> set (butlast s)" using not_in_classes(5) by auto
    moreover have "set s = set (butlast s) \<union> {last s}"
      using append_butlast_last_id [OF 2(1)] by (metis list.simps(15) set_append Un_insert_right sup_bot.right_neutral list.set(1))
    ultimately show ?thesis using 2(2) by simp
  qed
qed

text \<open>What the labels of a name accepted by \<^verbatim>\<open>DomainManager._validate_domain_name\<close>
  satisfy.\<close>

lemma validate_domain_name_labels:
  assumes "validate_domain_name s"
  shows "\<forall>p \<in> set (split_on (CHR ''.'') s). p \<noteq> [] \<and> hd p \<noteq> CHR ''-'' \<and> last p \<noteq> CHR ''-''"
    and "length (hd (split_on (CHR ''.'') s)) \<le> 63"
proof -
  from validate_domain_name_shape [OF assms] obtain t e where
    s: "s = t @ e" and e: "e = [] \<or> e = [CHR 0x0A]" and t: "t \<in> lang domain_name_pattern"
    by blast
  from domain_name_decompose [OF t] obtain l a v where
    d: "t = l @ (CHR ''.'' # a) @ v" "l \<in> lang label_pattern"
       "2 \<le> length a" "\<forall>c \<in> set a. in_class alpha c"
       "v \<in> star (lang (Seq (Lit (CHR ''.'')) (Rep (Cls alpha) 2 None)))"
    by blast
  have dl: "CHR ''.'' # a \<in> lang (Seq (Lit (CHR ''.'')) (Rep (Cls alpha) 2 None))"
    using dot_label_lang [OF d(3) d(4)] .
  have dv: "(CHR ''.'' # a) @ v \<in> star (lang (Seq (Lit (CHR ''.'')) (Rep (Cls alpha) 2 None)))"
    using dl d(5) by (rule star.star_app)
  from lang_label [OF d(2)] lang_label_last [OF d(2)] have
    L: "l \<noteq> []" "in_class alnum (hd l)" "\<forall>c \<in> set l. in_class alnum_hyphen c"
       "in_class alnum (last l)" "length l \<le> 63"
    by auto
  have nd: "CHR ''.'' \<notin> set l" using L(3) not_in_classes(1) by auto
  have hl: "hd l \<noteq> CHR ''-''" "last l \<noteq> CHR ''-''"
    using L(2) L(4) not_in_classes(2) by auto
  have s': "s = l @ ((CHR ''.'' # a) @ v) @ e" using s d(1) by simp
  show "\<forall>p \<in> set (split_on (CHR ''.'') s). p \<noteq> [] \<and> hd p \<noteq> CHR ''-'' \<and> last p \<noteq> CHR ''-''"
    unfolding s' using star_dot_labels_parts [OF dv e L(1) nd hl] .
  have "split_on (CHR ''.'') s = l # split_on (CHR ''.'') (a @ v @ e)"
    unfolding s' using split_on_append [of "CHR ''.''" l "a @ v @ e"] nd by simp
  then show "length (hd (split_on (CHR ''.'') s)) \<le> 63" using L(5) by simp
qed

lemma re_match_chars:
  assumes "re_match (Plus (Cls rs)) s"
  shows "(\<forall>c \<in> set (butlast s). in_class rs c) \<and> (in_class rs (last s) \<or> last s = CHR 0x0A)"
proof -
  from assms consider "full_match (Plus (Cls rs)) s"
    | "s \<noteq> []" "last s = CHR 0x0A" "full_match (Plus (Cls rs)) (butlast s)"
    by (auto simp: re_match_def)
  then show ?thesis
  proof cases
    case 1
    from lang_plus_Cls [OF full_match_sound [OF 1]]
    have "s \<noteq> []" "\<forall>c \<in> set s. in_class rs c" by auto
    then show ?thesis using in_set_butlastD last_in_set by metis
  next
    case 2
    from lang_plus_Cls [OF full_match_sound [OF 2(3)]] 2(2) show ?thesis by simp
  qed
qed

text \<open>Every name of the grammar of the specification that has four characters or more
  is valid for \<^verbatim>\<open>DomainValidationService\<close>.\<close>

lemma spec_domain_name_service:
  assumes "spec_domain_name s" and "4 \<le> length s"
  shows "valid (validate_domain_syntax s)"
proof -
  let ?ps = "split_on (CHR ''.'') s"
  from assms(1) have len: "length s \<le> 253" and two: "2 \<le> length ?ps"
    and lab: "\<forall>p \<in> set ?ps. spec_label p"
    by (auto simp: spec_domain_name_def list_all_iff)
  have ne: "s \<noteq> []" using assms(2) by auto
  have parts: "\<forall>p \<in> set ?ps. p \<noteq> [] \<and> length p \<le> 63"
    using lab by (auto simp: spec_label_def)
  have "\<forall>c \<in> set s. in_class domain_chars c"
  proof
    fix c assume "c \<in> set s"
    from set_split_on [OF this, of "CHR ''.''"] show "in_class domain_chars c"
    proof
      assume "c = CHR ''.''"
      then show ?thesis by (simp add: dot_domain_chars)
    next
      assume "\<exists>p \<in> set ?ps. c \<in> set p"
      then obtain p where "p \<in> set ?ps" "c \<in> set p" by blast
      then have "in_class alnum_hyphen c"
        using lab by (auto simp: spec_label_def list_all_iff)
      then show ?thesis by (rule alnum_hyphen_domain_chars)
    qed
  qed
  then have chars: "re_match (Plus (Cls domain_chars)) s"
    using full_match_plus_Cls [OF ne] by (simp add: re_match_def)
  have hdp: "hd ?ps \<in> set ?ps" by simp
  then have "hd ?ps \<noteq> []" "hd (hd ?ps) \<noteq> CHR ''-''"
    using lab parts by (auto simp: spec_label_def)
  then have start: "\<not> startswith s ''-''"
    using hd_hd_split_on [of "CHR ''.''" s] by (simp add: startswith_hyphen)
  have finish: "\<not> endswith s ''-''"
  proof
    assume "endswith s ''-''"
    then have "last s = CHR ''-''" by (simp add: endswith_hyphen)
    with last_in_part [OF ne, of "CHR ''.''"]
    obtain p where "p \<in> set ?ps" "last p = CHR ''-''" by auto
    then show False using lab by (auto simp: spec_label_def)
  qed
  have "[] \<notin> set (tl ?ps)"
    using parts by (metis list.set_sel(2) split_on_not_Nil)
  then have dots: "\<not> contains s ''..''"
    using tl_split_on [of "CHR ''.''" s] ne by simp
  show ?thesis
    using assms(2) len chars start finish dots two parts
    by (simp add: validate_domain_syntax_valid)
qed

text \<open>Every name of the grammar of the specification whose labels after the first consist
  of two letters or more is accepted by \<^verbatim>\<open>DomainManager._validate_domain_name\<close>.\<close>

lemma spec_domain_name_manager:
  assumes "spec_domain_name s"
      and "list_all (\<lambda>p. 2 \<le> length p \<and> list_all (in_class alpha) p)
             (tl (split_on (CHR ''.'') s))"
  shows "validate_domain_name s"
proof -
  let ?ps = "split_on (CHR ''.'') s"
  define D where "D = lang (Seq (Lit (CHR ''.'')) (Rep (Cls alpha) 2 None))"
  from assms(1) have len: "length s \<le> 253" and two: "2 \<le> length ?ps"
    and lab: "\<forall>p \<in> set ?ps. spec_label p"
    by (auto simp: spec_domain_name_def list_all_iff)
  have ne: "s \<noteq> []" using two by auto
  from two obtain q qs where tl: "tl ?ps = q # qs"
    by (cases ?ps; cases "tl ?ps") auto
  have inD: "CHR ''.'' # p \<in> D" if "p \<in> set (tl ?ps)" for p
    using assms(2) that dot_label_lang [of p] by (auto simp: list_all_iff D_def)
  have q: "CHR ''.'' # q \<in> D" using inD tl by simp
  have "\<forall>p \<in> set qs. CHR ''.'' # p \<in> D" using inD tl by simp
  then have qs: "concat (map ((#) (CHR ''.'')) qs) \<in> star D" by (rule concat_star)
  have "(CHR ''.'' # q) @ concat (map ((#) (CHR ''.'')) qs) \<in> conc D (star D)"
    using q qs by (rule concI)
  then have rest: "concat (map ((#) (CHR ''.'')) (tl ?ps)) \<in> conc D (star D)"
    using tl by simp
  have "hd ?ps \<in> set ?ps" by simp
  then have "hd ?ps \<in> lang label_pattern" using lab spec_label_lang by blast
  then have "hd ?ps @ concat (map ((#) (CHR ''.'')) (tl ?ps)) \<in>
               conc (lang label_pattern) (conc D (star D))"
    using rest by (rule concI)
  then have "s \<in> conc (lang label_pattern) (conc D (star D))"
    by (simp only: split_on_join)
  moreover have "lang domain_name_pattern = conc (lang label_pattern) (conc D (star D))"
    by (simp only: domain_name_pattern_def Plus_def lang.simps(4,6) D_def)
  ultimately have "full_match domain_name_pattern s"
    using full_match_complete by simp
  then show ?thesis
    using ne len by (simp add: validate_domain_name_def re_match_def)
qed


lemma domain_chars_cases:
  "in_class domain_chars c \<longleftrightarrow> in_class alnum_hyphen c \<or> c = CHR ''.''"
proof -
  have "in_class domain_chars c \<longleftrightarrow>
          in_class alnum_hyphen c \<or> in_class [(CHR ''.'', CHR ''.'')] c"
    by (auto simp: in_class_def domain_chars_def alnum_hyphen_def)
  then show ?thesis by (simp only: in_class_single)
qed

text \<open>A name with the properties that the two validators share is a name of the grammar
  of the specification as soon as its labels are.\<close>

lemma spec_domain_name_intro:
  assumes "length s \<le> 253" and "CHR ''.'' \<in> set s"
      and "\<forall>c \<in> set (butlast s). in_class domain_chars c"
      and "in_class domain_chars (last s)"
      and "\<forall>p \<in> set (split_on (CHR ''.'') s).
             p \<noteq> [] \<and> length p \<le> 63 \<and> hd p \<noteq> CHR ''-'' \<and> last p \<noteq> CHR ''-''"
  shows "spec_domain_name s"
proof -
  let ?ps = "split_on (CHR ''.'') s"
  have ne: "s \<noteq> []" using assms(2) by auto
  have chars: "in_class domain_chars c" if "c \<in> set s" for c
  proof -
    have "set s = set (butlast s) \<union> {last s}"
      using append_butlast_last_id [OF ne]
      by (metis list.simps(15) set_append Un_insert_right sup_bot.right_neutral list.set(1))
    then show ?thesis using that assms(3,4) by auto
  qed
  have "spec_label p" if p: "p \<in> set ?ps" for p
  proof -
    have "in_class alnum_hyphen c" if c: "c \<in> set p" for c
    proof -
      have "c \<in> set s" using split_on_parts_subset [OF p] c by auto
      moreover have "c \<noteq> CHR ''.''" using split_on_parts_no_sep [OF p] c by auto
      ultimately show ?thesis using chars domain_chars_cases by blast
    qed
    moreover have "1 \<le> length p" using assms(5) p by (cases p) auto
    ultimately show ?thesis using assms(5) p by (simp add: spec_label_def list_all_iff)
  qed
  then show ?thesis
    using assms(1) split_on_two [OF assms(2)] by (simp add: spec_domain_name_def list_all_iff)
qed

text \<open>
  C7 (amended).  For every string \<open>s\<close>, with its labels the parts between the dots:

  \<^item> a name that the validator of \<^verbatim>\<open>DomainManager\<close> accepts and whose labels all have
    at most 63 characters is reported valid by \<^verbatim>\<open>DomainValidationService\<close>;
  \<^item> a name that either of them accepts has between 4 and 253 characters, all of them
    letters, digits, hyphens or dots, except that the last one may be a newline; it
    contains a dot, no underscore and no two consecutive dots, has no empty label, and
    neither starts nor ends with a hyphen;
  \<^item> in a name that \<^verbatim>\<open>DomainManager\<close> accepts no label starts or ends with a hyphen,
    and the first label has at most 63 characters;
  \<^item> in a name that \<^verbatim>\<open>DomainValidationService\<close> reports valid every label has at most
    63 characters;
  \<^item> a name that \<^verbatim>\<open>DomainManager\<close> accepts is a name of the grammar of the
    specification if its labels all have at most 63 characters and it does not end with
    a newline; a name that \<^verbatim>\<open>DomainValidationService\<close> reports valid is one if none of
    its labels starts or ends with a hyphen and it does not end with a newline;
  \<^item> every name of the grammar that has 4 characters or more is reported valid by
    \<^verbatim>\<open>DomainValidationService\<close>, and every name of the grammar whose labels after the
    first consist of two letters or more is accepted by \<^verbatim>\<open>DomainManager\<close>.
\<close>

theorem validators_related:
  "(validate_domain_name s \<and> (\<forall>p \<in> set (split_on (CHR ''.'') s). length p \<le> 63) \<longrightarrow>
      valid (validate_domain_syntax s)) \<and>
   (validate_domain_name s \<or> valid (validate_domain_syntax s) \<longrightarrow>
      4 \<le> length s \<and> length s \<le> 253 \<and>
      (\<forall>c \<in> set (butlast s). in_class domain_chars c) \<and>
      (in_class domain_chars (last s) \<or> last s = CHR 0x0A) \<and>
      CHR ''.'' \<in> set s \<and> CHR ''_'' \<notin> set s \<and> \<not> contains s ''..'' \<and>
      [] \<notin> set (split_on (CHR ''.'') s) \<and>
      \<not> startswith s ''-'' \<and> \<not> endswith s ''-'') \<and>
   (validate_domain_name s \<longrightarrow>
      (\<forall>p \<in> set (split_on (CHR ''.'') s). hd p \<noteq> CHR ''-'' \<and> last p \<noteq> CHR ''-'') \<and>
      length (hd (split_on (CHR ''.'') s)) \<le> 63) \<and>
   (valid (validate_domain_syntax s) \<longrightarrow>
      (\<forall>p \<in> set (split_on (CHR ''.'') s). length p \<le> 63)) \<and>
   (validate_domain_name s \<and> (\<forall>p \<in> set (split_on (CHR ''.'') s). length p \<le> 63) \<and>
    last s \<noteq> CHR 0x0A \<longrightarrow> spec_domain_name s) \<and>
   (valid (validate_domain_syntax s) \<and>
    (\<forall>p \<in> set (split_on (CHR ''.'') s). hd p \<noteq> CHR ''-'' \<and> last p \<noteq> CHR ''-'') \<and>
    last s \<noteq> CHR 0x0A \<longrightarrow> spec_domain_name s) \<and>
   (spec_domain_name s \<and> 4 \<le> length s \<longrightarrow> valid (validate_domain_syntax s)) \<and>
   (spec_domain_name s \<and>
    list_all (\<lambda>p. 2 \<le> length p \<and> list_all (in_class alpha) p) (tl (split_on (CHR ''.'') s)) \<longrightarrow>
      validate_domain_name s)"
proof -
  let ?ps = "split_on (CHR ''.'') s"
  let ?common = "4 \<le> length s \<and> length s \<le> 253 \<and>
      (\<forall>c \<in> set (butlast s). in_class domain_chars c) \<and>
      (in_class domain_chars (last s) \<or> last s = CHR 0x0A) \<and>
      CHR ''.'' \<in> set s \<and> CHR ''_'' \<notin> set s \<and> \<not> contains s ''..'' \<and>
      [] \<notin> set ?ps \<and> \<not> startswith s ''-'' \<and> \<not> endswith s ''-''"
  have manager: ?common if a: "validate_domain_name s"
  proof -
    note f = validate_domain_name_facts [OF a]
    have "s \<noteq> []" using f(1) by auto
    then show ?thesis
      using f validate_domain_name_parts [OF a] re_match_chars [OF f(3)]
      by (simp add: startswith_hyphen endswith_hyphen)
  qed
  have service: ?common if a: "valid (validate_domain_syntax s)"
  proof -
    from a have v: "4 \<le> length s" "length s \<le> 253" "re_match (Plus (Cls domain_chars)) s"
      "\<not> startswith s ''-''" "\<not> endswith s ''-''" "\<not> contains s ''..''"
      "2 \<le> length ?ps" "\<forall>p \<in> set ?ps. p \<noteq> []"
      by (auto simp: validate_domain_syntax_valid)
    have "CHR ''.'' \<in> set s"
      using v(7) split_on_one [of "CHR ''.''" s] by fastforce
    moreover have "[] \<notin> set ?ps"
      using v(8) by fastforce
    ultimately show ?thesis
      using v validate_domain_syntax_underscore [OF v(3)] re_match_chars [OF v(3)] by blast
  qed
  have forward: "valid (validate_domain_syntax s)"
    if a: "validate_domain_name s" and b: "\<forall>p \<in> set ?ps. length p \<le> 63"
  proof -
    note f = validate_domain_name_facts [OF a]
    have ne: "[] \<notin> set ?ps"
      using validate_domain_name_parts [OF a] .
    have "\<forall>p \<in> set ?ps. p \<noteq> []"
      using ne by auto
    then show ?thesis
      using f b split_on_two [OF f(9)]
      by (simp add: validate_domain_syntax_valid startswith_hyphen endswith_hyphen)
  qed
  have manager_labels:
    "(\<forall>p \<in> set ?ps. hd p \<noteq> CHR ''-'' \<and> last p \<noteq> CHR ''-'') \<and> length (hd ?ps) \<le> 63"
    if a: "validate_domain_name s"
    using validate_domain_name_labels [OF a] by blast
  have service_labels: "\<forall>p \<in> set ?ps. length p \<le> 63"
    if a: "valid (validate_domain_syntax s)"
    using a by (simp add: validate_domain_syntax_valid)
  have grammar: "spec_domain_name s"
    if c: ?common and l: "\<forall>p \<in> set ?ps. length p \<le> 63"
      and h: "\<forall>p \<in> set ?ps. hd p \<noteq> CHR ''-'' \<and> last p \<noteq> CHR ''-''"
      and n: "last s \<noteq> CHR 0x0A"
  proof (rule spec_domain_name_intro)
    show "length s \<le> 253" "CHR ''.'' \<in> set s"
      "\<forall>c \<in> set (butlast s). in_class domain_chars c" "in_class domain_chars (last s)"
      using c n by blast+
    show "\<forall>p \<in> set ?ps. p \<noteq> [] \<and> length p \<le> 63 \<and> hd p \<noteq> CHR ''-'' \<and> last p \<noteq> CHR ''-''"
      using c l h by metis
  qed
  have manager_grammar: "spec_domain_name s"
    if a: "validate_domain_name s" and l: "\<forall>p \<in> set ?ps. length p \<le> 63"
      and n: "last s \<noteq> CHR 0x0A"
    using grammar [OF manager [OF a] l _ n] manager_labels [OF a] by blast
  have service_grammar: "spec_domain_name s"
    if a: "valid (validate_domain_syntax s)"
      and h: "\<forall>p \<in> set ?ps. hd p \<noteq> CHR ''-'' \<and> last p \<noteq> CHR ''-''"
      and n: "last s \<noteq> CHR 0x0A"
    using grammar [OF service [OF a] service_labels [OF a] h n] .
  have service_complete: "valid (validate_domain_syntax s)"
    if "spec_domain_name s" "4 \<le> length s"
    using spec_domain_name_service [OF that] .
  have manager_complete: "validate_domain_name s"
    if "spec_domain_name s"
       "list_all (\<lambda>p. 2 \<le> length p \<and> list_all (in_class alpha) p) (tl ?ps)"
    using spec_domain_name_manager [OF that] .
  show ?thesis
    using manager service forward manager_labels service_labels manager_grammar
      service_grammar service_complete manager_complete
    by blast
qed

text \<open>
  The claim as stated fails: \<^verbatim>\<open>a.b.com\<close> is a name of the grammar, with a second label
  of one letter; the pattern of \<^verbatim>\<open>DomainManager\<close>, which asks for two letters or more
  in every label after the first, rejects it, and \<^verbatim>\<open>DomainValidationService\<close> reports
  it valid.
\<close>

theorem validators_differ_counterexample:
  "spec_domain_name ''a.b.com'' \<and> \<not> validate_domain_name ''a.b.com'' \<and>
   valid (validate_domain_syntax ''a.b.com'')"
  by code_simp

text \<open>A name of the grammar that both validators accept.\<close>

theorem validators_related_witness:
  "validate_domain_name ''example.com'' \<and> valid (validate_domain_syntax ''example.com'') \<and>
   spec_domain_name ''example.com'' \<and>
   split_on (CHR ''.'') ''example.com'' = [''example'', ''com''] \<and>
   4 \<le> length ''example.com'' \<and> length ''example.com'' \<le> 253 \<and>
   last ''example.com'' \<noteq> CHR 0x0A \<and>
   list_all (\<lambda>p. 2 \<le> length p \<and> list_all (in_class alpha) p) [''com''] \<and>
   list_all (in_class domain_chars) (butlast ''example.com'') \<and>
   in_class domain_chars (last ''example.com'') \<and>
   CHR ''.'' \<in> set ''example.com'' \<and> CHR ''_'' \<notin> set ''example.com'' \<and>
   \<not> contains ''example.com'' ''..'' \<and>
   \<not> startswith ''example.com'' ''-'' \<and> \<not> endswith ''example.com'' ''-''"
proof -
  have a: "validate_domain_name ''example.com''"
    by (simp add: validate_domain_name_def regex_eval)
  have b: "split_on (CHR ''.'') ''example.com'' = [''example'', ''com'']"
    by simp
  have c: "spec_domain_name ''example.com''"
    by code_simp
  have d: "list_all (\<lambda>p. 2 \<le> length p \<and> list_all (in_class alpha) p) [''com'']"
    by code_simp
  have e: "in_class domain_chars (last ''example.com'')"
    by code_simp
  have f: "list_all (in_class domain_chars) (butlast ''example.com'')"
    by code_simp
  show ?thesis
    using validators_related [of "''example.com''"] a b c d e f by simp
qed

text \<open>
  Two further names on which the validators differ.  The pattern of \<^verbatim>\<open>DomainManager\<close>
  bounds the length of the first label only; \<^verbatim>\<open>DomainValidationService\<close> tests the
  hyphen at the two ends of the whole name only.
\<close>

lemma long_label:
  "validate_domain_name (''a.'' @ replicate 64 (CHR ''b'')) \<and>
   \<not> valid (validate_domain_syntax (''a.'' @ replicate 64 (CHR ''b'')))"
  by code_simp

lemma hyphen_at_end_of_label:
  "\<not> validate_domain_name ''test-.com'' \<and> valid (validate_domain_syntax ''test-.com'')"
  by (simp add: validate_domain_name_def validate_domain_syntax_def regex_eval domain_chars_def
      check_part_def invalidate_def startswith_def endswith_def)

end
